theory Spec2Isabelle
  imports Main "HOL-Library.Word" "HOL-Library.Monad_Syntax" "HOL-Library.Sublist"
    "HOL-Library.Multiset" "HOL-Library.Signed_Division"
begin

section \<open>Data model of TpccGenSC.cpp\<close>

text \<open>
  The C++ \<open>int\<close> is a 32-bit machine integer: \<open>+\<close> and \<open>-\<close> wrap around, \<open><s\<close> and
  \<open>sint\<close> are the signed reading used by the transaction procedures, \<open><\<close> and \<open>uint\<close> the
  unsigned reading that is in force between \<open>#define int unsigned int\<close> (line 201) and
  \<open>#undef int\<close> (line 1464), that is, inside every index struct. A \<open>date\<close> is a 64-bit
  integer, a \<open>PString\<close> is the byte string it holds. The type \<open>'d\<close> stands for the
  C++ \<open>double\<close>: the procedures are polymorphic in it and use nothing but the operations
  they are given, so that no law of real arithmetic is assumed for floating point.
\<close>

type_synonym int32 = "32 word"
type_synonym date = "64 word"
type_synonym PString = string

text \<open>struct SEntry5_IISDS: a row of the item table.\<close>

record 'd SEntry5_IISDS =
  i_1 :: int32
  i_2 :: int32
  i_3 :: PString
  i_4 :: 'd
  i_5 :: PString

text \<open>struct SEntry11_IISSSSSSDDI: a row of the district table.\<close>

record 'd SEntry11_IISSSSSSDDI =
  d_1 :: int32
  d_2 :: int32
  d_3 :: PString
  d_4 :: PString
  d_5 :: PString
  d_6 :: PString
  d_7 :: PString
  d_8 :: PString
  d_9 :: 'd
  d_10 :: 'd
  d_11 :: int32

text \<open>struct SEntry21_IIISSSSSSSSSTSDDDDIIS: a row of the customer table.\<close>

record 'd SEntry21_IIISSSSSSSSSTSDDDDIIS =
  c_1 :: int32
  c_2 :: int32
  c_3 :: int32
  c_4 :: PString
  c_5 :: PString
  c_6 :: PString
  c_7 :: PString
  c_8 :: PString
  c_9 :: PString
  c_10 :: PString
  c_11 :: PString
  c_12 :: PString
  c_13 :: date
  c_14 :: PString
  c_15 :: 'd
  c_16 :: 'd
  c_17 :: 'd
  c_18 :: 'd
  c_19 :: int32
  c_20 :: int32
  c_21 :: PString

text \<open>struct SEntry8_IIIITIIB: a row of the order table.\<close>

record SEntry8_IIIITIIB =
  o_1 :: int32
  o_2 :: int32
  o_3 :: int32
  o_4 :: int32
  o_5 :: date
  o_6 :: int32
  o_7 :: int32
  o_8 :: int32

text \<open>struct SEntry3_III: a row of the new_order table.\<close>

record SEntry3_III =
  no_1 :: int32
  no_2 :: int32
  no_3 :: int32

text \<open>struct SEntry8_IIIIITDS: a row of the history table.\<close>

record 'd SEntry8_IIIIITDS =
  h_1 :: int32
  h_2 :: int32
  h_3 :: int32
  h_4 :: int32
  h_5 :: int32
  h_6 :: date
  h_7 :: 'd
  h_8 :: PString

text \<open>struct SEntry17_IIISSSSSSSSSSIIIS: a row of the stock table.\<close>

record SEntry17_IIISSSSSSSSSSIIIS =
  s_1 :: int32
  s_2 :: int32
  s_3 :: int32
  s_4 :: PString
  s_5 :: PString
  s_6 :: PString
  s_7 :: PString
  s_8 :: PString
  s_9 :: PString
  s_10 :: PString
  s_11 :: PString
  s_12 :: PString
  s_13 :: PString
  s_14 :: int32
  s_15 :: int32
  s_16 :: int32
  s_17 :: PString

text \<open>struct SEntry10_IIIIIITIDS: a row of the order_line table.\<close>

record 'd SEntry10_IIIIIITIDS =
  ol_1 :: int32
  ol_2 :: int32
  ol_3 :: int32
  ol_4 :: int32
  ol_5 :: int32
  ol_6 :: int32
  ol_7 :: date
  ol_8 :: int32
  ol_9 :: 'd
  ol_10 :: PString

text \<open>struct SEntry9_ISSSSSSDD: a row of the warehouse table.\<close>

record 'd SEntry9_ISSSSSSDD =
  w_1 :: int32
  w_2 :: PString
  w_3 :: PString
  w_4 :: PString
  w_5 :: PString
  w_6 :: PString
  w_7 :: PString
  w_8 :: 'd
  w_9 :: 'd

section \<open>The comparator of the history index\<close>

text \<open>
  \<open>SEntry8_IIIIITDS_Idx::cmp\<close> (lines 807 to 1045) is compiled under
  \<open>#define int unsigned int\<close>: each \<open>int x = row._k\<close> is an \<open>unsigned int\<close>. The literal
  \<open>-2147483648\<close> is the negation of \<open>2147483648\<close>, which does not fit \<open>int\<close> and so has a 64-bit
  signed type; in \<open>x == (-2147483648)\<close> the unsigned \<open>x\<close> is zero-extended to that type, so
  the comparison is between \<open>uint x\<close> and the negative number. The double comparison
  \<open>==\<close> is the parameter \<open>deq\<close> and the literal \<open>-1.7976931348623157E308\<close> the
  parameter \<open>dmin\<close>.
\<close>

definition int_sentinel :: "int32 \<Rightarrow> bool" where
  "int_sentinel x = (uint x = - 2147483648)"

definition SEntry8_IIIIITDS_Idx_cmp ::
  "('d \<Rightarrow> 'd \<Rightarrow> bool) \<Rightarrow> 'd \<Rightarrow> 'd SEntry8_IIIIITDS \<Rightarrow> 'd SEntry8_IIIIITDS \<Rightarrow> int" where
  "SEntry8_IIIIITDS_Idx_cmp deq dmin x3902 x3903 =
    (let x3904 = h_1 x3902; x3905 = h_1 x3903;
         x18378 = (if int_sentinel x3904 then True else int_sentinel x3905);
         x18380 = (if x18378 then True else x3904 = x3905);
         x18382 = (if x18380 then
                     (let x3911 = h_2 x3902; x3912 = h_2 x3903;
                          x18418 = (if int_sentinel x3911 then True else int_sentinel x3912)
                      in if x18418 then True else x3911 = x3912)
                   else False);
         x18384 = (if x18382 then
                     (let x3919 = h_3 x3902; x3920 = h_3 x3903;
                          x18431 = (if int_sentinel x3919 then True else int_sentinel x3920)
                      in if x18431 then True else x3919 = x3920)
                   else False);
         x18386 = (if x18384 then
                     (let x3927 = h_4 x3902; x3928 = h_4 x3903;
                          x18444 = (if int_sentinel x3927 then True else int_sentinel x3928)
                      in if x18444 then True else x3927 = x3928)
                   else False);
         x18388 = (if x18386 then
                     (let x3935 = h_5 x3902; x3936 = h_5 x3903;
                          x18457 = (if int_sentinel x3935 then True else int_sentinel x3936)
                      in if x18457 then True else x3935 = x3936)
                   else False);
         x18390 = (if x18388 then
                     (let x3943 = h_6 x3902; x3944 = h_6 x3903;
                          x18470 = (if x3943 = 0 then True else x3944 = 0)
                      in if x18470 then True else x3943 = x3944)
                   else False);
         x18392 = (if x18390 then
                     (let x3951 = h_7 x3902; x3952 = h_7 x3903;
                          x18483 = (if deq x3951 dmin then True else deq x3952 dmin)
                      in if x18483 then True else deq x3951 x3952)
                   else False)
     in if x18392 then 0 else 1)"


section \<open>The table store\<close>

text \<open>
  Undefined behaviour of the C++ (a null pointer dereferenced, an array read or written
  out of range, a variable-length array of negative size) is the result \<open>None\<close>.
\<close>

text \<open>
  The five tables with an \<open>ArrayIndex\<close> primary index are arrays of slots, a slot being
  empty or holding a row; a pointer to a row is its slot number. The four tables with a
  \<open>HashIndex\<close> primary index are the list of their rows in the order of the slab; a
  pointer to a row is its position.
\<close>

record 'd store =
  warehouseTbl :: "'d SEntry9_ISSSSSSDD option list"
  districtTbl :: "'d SEntry11_IISSSSSSDDI option list"
  customerTbl :: "'d SEntry21_IIISSSSSSSSSTSDDDDIIS option list"
  itemTbl :: "'d SEntry5_IISDS option list"
  stockTbl :: "SEntry17_IIISSSSSSSSSSIIIS option list"
  orderTbl :: "SEntry8_IIIITIIB list"
  newOrderTbl :: "SEntry3_III list"
  orderLineTbl :: "'d SEntry10_IIIIIITIDS list"
  historyTbl :: "'d SEntry8_IIIIITDS list"

subsection \<open>The index functions of the source\<close>

text \<open>
  The \<open>hash\<close> of each \<open>ArrayIndex\<close> struct (lines 1360 to 1463), in \<open>unsigned int\<close>
  arithmetic, returned as \<open>size_t\<close>. Each takes the fields of the probe that the source
  reads, in the order it reads them.
\<close>

definition SEntry9_ISSSSSSDD_Idx1f1t2_hash :: "int32 \<Rightarrow> nat" where
  "SEntry9_ISSSSSSDD_Idx1f1t2_hash x3972 =
    (let x3971 = (0::int32); x3973 = x3972 - 1; x3975 = x3971 * 1; x3976 = x3975 + x3973
     in unat x3976)"

definition SEntry5_IISDS_Idx1f1t100001_hash :: "int32 \<Rightarrow> nat" where
  "SEntry5_IISDS_Idx1f1t100001_hash x3991 =
    (let x3990 = (0::int32); x3992 = x3991 - 1; x3994 = x3990 * 100000; x3995 = x3994 + x3992
     in unat x3995)"

definition SEntry11_IISSSSSSDDI_Idx1f1t11_2f1t2_hash :: "int32 \<Rightarrow> int32 \<Rightarrow> nat" where
  "SEntry11_IISSSSSSDDI_Idx1f1t11_2f1t2_hash x4236 x4242 =
    (let x4235 = (0::int32); x4237 = x4236 - 1; x4239 = x4235 * 10; x4240 = x4239 + x4237;
         x4243 = x4242 - 1; x4245 = x4240 * 1; x4246 = x4245 + x4243
     in unat x4246)"

definition SEntry21_IIISSSSSSSSSTSDDDDIIS_Idx1f1t3001_2f1t11_3f1t2_hash ::
  "int32 \<Rightarrow> int32 \<Rightarrow> int32 \<Rightarrow> nat" where
  "SEntry21_IIISSSSSSSSSTSDDDDIIS_Idx1f1t3001_2f1t11_3f1t2_hash x4434 x4440 x4446 =
    (let x4433 = (0::int32); x4435 = x4434 - 1; x4437 = x4433 * 3000; x4438 = x4437 + x4435;
         x4441 = x4440 - 1; x4443 = x4438 * 10; x4444 = x4443 + x4441;
         x4447 = x4446 - 1; x4449 = x4444 * 1; x4450 = x4449 + x4447
     in unat x4450)"

definition SEntry17_IIISSSSSSSSSSIIIS_Idx1f1t100001_2f1t2_hash :: "int32 \<Rightarrow> int32 \<Rightarrow> nat" where
  "SEntry17_IIISSSSSSSSSSIIIS_Idx1f1t100001_2f1t2_hash x4540 x4546 =
    (let x4539 = (0::int32); x4541 = x4540 - 1; x4543 = x4539 * 100000; x4544 = x4543 + x4541;
         x4547 = x4546 - 1; x4549 = x4544 * 1; x4550 = x4549 + x4547
     in unat x4550)"

text \<open>
  The \<open>cmp\<close> of the structs of the unique \<open>HashIndex\<close> indices: 0 when the key fields
  agree, 1 otherwise. The first arguments are the key fields of the first row (the
  probe), the only ones of it that are read; the last argument is the second row.
\<close>

definition SEntry8_IIIITIIB_Idx123_cmp :: "int32 \<Rightarrow> int32 \<Rightarrow> int32 \<Rightarrow> SEntry8_IIIITIIB \<Rightarrow> int" where
  "SEntry8_IIIITIIB_Idx123_cmp x4068 x4071 x4075 x4067 =
    (let x18970 = (if x4068 = o_1 x4067 then x4071 = o_2 x4067 else False);
         x18972 = (if x18970 then x4075 = o_3 x4067 else False)
     in if x18972 then 0 else 1)"

definition SEntry3_III_Idx123_cmp :: "int32 \<Rightarrow> int32 \<Rightarrow> int32 \<Rightarrow> SEntry3_III \<Rightarrow> int" where
  "SEntry3_III_Idx123_cmp x3640 x3643 x3647 x3639 =
    (let x18014 = (if x3640 = no_1 x3639 then x3643 = no_2 x3639 else False);
         x18016 = (if x18014 then x3647 = no_3 x3639 else False)
     in if x18016 then 0 else 1)"

definition SEntry10_IIIIIITIDS_Idx1234_cmp ::
  "int32 \<Rightarrow> int32 \<Rightarrow> int32 \<Rightarrow> int32 \<Rightarrow> 'd SEntry10_IIIIIITIDS \<Rightarrow> int" where
  "SEntry10_IIIIIITIDS_Idx1234_cmp x4331 x4334 x4338 x4342 x4330 =
    (let x17778 = (if x4331 = ol_1 x4330 then x4334 = ol_2 x4330 else False);
         x17780 = (if x17778 then x4338 = ol_3 x4330 else False);
         x17782 = (if x17780 then x4342 = ol_4 x4330 else False)
     in if x17782 then 0 else 1)"

subsection \<open>The store operations\<close>

text \<open>
  Modelled from the spec: the class templates \<open>ArrayIndex\<close>, \<open>HashIndex\<close>, \<open>TreeIndex\<close> and
  \<open>MultiHashMap\<close> of \<open>mmap.hpp\<close>, which is not among the sources. An \<open>ArrayIndex\<close> is
  direct-addressed by the hash, with no collision resolution; \<open>get\<close> is the slot at
  the hash of the probe, and a null pointer when the hash is beyond the capacity or the
  slot is empty.
\<close>

definition ArrayIndex_get :: "'r option list \<Rightarrow> nat \<Rightarrow> 'r option" where
  "ArrayIndex_get tbl h = (if h < length tbl then tbl ! h else None)"

text \<open>
  Modelled from the spec: \<open>get\<close> on a \<open>HashIndex\<close> returns the first matching row. The
  result is the position of the first row of the slab that satisfies \<open>P\<close>.
\<close>

fun first_pos :: "('r \<Rightarrow> bool) \<Rightarrow> 'r list \<Rightarrow> nat option" where
  "first_pos P [] = None"
| "first_pos P (r # rs) = (if P r then Some 0 else map_option Suc (first_pos P rs))"

text \<open>
  Modelled from the spec: \<open>add\<close> of \<open>MultiHashMap\<close> (\<open>mmap.hpp\<close>, not among the sources)
  appends a row and inserts it into every index, with no duplicate check beyond what a
  unique index provides; inserting a duplicate key into a unique index overwrites.
  \<open>unique\<close> is the last template argument of the primary index, \<open>cmp\<close> its comparator
  applied to the new row.
\<close>

definition add :: "('r \<Rightarrow> 'r \<Rightarrow> int) \<Rightarrow> bool \<Rightarrow> 'r \<Rightarrow> 'r list \<Rightarrow> 'r list" where
  "add cmp unique row tbl =
    (if unique then
       (case first_pos (\<lambda>r. cmp row r = 0) tbl of
          Some i \<Rightarrow> tbl[i := row]
        | None \<Rightarrow> tbl @ [row])
     else tbl @ [row])"

text \<open>C arrays reached through a pointer: an index out of range is undefined behaviour.\<close>

definition arr_get :: "'a list \<Rightarrow> int32 \<Rightarrow> 'a option" where
  "arr_get xs i = (if 0 \<le>s i \<and> nat (sint i) < length xs then Some (xs ! nat (sint i)) else None)"

definition arr_set :: "'a list \<Rightarrow> int32 \<Rightarrow> 'a \<Rightarrow> 'a list option" where
  "arr_set xs i v = (if 0 \<le>s i \<and> nat (sint i) < length xs then Some (xs[nat (sint i) := v]) else None)"

text \<open>
  \<open>strstr\<close> of the C library: the position of the first occurrence of the needle, or
  \<open>None\<close> for the null pointer.
\<close>

fun strstr :: "string \<Rightarrow> string \<Rightarrow> nat option" where
  "strstr [] n = (if n = [] then Some 0 else None)"
| "strstr (c # cs) n = (if prefix n (c # cs) then Some 0 else map_option Suc (strstr cs n))"

text \<open>A signed counter below a signed bound is incremented without overflow.\<close>

lemma sint_succ: "x <s (y::int32) \<Longrightarrow> sint (x + 1) = sint x + 1"
proof -
  assume "x <s y"
  then have "sint x < sint y" by (simp add: word_sless_alt)
  moreover have "sint y < 2 ^ 31" using sint_lt[of y] by simp
  moreover have "- (2 ^ 31) \<le> sint x" using sint_ge[of x] by simp
  ultimately have "signed_take_bit 31 (sint x + 1) = sint x + 1"
    by (intro signed_take_bit_int_eq_self) auto
  then show ?thesis by (simp add: sint_word_ariths)
qed

section \<open>NewOrderTx\<close>

text \<open>
  The arrays of the \<open>NewOrder\<close> program record that \<open>main\<close> passes by pointer:
  \<open>x280 = itemid\<close>, \<open>x281 = supware\<close>, \<open>x282 = quantity\<close> are read, \<open>x283 = price\<close>,
  \<open>x284 = iname\<close>, \<open>x285 = stock\<close>, \<open>x286 = bg\<close>, \<open>x287 = amt\<close> are written.
\<close>

record 'd NewOrder =
  itemid :: "int32 list"
  supware :: "int32 list"
  quantity :: "int32 list"
  price :: "'d list"
  iname :: "PString list"
  stock :: "int32 list"
  bg :: "PString list"
  amt :: "'d list"

text \<open>
  The body of the first loop (lines 1805 to 1824) at counter \<open>x289\<close>: the flag \<open>x297\<close>,
  the arrays \<open>x283\<close>, \<open>x284\<close> and the local array \<open>idata\<close> are the loop state.
\<close>

definition NewOrder_item ::
  "'d SEntry5_IISDS option list \<Rightarrow> int32 list \<Rightarrow> int32 \<Rightarrow>
   int32 \<times> 'd list \<times> PString list \<times> PString list \<Rightarrow>
   (int32 \<times> 'd list \<times> PString list \<times> PString list) option" where
  "NewOrder_item x4002 x280 x289 st =
    (case st of (x297, x283, x284, idata) \<Rightarrow>
      do {
        x305 \<leftarrow> arr_get x280 x289;
        case ArrayIndex_get x4002 (SEntry5_IISDS_Idx1f1t100001_hash x305) of
          None \<Rightarrow> Some (0, x283, x284, idata)
        | Some x11168 \<Rightarrow>
            do {
              x284' \<leftarrow> arr_set x284 x289 (i_3 x11168);
              x283' \<leftarrow> arr_set x283 x289 (i_4 x11168);
              idata' \<leftarrow> arr_set idata x289 (i_5 x11168);
              Some (x297, x283', x284', idata')
            }
      })"

text \<open>The first loop (lines 1789 to 1825): it runs while \<open>x289 < x278\<close> and \<open>x297\<close>.\<close>

function NewOrder_items ::
  "'d SEntry5_IISDS option list \<Rightarrow> int32 \<Rightarrow> int32 list \<Rightarrow> int32 \<Rightarrow>
   int32 \<times> 'd list \<times> PString list \<times> PString list \<Rightarrow>
   (int32 \<times> 'd list \<times> PString list \<times> PString list) option" where
  "NewOrder_items x4002 x278 x280 x289 st =
    (if (if x289 <s x278 then fst st else 0) = 0 then Some st
     else case NewOrder_item x4002 x280 x289 st of
            None \<Rightarrow> None
          | Some st' \<Rightarrow> NewOrder_items x4002 x278 x280 (x289 + 1) st')"
  by pat_completeness auto


termination
  by (relation "measure (\<lambda>(x4002, x278, x280, x289, st). nat (sint x278 - sint x289))")
     (auto simp add: sint_succ word_sless_alt split: if_splits)

declare NewOrder_items.simps [simp del]

text \<open>
  The body of the second loop (lines 1855 to 1996) at counter \<open>x289\<close>. \<open>x11191\<close> and
  \<open>x11194\<close> are the customer and warehouse pointers, null when the lookup failed, and
  \<open>x11198\<close> is the district row; \<open>x8112\<close> is the order id. The loop state is the stock
  table, the order_line table, the arrays \<open>x285\<close>, \<open>x286\<close>, \<open>x287\<close> and the total \<open>x352\<close>.
  \<open>i2d\<close> is the conversion of an \<open>int\<close> to \<open>double\<close>.
\<close>

definition NewOrder_line ::
  "(int32 \<Rightarrow> 'd) \<Rightarrow> int32 \<Rightarrow> int32 \<Rightarrow> int32 \<Rightarrow>
   int32 list \<Rightarrow> int32 list \<Rightarrow> int32 list \<Rightarrow> 'd list \<Rightarrow>
   'd SEntry21_IIISSSSSSSSSTSDDDDIIS option \<Rightarrow> 'd SEntry9_ISSSSSSDD option \<Rightarrow>
   'd SEntry11_IISSSSSSDDI \<Rightarrow> int32 \<Rightarrow>
   SEntry17_IIISSSSSSSSSSIIIS option list \<times> 'd SEntry10_IIIIIITIDS list \<times>
     int32 list \<times> PString list \<times> 'd list \<times> 'd \<Rightarrow>
   (SEntry17_IIISSSSSSSSSSIIIS option list \<times> ('d::{one,plus,minus,times}) SEntry10_IIIIIITIDS list \<times>
     int32 list \<times> PString list \<times> 'd list \<times> 'd) option" where
  "NewOrder_line i2d x275 x276 x8112 x280 x281 x282 x283 x11191 x11194 x11198 x289 st =
    (case st of (x4557, x4425, x285, x286, x287, x352) \<Rightarrow>
      do {
        ol_supply_w_id \<leftarrow> arr_get x281 x289;
        ol_i_id \<leftarrow> arr_get x280 x289;
        ol_quantity \<leftarrow> arr_get x282 x289;
        let h = SEntry17_IIISSSSSSSSSSIIIS_Idx1f1t100001_2f1t2_hash ol_i_id ol_supply_w_id;
        x11223 \<leftarrow> ArrayIndex_get x4557 h;
        let ol_dist_info =
          (if x276 = 1 then s_4 x11223 else if x276 = 2 then s_5 x11223
           else if x276 = 3 then s_6 x11223 else if x276 = 4 then s_7 x11223
           else if x276 = 5 then s_8 x11223 else if x276 = 6 then s_9 x11223
           else if x276 = 7 then s_10 x11223 else if x276 = 8 then s_11 x11223
           else if x276 = 9 then s_12 x11223 else s_13 x11223);
        let x8164 = s_3 x11223;
        x285' \<leftarrow> arr_set x285 x289 x8164;
        x11191' \<leftarrow> x11191;
        let x16196 = (if strstr (c_14 x11191') ''original'' \<noteq> None
                      then strstr (s_17 x11223) ''original'' \<noteq> None else False);
        x286' \<leftarrow> arr_set x286 x289 (if x16196 then ''B'' else ''G'');
        let x11223 = x11223\<lparr>s_3 := x8164 - ol_quantity\<rparr>;
        let x11223 = (if x8164 \<le>s ol_quantity then x11223\<lparr>s_3 := s_3 x11223 + 91\<rparr> else x11223);
        let x419 = (if ol_supply_w_id \<noteq> x275 then (1::int32) else 0);
        let x4557' = x4557[h := Some x11223];
        let x8187 = c_16 x11191';
        x11194' \<leftarrow> x11194;
        let x8188 = w_8 x11194';
        let x8189 = d_9 x11198;
        x433 \<leftarrow> arr_get x283 x289;
        let ol_amount = ((i2d ol_quantity * x433) * ((1 + x8188) + x8189)) * (1 - x8187);
        x287' \<leftarrow> arr_set x287 x289 ol_amount;
        let x352' = x352 + ol_amount;
        let x17013 = \<lparr>ol_1 = x8112, ol_2 = x276, ol_3 = x275, ol_4 = x289 + 1, ol_5 = ol_i_id,
                       ol_6 = ol_supply_w_id, ol_7 = 0, ol_8 = ol_quantity, ol_9 = ol_amount,
                       ol_10 = ol_dist_info\<rparr>;
        Some (x4557', add (\<lambda>a. SEntry10_IIIIIITIDS_Idx1234_cmp (ol_1 a) (ol_2 a) (ol_3 a) (ol_4 a)) True x17013 x4425, x285', x286', x287', x352')
      })"

text \<open>The second loop (lines 1850 to 1997): it runs while \<open>x289 < x278\<close>.\<close>

function NewOrder_lines ::
  "(int32 \<Rightarrow> 'd) \<Rightarrow> int32 \<Rightarrow> int32 \<Rightarrow> int32 \<Rightarrow> int32 \<Rightarrow>
   int32 list \<Rightarrow> int32 list \<Rightarrow> int32 list \<Rightarrow> 'd list \<Rightarrow>
   'd SEntry21_IIISSSSSSSSSTSDDDDIIS option \<Rightarrow> 'd SEntry9_ISSSSSSDD option \<Rightarrow>
   'd SEntry11_IISSSSSSDDI \<Rightarrow> int32 \<Rightarrow>
   SEntry17_IIISSSSSSSSSSIIIS option list \<times> 'd SEntry10_IIIIIITIDS list \<times>
     int32 list \<times> PString list \<times> 'd list \<times> 'd \<Rightarrow>
   (SEntry17_IIISSSSSSSSSSIIIS option list \<times> ('d::{one,plus,minus,times}) SEntry10_IIIIIITIDS list \<times>
     int32 list \<times> PString list \<times> 'd list \<times> 'd) option" where
  "NewOrder_lines i2d x275 x276 x278 x8112 x280 x281 x282 x283 x11191 x11194 x11198 x289 st =
    (if \<not> x289 <s x278 then Some st
     else case NewOrder_line i2d x275 x276 x8112 x280 x281 x282 x283 x11191 x11194 x11198 x289 st of
            None \<Rightarrow> None
          | Some st' \<Rightarrow>
              NewOrder_lines i2d x275 x276 x278 x8112 x280 x281 x282 x283 x11191 x11194 x11198
                (x289 + 1) st')"
  by pat_completeness auto
termination
  by (relation "measure (\<lambda>(i2d, x275, x276, x278, x8112, x280, x281, x282, x283, x11191, x11194,
                          x11198, x289, st). nat (sint x278 - sint x289))")
     (auto simp add: sint_succ word_sless_alt)

declare NewOrder_lines.simps [simp del]

text \<open>
  \<open>NewOrderTx\<close> (lines 1784 to 1999). The local array \<open>PString idata[x278]\<close> has a negative
  size when \<open>x278 < 0\<close>. The write phase is guarded by the flag \<open>x326\<close> that the first loop
  leaves. The result is the store and the caller's arrays after the call.
\<close>

definition NewOrderTx ::
  "(int32 \<Rightarrow> 'd) \<Rightarrow> 'd store \<Rightarrow> int32 \<Rightarrow> date \<Rightarrow> int32 \<Rightarrow> int32 \<Rightarrow> int32 \<Rightarrow> int32 \<Rightarrow> int32 \<Rightarrow> int32 \<Rightarrow>
   'd NewOrder \<Rightarrow> (('d::{zero,one,plus,minus,times}) store \<times> 'd NewOrder) option" where
  "NewOrderTx i2d s x272 x273 x274 x275 x276 x277 x278 x279 p =
    (if x278 <s 0 then None
     else case NewOrder_items (itemTbl s) x278 (itemid p) 0
                 (1, price p, iname p, replicate (nat (sint x278)) []) of
       None \<Rightarrow> None
     | Some (x326, x283, x284, idata) \<Rightarrow>
         if x326 \<noteq> 0 then
           (let x11191 = ArrayIndex_get (customerTbl s)
                  (SEntry21_IIISSSSSSSSSTSDDDDIIS_Idx1f1t3001_2f1t11_3f1t2_hash x277 x276 x275);
                x11194 = ArrayIndex_get (warehouseTbl s) (SEntry9_ISSSSSSDD_Idx1f1t2_hash x275);
                h = SEntry11_IISSSSSSDDI_Idx1f1t11_2f1t2_hash x276 x275
            in case ArrayIndex_get (districtTbl s) h of
                 None \<Rightarrow> None
               | Some x11198 \<Rightarrow>
                   (let x8112 = d_11 x11198;
                        x11198 = x11198\<lparr>d_11 := d_11 x11198 + 1\<rparr>;
                        x4253 = (districtTbl s)[h := Some x11198];
                        x16881 = \<lparr>o_1 = x8112, o_2 = x276, o_3 = x275, o_4 = x277, o_5 = x273,
                                   o_6 = - 1, o_7 = x278, o_8 = (if 0 <s x279 then 1 else 0)\<rparr>;
                        x4226 = add (\<lambda>a. SEntry8_IIIITIIB_Idx123_cmp (o_1 a) (o_2 a) (o_3 a)) True x16881 (orderTbl s);
                        x16885 = \<lparr>no_1 = x8112, no_2 = x276, no_3 = x275\<rparr>;
                        x3764 = add (\<lambda>a. SEntry3_III_Idx123_cmp (no_1 a) (no_2 a) (no_3 a)) True x16885 (newOrderTbl s)
                    in case NewOrder_lines i2d x275 x276 x278 x8112 (itemid p) (supware p)
                              (quantity p) x283 x11191 x11194 x11198 0
                              (stockTbl s, orderLineTbl s, stock p, bg p, amt p, 0) of
                         None \<Rightarrow> None
                       | Some (x4557, x4425, x285, x286, x287, x352) \<Rightarrow>
                           Some (s\<lparr>districtTbl := x4253, stockTbl := x4557, orderTbl := x4226,
                                    newOrderTbl := x3764, orderLineTbl := x4425\<rparr>,
                                 p\<lparr>price := x283, iname := x284, stock := x285, bg := x286,
                                    amt := x287\<rparr>)))
         else Some (s, p\<lparr>price := x283, iname := x284\<rparr>))"


text \<open>The item row that the lookup of line \<open>j\<close> returns (line 1808), if any.\<close>

definition item_of :: "'d SEntry5_IISDS option list \<Rightarrow> int32 list \<Rightarrow> nat \<Rightarrow> 'd SEntry5_IISDS option" where
  "item_of x4002 x280 j = ArrayIndex_get x4002 (SEntry5_IISDS_Idx1f1t100001_hash (x280 ! j))"

section \<open>StockLevelTx\<close>

text \<open>
  The \<open>cmp\<close> of \<open>SEntry10_IIIIIITIDS_Idx123\<close> (lines 572 to 604), the secondary index of
  order_line. The first three arguments are the fields \<open>_1\<close>, \<open>_2\<close>, \<open>_3\<close> of the probe
  \<open>x4407\<close>, the only ones that are read.
\<close>

definition SEntry10_IIIIIITIDS_Idx123_cmp ::
  "int32 \<Rightarrow> int32 \<Rightarrow> int32 \<Rightarrow> 'd SEntry10_IIIIIITIDS \<Rightarrow> int" where
  "SEntry10_IIIIIITIDS_Idx123_cmp x4409 x4412 x4416 x4408 =
    (let x18122 = (if x4409 = ol_1 x4408 then x4412 = ol_2 x4408 else False);
         x18124 = (if x18122 then x4416 = ol_3 x4408 else False)
     in if x18124 then 0 else 1)"

text \<open>
  Modelled from the spec: \<open>slice\<close> of \<open>MultiHashMap\<close> (\<open>mmap.hpp\<close>, not among the sources)
  invokes the callback on every row that matches the probe; the callback may mutate the
  row in place. The rows are visited in the order of the slab. \<open>P\<close> is the match with the
  probe, \<open>f\<close> the callback on a row and the variables it captures by reference, which
  yields the row and the variables after the call.
\<close>

fun slice :: "('r \<Rightarrow> bool) \<Rightarrow> ('r \<Rightarrow> 'a \<Rightarrow> ('r \<times> 'a) option) \<Rightarrow> 'r list \<Rightarrow> 'a \<Rightarrow> ('r list \<times> 'a) option" where
  "slice P f [] a = Some ([], a)"
| "slice P f (r # rs) a =
    (if P r then
       (case f r a of
          None \<Rightarrow> None
        | Some (r', a') \<Rightarrow>
            (case slice P f rs a' of None \<Rightarrow> None | Some (rs', a'') \<Rightarrow> Some (r' # rs', a'')))
     else (case slice P f rs a of None \<Rightarrow> None | Some (rs', a') \<Rightarrow> Some (r # rs', a')))"

text \<open>
  The callback of the slice (lines 1652 to 1663): \<open>x4557\<close> is the stock table, \<open>x85\<close> the
  warehouse, \<open>x87\<close> the threshold, and the set \<open>unique_ol_i_id\<close> is captured by reference.
\<close>

definition StockLevel_line ::
  "SEntry17_IIISSSSSSSSSSIIIS option list \<Rightarrow> int32 \<Rightarrow> int32 \<Rightarrow>
   'd SEntry10_IIIIIITIDS \<Rightarrow> int32 set \<Rightarrow> ('d SEntry10_IIIIIITIDS \<times> int32 set) option" where
  "StockLevel_line x4557 x85 x87 orderLineEntry unique_ol_i_id =
    (let x7688 = ol_5 orderLineEntry in
     case ArrayIndex_get x4557 (SEntry17_IIISSSSSSSSSSIIIS_Idx1f1t100001_2f1t2_hash x7688 x85) of
       None \<Rightarrow> None
     | Some x10811 \<Rightarrow>
         (let x7692 = s_3 x10811
          in Some (orderLineEntry,
                   if x7692 <s x87 then insert x7688 unique_ol_i_id else unique_ol_i_id)))"

text \<open>The loop (lines 1643 to 1666) over the order ids \<open>x97\<close> below \<open>x7660\<close>.\<close>

function StockLevel_loop ::
  "SEntry17_IIISSSSSSSSSSIIIS option list \<Rightarrow> int32 \<Rightarrow> int32 \<Rightarrow> int32 \<Rightarrow> int32 \<Rightarrow> int32 \<Rightarrow>
   'd SEntry10_IIIIIITIDS list \<times> int32 set \<Rightarrow> ('d SEntry10_IIIIIITIDS list \<times> int32 set) option" where
  "StockLevel_loop x4557 x85 x86 x87 x7660 x97 st =
    (if \<not> x97 <s x7660 then Some st
     else case slice (\<lambda>r. SEntry10_IIIIIITIDS_Idx123_cmp x97 x86 x85 r = 0)
                 (StockLevel_line x4557 x85 x87) (fst st) (snd st) of
            None \<Rightarrow> None
          | Some st' \<Rightarrow> StockLevel_loop x4557 x85 x86 x87 x7660 (x97 + 1) st')"
  by pat_completeness auto
termination
  by (relation "measure (\<lambda>(x4557, x85, x86, x87, x7660, x97, st). nat (sint x7660 - sint x97))")
     (auto simp add: sint_succ word_sless_alt)

declare StockLevel_loop.simps [simp del]

text \<open>
  The body of \<open>StockLevelTx\<close> (lines 1637 to 1666): the store and the local set
  \<open>unique_ol_i_id\<close> at the closing brace.
\<close>

definition StockLevel_body ::
  "'d store \<Rightarrow> int32 \<Rightarrow> date \<Rightarrow> int32 \<Rightarrow> int32 \<Rightarrow> int32 \<Rightarrow> int32 \<Rightarrow> ('d store \<times> int32 set) option" where
  "StockLevel_body s x82 x83 x84 x85 x86 x87 =
    (case ArrayIndex_get (districtTbl s) (SEntry11_IISSSSSSDDI_Idx1f1t11_2f1t2_hash x86 x85) of
       None \<Rightarrow> None
     | Some x10797 \<Rightarrow>
         (let x7660 = d_11 x10797; x97 = x7660 - 20
          in case StockLevel_loop (stockTbl s) x85 x86 x87 x7660 x97 (orderLineTbl s, {}) of
               None \<Rightarrow> None
             | Some (x4425, unique_ol_i_id) \<Rightarrow> Some (s\<lparr>orderLineTbl := x4425\<rparr>, unique_ol_i_id)))"

text \<open>\<open>StockLevelTx\<close> is a \<open>void\<close> function: the set is dropped and nothing is returned.\<close>

definition StockLevelTx ::
  "'d store \<Rightarrow> int32 \<Rightarrow> date \<Rightarrow> int32 \<Rightarrow> int32 \<Rightarrow> int32 \<Rightarrow> int32 \<Rightarrow> 'd store option" where
  "StockLevelTx s x82 x83 x84 x85 x86 x87 = map_option fst (StockLevel_body s x82 x83 x84 x85 x86 x87)"

text \<open>
  The reading of section 4.8 and of the boundary case of section 8 of the specification,
  for comparison: the order ids scanned are those of \<open>[next_o_id - 20, next_o_id)\<close>, and
  only those of \<open>[1, next_o_id)\<close> when \<open>next_o_id < 20\<close>; the result is the number of
  distinct item ids of the scanned lines whose stock quantity is below the threshold.
\<close>

definition low_stock ::
  "SEntry17_IIISSSSSSSSSSIIIS option list \<Rightarrow> int32 \<Rightarrow> int32 \<Rightarrow> 'd SEntry10_IIIIIITIDS \<Rightarrow> bool" where
  "low_stock x4557 W threshold r =
    (case ArrayIndex_get x4557 (SEntry17_IIISSSSSSSSSSIIIS_Idx1f1t100001_2f1t2_hash (ol_5 r) W) of
       None \<Rightarrow> False
     | Some st \<Rightarrow> s_3 st <s threshold)"

definition StockLevel_spec :: "'d store \<Rightarrow> int32 \<Rightarrow> int32 \<Rightarrow> int32 \<Rightarrow> nat option" where
  "StockLevel_spec s W D threshold =
    (case ArrayIndex_get (districtTbl s) (SEntry11_IISSSSSSDDI_Idx1f1t11_2f1t2_hash D W) of
       None \<Rightarrow> None
     | Some d \<Rightarrow>
         Some (card (ol_5 ` {r \<in> set (orderLineTbl s).
           ol_2 r = D \<and> ol_3 r = W \<and>
           (if sint (d_11 d) < 20 then 1 else sint (d_11 d) - 20) \<le> sint (ol_1 r) \<and>
           sint (ol_1 r) < sint (d_11 d) \<and> low_stock (stockTbl s) W threshold r})))"

section \<open>DeliveryTx\<close>

text \<open>
  The \<open>cmp\<close> of \<open>SEntry3_III_Idx23\<close> (lines 651 to 670), the key of the ordered index of
  new_order; the first two arguments are the fields \<open>_2\<close> and \<open>_3\<close> of the probe.
\<close>

definition SEntry3_III_Idx23_cmp :: "int32 \<Rightarrow> int32 \<Rightarrow> SEntry3_III \<Rightarrow> int" where
  "SEntry3_III_Idx23_cmp x3752 x3755 x3751 =
    (let x18215 = (if x3752 = no_2 x3751 then x3755 = no_3 x3751 else False)
     in if x18215 then 0 else 1)"

text \<open>
  The \<open>cmp\<close> of \<open>SEntry3_III_Idx23_Ordering\<close> (lines 1280 to 1288). It is compiled under
  \<open>#define int unsigned int\<close>, so \<open>x3699 > x3700\<close> compares the order ids as unsigned
  numbers; the \<open>unsigned int\<close> result \<open>-1\<close> is returned as the \<open>char\<close> \<open>-1\<close>.
\<close>

definition SEntry3_III_Idx23_Ordering_cmp :: "SEntry3_III \<Rightarrow> SEntry3_III \<Rightarrow> int" where
  "SEntry3_III_Idx23_Ordering_cmp x3697 x3698 =
    (let x3699 = no_1 x3697; x3700 = no_1 x3698;
         x3701 = (x3699 = x3700);
         x3702 = (x3700 < x3699);
         x3703 = (if x3702 then 1 else - 1);
         x3704 = (if x3701 then 0 else x3703)
     in x3704)"

text \<open>
  Modelled from the spec: \<open>get\<close> on the \<open>TreeIndex\<close> of new_order (\<open>mmap.hpp\<close>, not among
  the sources) returns, among the rows that match the probe, the first in ascending order
  of the ordering. \<open>P\<close> is the match with the probe and \<open>ord\<close> the \<open>cmp\<close> of the ordering
  struct; among rows that the ordering does not separate, the first of the slab is taken.
  The result is the position of the row.
\<close>

fun min_by :: "('r \<Rightarrow> 'r \<Rightarrow> int) \<Rightarrow> 'r list \<Rightarrow> nat \<Rightarrow> nat list \<Rightarrow> nat" where
  "min_by ord tbl b [] = b"
| "min_by ord tbl b (j # js) = min_by ord tbl (if ord (tbl ! j) (tbl ! b) < 0 then j else b) js"

definition TreeIndex_get :: "('r \<Rightarrow> bool) \<Rightarrow> ('r \<Rightarrow> 'r \<Rightarrow> int) \<Rightarrow> 'r list \<Rightarrow> nat option" where
  "TreeIndex_get P ord tbl =
    (case filter (\<lambda>i. P (tbl ! i)) [0..<length tbl] of
       [] \<Rightarrow> None
     | i # js \<Rightarrow> Some (min_by ord tbl i js))"

text \<open>
  Modelled from the spec: \<open>del\<close> of \<open>MultiHashMap\<close> removes the row from every index and
  frees its slot.
\<close>

definition del :: "nat \<Rightarrow> 'r list \<Rightarrow> 'r list" where
  "del h tbl = take h tbl @ drop (Suc h) tbl"

text \<open>
  The callback of the slice (lines 1609 to 1617): \<open>x11\<close> is the timestamp, the sum \<open>x51\<close>
  is captured by reference.
\<close>

definition Delivery_line ::
  "date \<Rightarrow> 'd SEntry10_IIIIIITIDS \<Rightarrow> 'd \<Rightarrow> ('d SEntry10_IIIIIITIDS \<times> ('d::plus)) option" where
  "Delivery_line x11 orderLineEntry x51 =
    (let orderLineEntry = orderLineEntry\<lparr>ol_7 := x11\<rparr>;
         x58 = x51;
         x7581 = ol_9 orderLineEntry
     in Some (orderLineEntry, x58 + x7581))"

text \<open>
  The body of the loop (lines 1587 to 1631) for the district \<open>x18\<close>. The state is the
  store and the local array \<open>orderIDs\<close>. \<open>x10684\<close>, \<open>x10698\<close> and \<open>x10722\<close> are the
  pointers to the new_order, order and customer rows.
\<close>

definition Delivery_district ::
  "'d store \<times> int32 list \<Rightarrow> date \<Rightarrow> int32 \<Rightarrow> int32 \<Rightarrow> int32 \<Rightarrow>
   (('d::{zero,plus}) store \<times> int32 list) option" where
  "Delivery_district st x11 x12 x13 x18 =
    (case st of (s, orderIDs) \<Rightarrow>
      (case TreeIndex_get (\<lambda>r. SEntry3_III_Idx23_cmp x18 x12 r = 0)
              SEntry3_III_Idx23_Ordering_cmp (newOrderTbl s) of
         Some x10684 \<Rightarrow>
           do {
             let x7517 = no_1 (newOrderTbl s ! x10684);
             orderIDs' \<leftarrow> arr_set orderIDs (x18 - 1) x7517;
             let x3764 = del x10684 (newOrderTbl s);
             x10698 \<leftarrow> first_pos (\<lambda>r. SEntry8_IIIITIIB_Idx123_cmp x7517 x18 x12 r = 0) (orderTbl s);
             let x7527 = o_4 (orderTbl s ! x10698);
             let x4226 = (orderTbl s)[x10698 := (orderTbl s ! x10698)\<lparr>o_6 := x13\<rparr>];
             x4425_x51 \<leftarrow> slice (\<lambda>r. SEntry10_IIIIIITIDS_Idx123_cmp x7517 x18 x12 r = 0)
                            (Delivery_line x11) (orderLineTbl s) 0;
             let h = SEntry21_IIISSSSSSSSSTSDDDDIIS_Idx1f1t3001_2f1t11_3f1t2_hash x7527 x18 x12;
             x10722 \<leftarrow> ArrayIndex_get (customerTbl s) h;
             let x70 = snd x4425_x51;
             let x10722 = x10722\<lparr>c_17 := c_17 x10722 + x70\<rparr>;
             let x10722 = x10722\<lparr>c_20 := c_20 x10722 + 1\<rparr>;
             Some (s\<lparr>customerTbl := (customerTbl s)[h := Some x10722], orderTbl := x4226,
                      newOrderTbl := x3764, orderLineTbl := fst x4425_x51\<rparr>, orderIDs')
           }
       | None \<Rightarrow>
           do {
             orderIDs' \<leftarrow> arr_set orderIDs (x18 - 1) 0;
             Some (s, orderIDs')
           }))"

text \<open>The loop (lines 1582 to 1634) over the districts \<open>x18\<close> from 1 to 10.\<close>

function Delivery_loop ::
  "date \<Rightarrow> int32 \<Rightarrow> int32 \<Rightarrow> int32 \<Rightarrow> 'd store \<times> int32 list \<Rightarrow>
   (('d::{zero,plus}) store \<times> int32 list) option" where
  "Delivery_loop x11 x12 x13 x18 st =
    (if \<not> x18 \<le>s 10 then Some st
     else case Delivery_district st x11 x12 x13 x18 of
            None \<Rightarrow> None
          | Some st' \<Rightarrow> Delivery_loop x11 x12 x13 (x18 + 1) st')"
  by pat_completeness auto
termination
proof (relation "measure (\<lambda>(x11, x12, x13, x18, st). nat (11 - sint x18))")
  fix x11 :: date and x12 x13 x18 :: int32 and st x2 :: "'d store \<times> int32 list"
  assume "\<not> \<not> x18 \<le>s 10"
  then have "x18 <s 11" by (simp add: word_sless_alt word_sle_eq)
  then have "sint (x18 + 1) = sint x18 + 1" by (rule sint_succ)
  moreover have "sint x18 \<le> 10" using \<open>\<not> \<not> x18 \<le>s 10\<close> by (simp add: word_sle_eq)
  ultimately show "((x11, x12, x13, x18 + 1, x2), x11, x12, x13, x18, st)
    \<in> measure (\<lambda>(x11, x12, x13, x18, st). nat (11 - sint x18))" by simp
qed simp

declare Delivery_loop.simps [simp del]

text \<open>
  \<open>DeliveryTx\<close> (lines 1579 to 1635). The array \<open>int orderIDs[123]\<close> is a local that is
  written and never read; the procedure is \<open>void\<close>.
\<close>

definition DeliveryTx ::
  "'d store \<Rightarrow> int32 \<Rightarrow> date \<Rightarrow> int32 \<Rightarrow> int32 \<Rightarrow> ('d::{zero,plus}) store option" where
  "DeliveryTx s x10 x11 x12 x13 = map_option fst (Delivery_loop x11 x12 x13 1 (s, replicate 123 0))"

section \<open>PaymentTx\<close>

text \<open>
  The \<open>cmp\<close> of \<open>SEntry21_IIISSSSSSSSSTSDDDDIIS_Idx236\<close> (lines 1107 to 1139), the secondary
  index of customer; the first three arguments are the fields \<open>_2\<close>, \<open>_3\<close>, \<open>_6\<close> of the
  probe. The \<open>==\<close> of \<open>PString\<close> is equality of the byte strings.
\<close>

definition SEntry21_IIISSSSSSSSSTSDDDDIIS_Idx236_cmp ::
  "int32 \<Rightarrow> int32 \<Rightarrow> PString \<Rightarrow> 'd SEntry21_IIISSSSSSSSSTSDDDDIIS \<Rightarrow> int" where
  "SEntry21_IIISSSSSSSSSTSDDDDIIS_Idx236_cmp x4515 x4518 x4522 x4514 =
    (let x18862 = (if x4515 = c_2 x4514 then x4518 = c_3 x4514 else False);
         x18864 = (if x18862 then x4522 = c_6 x4514 else False)
     in if x18864 then 0 else 1)"

text \<open>
  Modelled from the spec: \<open>strcmpi\<close> (\<open>hpds/pstringops.hpp\<close>, not among the sources) is
  the case-insensitive comparison of two strings: the bytes are compared after the
  letters \<open>A\<close> to \<open>Z\<close> are mapped to lower case; the result is negative, zero or positive.
\<close>

definition tolower :: "char \<Rightarrow> char" where
  "tolower c = (if 65 \<le> (of_char c :: nat) \<and> (of_char c :: nat) \<le> 90
                then char_of ((of_char c :: nat) + 32) else c)"

fun strcmpi :: "string \<Rightarrow> string \<Rightarrow> int" where
  "strcmpi [] [] = 0"
| "strcmpi [] (b # bs) = - int (of_char (tolower b))"
| "strcmpi (a # as) [] = int (of_char (tolower a))"
| "strcmpi (a # as) (b # bs) =
    (if tolower a = tolower b then strcmpi as bs
     else int (of_char (tolower a)) - int (of_char (tolower b)))"

text \<open>
  The division and remainder of two \<open>int\<close>, which truncate towards zero.
\<close>

definition sdiv32 :: "int32 \<Rightarrow> int32 \<Rightarrow> int32" where
  "sdiv32 a b = word_of_int (sint a sdiv sint b)"

definition smod32 :: "int32 \<Rightarrow> int32 \<Rightarrow> int32" where
  "smod32 a b = word_of_int (sint a smod sint b)"

text \<open>
  The customers that the slice of the secondary index yields (lines 1727 to 1734), as
  the vector \<open>x15947\<close> of pointers. Modelled from the spec: \<open>slice\<close> on a \<open>HashIndex\<close> walks
  all rows that share the key; they are taken in the order of the slots.
\<close>

definition Payment_matches ::
  "'d SEntry21_IIISSSSSSSSSTSDDDDIIS option list \<Rightarrow> int32 \<Rightarrow> int32 \<Rightarrow> PString \<Rightarrow> nat list" where
  "Payment_matches x4531 x194 x195 x197 =
    filter (\<lambda>h. case x4531 ! h of
                   None \<Rightarrow> False
                 | Some custEntry \<Rightarrow> SEntry21_IIISSSSSSSSSTSDDDDIIS_Idx236_cmp x195 x194 x197 custEntry = 0)
      [0..<length x4531]"

text \<open>
  The comparator given to \<open>sort\<close> (lines 1742 to 1747) on two pointers \<open>c1\<close> and \<open>c2\<close>.
\<close>

definition Payment_less :: "'d SEntry21_IIISSSSSSSSSTSDDDDIIS option list \<Rightarrow> nat \<Rightarrow> nat \<Rightarrow> bool" where
  "Payment_less x4531 c1 c2 =
    (case (x4531 ! c1, x4531 ! c2) of
       (Some r1, Some r2) \<Rightarrow> (let x7972 = c_4 r1; x7973 = c_4 r2 in strcmpi x7972 x7973 < 0)
     | _ \<Rightarrow> False)"

text \<open>
  The customer lookup (lines 1724 to 1759): the pointer \<open>ite15946\<close>, or \<open>None\<close> when it is
  null or read out of the range of the vector. \<open>srt\<close> is \<open>std::sort\<close>, which the C++
  standard specifies by its result only (a permutation in the order of the comparator);
  the vector's size is converted to \<open>int\<close>.
\<close>

definition Payment_customer ::
  "((nat \<Rightarrow> nat \<Rightarrow> bool) \<Rightarrow> nat list \<Rightarrow> nat list) \<Rightarrow>
   'd SEntry21_IIISSSSSSSSSTSDDDDIIS option list \<Rightarrow> int32 \<Rightarrow> int32 \<Rightarrow> int32 \<Rightarrow> int32 \<Rightarrow> PString \<Rightarrow>
   nat option" where
  "Payment_customer srt x4531 x193 x194 x195 x196 x197 =
    (if 0 <s x193 then
       (let x15947 = Payment_matches x4531 x194 x195 x197;
            x15955 = (word_of_nat (length x15947) :: int32);
            x15957 = sdiv32 x15955 2;
            x15965 = (word_of_nat (length x15947) :: int32);
            x15957 = (if smod32 x15965 2 = 0 then x15957 - 1 else x15957);
            x15947 = srt (Payment_less x4531) x15947;
            x15973 = x15957
        in arr_get x15947 x15973)
     else
       (let h = SEntry21_IIISSSSSSSSSTSDDDDIIS_Idx1f1t3001_2f1t11_3f1t2_hash x196 x195 x194
        in case ArrayIndex_get x4531 h of None \<Rightarrow> None | Some x15979 \<Rightarrow> Some h))"

text \<open>
  The conversion \<open>%d\<close> of \<open>snprintf\<close>: the decimal digits of a signed \<open>int\<close>.
\<close>

function string_of_nat :: "nat \<Rightarrow> string" where
  "string_of_nat n =
    (if n < 10 then [char_of (48 + n)] else string_of_nat (n div 10) @ [char_of (48 + n mod 10)])"
  by pat_completeness auto
termination
  by (relation "measure id") auto

declare string_of_nat.simps [simp del]

definition fmt_d :: "int32 \<Rightarrow> string" where
  "fmt_d x = (if sint x < 0 then CHR ''-'' # string_of_nat (nat (- sint x))
              else string_of_nat (nat (sint x)))"

text \<open>
  \<open>PaymentTx\<close> (lines 1714 to 1783). The parameters stand for what is not among the
  sources: \<open>srt\<close> is \<open>std::sort\<close>, \<open>fmt_f\<close> the conversion \<open>%f\<close> of a \<open>double\<close>,
  \<open>IntToStrdate\<close> the helper of that name, and \<open>deq\<close> and \<open>dmin\<close> the \<open>==\<close> of \<open>double\<close>
  and the literal \<open>-1.7976931348623157E308\<close> of the history comparator.
  \<open>snprintf\<close> with the size 501 writes at most 500 bytes before the terminator.
\<close>

definition PaymentTx ::
  "((nat \<Rightarrow> nat \<Rightarrow> bool) \<Rightarrow> nat list \<Rightarrow> nat list) \<Rightarrow> ('d \<Rightarrow> string) \<Rightarrow> (date \<Rightarrow> string) \<Rightarrow>
   ('d \<Rightarrow> 'd \<Rightarrow> bool) \<Rightarrow> 'd \<Rightarrow>
   'd store \<Rightarrow> int32 \<Rightarrow> date \<Rightarrow> int32 \<Rightarrow> int32 \<Rightarrow> int32 \<Rightarrow> int32 \<Rightarrow> int32 \<Rightarrow> int32 \<Rightarrow> int32 \<Rightarrow>
   PString \<Rightarrow> 'd \<Rightarrow> ('d::plus) store option" where
  "PaymentTx srt fmt_f IntToStrdate deq dmin s x188 x189 x190 x191 x192 x193 x194 x195 x196 x197 x198 =
    do {
      let hw = SEntry9_ISSSSSSDD_Idx1f1t2_hash x191;
      x10956 \<leftarrow> ArrayIndex_get (warehouseTbl s) hw;
      let x10956 = x10956\<lparr>w_9 := w_9 x10956 + x198\<rparr>;
      let x3983 = (warehouseTbl s)[hw := Some x10956];
      let hd = SEntry11_IISSSSSSDDI_Idx1f1t11_2f1t2_hash x192 x191;
      x10962 \<leftarrow> ArrayIndex_get (districtTbl s) hd;
      let x10962 = x10962\<lparr>d_10 := d_10 x10962 + x198\<rparr>;
      let x4253 = (districtTbl s)[hd := Some x10962];
      ite15946 \<leftarrow> Payment_customer srt (customerTbl s) x193 x194 x195 x196 x197;
      x7872 \<leftarrow> ArrayIndex_get (customerTbl s) ite15946;
      let x7873 = c_21 x7872;
      let x7874 = c_14 x7872;
      let x17238 = strstr x7874 ''BC'';
      let x7872 =
        (if x17238 \<noteq> None then
           (let x7877 = c_1 x7872;
                c_new_data = take 500
                  (fmt_d x7877 @ '' '' @ fmt_d x195 @ '' '' @ fmt_d x194 @ '' '' @ fmt_d x192 @ '' '' @
                   fmt_d x191 @ '' $'' @ fmt_f x198 @ '' '' @ IntToStrdate x189 @ '' | '' @ x7873);
                x7872 = x7872\<lparr>c_17 := c_17 x7872 + x198\<rparr>
            in x7872\<lparr>c_21 := c_new_data\<rparr>)
         else x7872\<lparr>c_17 := c_17 x7872 + x198\<rparr>);
      let x4531 = (customerTbl s)[ite15946 := Some x7872];
      let x7884 = w_2 x10956;
      let x7885 = d_3 x10962;
      let h_data = take 24 (take 10 x7884 @ ''    '' @ take 10 x7885);
      let x7888 = c_1 x7872;
      let x16829 = \<lparr>h_1 = x7888, h_2 = x195, h_3 = x194, h_4 = x192, h_5 = x191, h_6 = x189,
                     h_7 = x198, h_8 = h_data\<rparr>;
      Some (s\<lparr>warehouseTbl := x3983, districtTbl := x4253, customerTbl := x4531,
               historyTbl := add (SEntry8_IIIIITDS_Idx_cmp deq dmin) False x16829 (historyTbl s)\<rparr>)
    }"

section \<open>A small database\<close>

text \<open>
  One warehouse, one district, one customer, the items 1 and 3 (no item 2) and the stock
  of item 1 in the warehouses 1 and 2, with \<open>int\<close> in the place of \<open>double\<close>.
\<close>

definition w1 :: "int SEntry9_ISSSSSSDD" where
  "w1 = \<lparr>w_1 = 1, w_2 = ''W1'', w_3 = [], w_4 = [], w_5 = [], w_6 = [], w_7 = [], w_8 = 0, w_9 = 0\<rparr>"

definition d1 :: "int SEntry11_IISSSSSSDDI" where
  "d1 = \<lparr>d_1 = 1, d_2 = 1, d_3 = ''D1'', d_4 = [], d_5 = [], d_6 = [], d_7 = [], d_8 = [],
          d_9 = 0, d_10 = 0, d_11 = 3001\<rparr>"

definition c1 :: "int SEntry21_IIISSSSSSSSSTSDDDDIIS" where
  "c1 = \<lparr>c_1 = 1, c_2 = 1, c_3 = 1, c_4 = ''Ann'', c_5 = ''OE'', c_6 = ''BARBARBAR'', c_7 = [],
          c_8 = [], c_9 = [], c_10 = [], c_11 = [], c_12 = [], c_13 = 0, c_14 = ''GC'', c_15 = 0,
          c_16 = 0, c_17 = 0, c_18 = 0, c_19 = 0, c_20 = 0, c_21 = ''data''\<rparr>"

definition it1 :: "int SEntry5_IISDS" where
  "it1 = \<lparr>i_1 = 1, i_2 = 1, i_3 = ''item1'', i_4 = 1, i_5 = ''original''\<rparr>"

definition it3 :: "int SEntry5_IISDS" where
  "it3 = \<lparr>i_1 = 3, i_2 = 1, i_3 = ''item3'', i_4 = 2, i_5 = ''x''\<rparr>"

definition st11 :: "SEntry17_IIISSSSSSSSSSIIIS" where
  "st11 = \<lparr>s_1 = 1, s_2 = 1, s_3 = 20, s_4 = ''d01'', s_5 = ''d02'', s_6 = [], s_7 = [], s_8 = [],
            s_9 = [], s_10 = [], s_11 = [], s_12 = [], s_13 = [], s_14 = 0, s_15 = 0, s_16 = 0,
            s_17 = ''original''\<rparr>"

definition s0 :: "int store" where
  "s0 = \<lparr>warehouseTbl = [Some w1], districtTbl = [Some d1], customerTbl = [Some c1],
          itemTbl = [Some it1, None, Some it3], stockTbl = [Some st11, Some (st11\<lparr>s_2 := 2\<rparr>)],
          orderTbl = [], newOrderTbl = [], orderLineTbl = [], historyTbl = []\<rparr>"

definition p0 :: "int NewOrder" where
  "p0 = \<lparr>itemid = [1, 1], supware = [1, 2], quantity = [5, 3], price = [0, 0], iname = [[], []],
          stock = [0, 0], bg = [[], []], amt = [0, 0]\<rparr>"

text \<open>
  The same database with the district's next order id at 5 and one order line of the
  order id 0, of item 1, whose stock in warehouse 1 is 20.
\<close>

definition ol0 :: "int SEntry10_IIIIIITIDS" where
  "ol0 = \<lparr>ol_1 = 0, ol_2 = 1, ol_3 = 1, ol_4 = 1, ol_5 = 1, ol_6 = 1, ol_7 = 0, ol_8 = 5, ol_9 = 5,
           ol_10 = ''d01''\<rparr>"

definition s1 :: "int store" where
  "s1 = s0\<lparr>districtTbl := [Some (d1\<lparr>d_11 := 5\<rparr>)], orderLineTbl := [ol0]\<rparr>"

text \<open>
  The same database with two orders of the customer pending in district 1, the orders 7
  and 9; the order 7 has two lines.
\<close>

definition s2 :: "int store" where
  "s2 = s0\<lparr>orderTbl := [\<lparr>o_1 = 9, o_2 = 1, o_3 = 1, o_4 = 1, o_5 = 3, o_6 = - 1, o_7 = 0, o_8 = 1\<rparr>,
                         \<lparr>o_1 = 7, o_2 = 1, o_3 = 1, o_4 = 1, o_5 = 2, o_6 = - 1, o_7 = 2, o_8 = 1\<rparr>],
           newOrderTbl := [\<lparr>no_1 = 9, no_2 = 1, no_3 = 1\<rparr>, \<lparr>no_1 = 7, no_2 = 1, no_3 = 1\<rparr>],
           orderLineTbl := [ol0\<lparr>ol_1 := 7, ol_9 := 5\<rparr>, ol0\<lparr>ol_1 := 9, ol_9 := 100\<rparr>,
                            ol0\<lparr>ol_1 := 7, ol_4 := 2, ol_9 := 6\<rparr>]\<rparr>"

text \<open>
  Insertion sort, one of the algorithms \<open>std::sort\<close> may run, and the database \<open>s0\<close>
  with four customers in district 1, three of them with the same last name; the
  customer \<open>k\<close> is in the slot \<open>10 * (k - 1)\<close>.
\<close>

fun insert_by :: "('a \<Rightarrow> 'a \<Rightarrow> bool) \<Rightarrow> 'a \<Rightarrow> 'a list \<Rightarrow> 'a list" where
  "insert_by lt x [] = [x]"
| "insert_by lt x (y # ys) = (if lt y x then y # insert_by lt x ys else x # y # ys)"

fun isort :: "('a \<Rightarrow> 'a \<Rightarrow> bool) \<Rightarrow> 'a list \<Rightarrow> 'a list" where
  "isort lt [] = []"
| "isort lt (x # xs) = insert_by lt x (isort lt xs)"

definition s3 :: "int store" where
  "s3 = s0\<lparr>customerTbl := (replicate 31 None)
            [0 := Some (c1\<lparr>c_4 := ''dan''\<rparr>),
             10 := Some (c1\<lparr>c_1 := 2, c_4 := ''Bob'', c_14 := ''BC''\<rparr>),
             20 := Some (c1\<lparr>c_1 := 3, c_4 := ''carl'', c_6 := ''OUGHT''\<rparr>),
             30 := Some (c1\<lparr>c_1 := 4, c_4 := ''alice''\<rparr>)]\<rparr>"

text \<open>
  The database \<open>s2\<close> with the orders \<open>-1\<close> and 3 pending in district 1 instead.
\<close>

definition s4 :: "int store" where
  "s4 = s2\<lparr>orderTbl := [\<lparr>o_1 = - 1, o_2 = 1, o_3 = 1, o_4 = 1, o_5 = 3, o_6 = - 1, o_7 = 0, o_8 = 1\<rparr>,
                         \<lparr>o_1 = 3, o_2 = 1, o_3 = 1, o_4 = 1, o_5 = 2, o_6 = - 1, o_7 = 0, o_8 = 1\<rparr>],
           newOrderTbl := [\<lparr>no_1 = - 1, no_2 = 1, no_3 = 1\<rparr>, \<lparr>no_1 = 3, no_2 = 1, no_3 = 1\<rparr>]\<rparr>"

section \<open>Properties of the history comparator\<close>

lemma int_sentinel_never: "\<not> int_sentinel x"
proof -
  have "0 \<le> uint x" by simp
  then show ?thesis unfolding int_sentinel_def by linarith
qed

lemma SEntry8_IIIIITDS_Idx_cmp_eq_0:
  "SEntry8_IIIIITDS_Idx_cmp deq dmin a b = 0 \<longleftrightarrow>
     h_1 a = h_1 b \<and> h_2 a = h_2 b \<and> h_3 a = h_3 b \<and> h_4 a = h_4 b \<and> h_5 a = h_5 b \<and>
     (h_6 a = 0 \<or> h_6 b = 0 \<or> h_6 a = h_6 b) \<and>
     (deq (h_7 a) dmin \<or> deq (h_7 b) dmin \<or> deq (h_7 a) (h_7 b))"
  by (auto simp add: SEntry8_IIIIITDS_Idx_cmp_def Let_def int_sentinel_never)



lemma SEntry8_IIIIITDS_Idx_cmp_ignores_h_8:
  "SEntry8_IIIIITDS_Idx_cmp deq dmin (a\<lparr>h_8 := u\<rparr>) (b\<lparr>h_8 := v\<rparr>) =
   SEntry8_IIIIITDS_Idx_cmp deq dmin a b"
  by (simp add: SEntry8_IIIIITDS_Idx_cmp_def Let_def)

lemma SEntry8_IIIIITDS_Idx_cmp_not_transitive:
  fixes a b c :: "int SEntry8_IIIIITDS"
  defines "a \<equiv> \<lparr>h_1 = 1, h_2 = 1, h_3 = 1, h_4 = 1, h_5 = 1, h_6 = 5, h_7 = 10, h_8 = ''x''\<rparr>"
    and "b \<equiv> \<lparr>h_1 = 1, h_2 = 1, h_3 = 1, h_4 = 1, h_5 = 1, h_6 = 0, h_7 = 10, h_8 = ''x''\<rparr>"
    and "c \<equiv> \<lparr>h_1 = 1, h_2 = 1, h_3 = 1, h_4 = 1, h_5 = 1, h_6 = 6, h_7 = 10, h_8 = ''x''\<rparr>"
  shows "SEntry8_IIIIITDS_Idx_cmp (=) (- 1) a b = 0 \<and> SEntry8_IIIIITDS_Idx_cmp (=) (- 1) b c = 0
         \<and> SEntry8_IIIIITDS_Idx_cmp (=) (- 1) a c = 1"
  by (simp add: SEntry8_IIIIITDS_Idx_cmp_eq_0 a_def b_def c_def)
     (simp add: SEntry8_IIIIITDS_Idx_cmp_def Let_def int_sentinel_never)

text \<open>
  C10. The claim is that the comparator of the history index reports two rows equal
  whenever, for each of the first seven fields, one side holds the sentinel default
  (\<open>INT_MIN\<close> for the integers) or the values are equal. The comparator misses this for
  the integer fields: a default-constructed row, which holds the sentinel in each of its
  seven fields, compared with a row of ones is reported different (the result 1), since
  under \<open>#define int unsigned int\<close> the test \<open>x == (-2147483648)\<close> never holds. The date and
  double sentinels do work as wildcards, and \<open>h_8\<close> is never read.
\<close>

theorem SEntry8_IIIIITDS_Idx_cmp_int_sentinel_is_no_wildcard:
  "SEntry8_IIIIITDS_Idx_cmp deq dmin
     \<lparr>h_1 = - 2147483648, h_2 = - 2147483648, h_3 = - 2147483648, h_4 = - 2147483648,
      h_5 = - 2147483648, h_6 = 0, h_7 = dmin, h_8 = []\<rparr>
     \<lparr>h_1 = 1, h_2 = 1, h_3 = 1, h_4 = 1, h_5 = 1, h_6 = 7, h_7 = v, h_8 = ''a''\<rparr> = 1"
  by (simp add: SEntry8_IIIIITDS_Idx_cmp_def Let_def int_sentinel_never)

section \<open>Properties of NewOrderTx\<close>

subsection \<open>The first loop\<close>

lemma arr_get_Some: "0 \<le> sint i \<Longrightarrow> nat (sint i) < length xs \<Longrightarrow> arr_get xs i = Some (xs ! nat (sint i))"
  by (simp add: arr_get_def word_sle_eq)

lemma arr_set_Some: "0 \<le> sint i \<Longrightarrow> nat (sint i) < length xs \<Longrightarrow> arr_set xs i v = Some (xs[nat (sint i) := v])"
  by (simp add: arr_set_def word_sle_eq)

lemma NewOrder_items_flag_0: "NewOrder_items x4002 x278 x280 x289 (0, st) = Some (0, st)"
  by (simp add: NewOrder_items.simps)

lemma NewOrder_item_found:
  assumes "0 \<le> sint x289" "nat (sint x289) < length x280" "nat (sint x289) < length x283"
    "nat (sint x289) < length x284" "nat (sint x289) < length idata"
    "item_of x4002 x280 (nat (sint x289)) = Some x11168"
  shows "NewOrder_item x4002 x280 x289 (x297, x283, x284, idata) =
    Some (x297, x283[nat (sint x289) := i_4 x11168], x284[nat (sint x289) := i_3 x11168],
          idata[nat (sint x289) := i_5 x11168])"
  using assms by (simp add: NewOrder_item_def arr_get_Some arr_set_Some item_of_def)

lemma NewOrder_item_missing:
  assumes "0 \<le> sint x289" "nat (sint x289) < length x280"
    "item_of x4002 x280 (nat (sint x289)) = None"
  shows "NewOrder_item x4002 x280 x289 (x297, x283, x284, idata) = Some (0, x283, x284, idata)"
  using assms by (simp add: NewOrder_item_def arr_get_Some item_of_def)

lemma NewOrder_items_run:
  assumes "0 \<le> sint x289" "nat (sint x289) \<le> k" "k \<le> nat (sint x278)"
    "nat (sint x278) \<le> length x280" "nat (sint x278) \<le> length x283"
    "nat (sint x278) \<le> length x284" "nat (sint x278) \<le> length idata"
    "x297 \<noteq> 0"
    "\<forall>j. nat (sint x289) \<le> j \<and> j < k \<longrightarrow> item_of x4002 x280 j \<noteq> None"
    "k < nat (sint x278) \<longrightarrow> item_of x4002 x280 k = None"
  shows "\<exists>x283' x284' idata'.
    NewOrder_items x4002 x278 x280 x289 (x297, x283, x284, idata) =
      Some (if k < nat (sint x278) then 0 else x297, x283', x284', idata') \<and>
    length x283' = length x283 \<and> length x284' = length x284 \<and> length idata' = length idata \<and>
    (\<forall>j < length x283. x283' ! j =
       (if nat (sint x289) \<le> j \<and> j < k then i_4 (the (item_of x4002 x280 j)) else x283 ! j)) \<and>
    (\<forall>j < length x284. x284' ! j =
       (if nat (sint x289) \<le> j \<and> j < k then i_3 (the (item_of x4002 x280 j)) else x284 ! j)) \<and>
    (\<forall>j < length idata. idata' ! j =
       (if nat (sint x289) \<le> j \<and> j < k then i_5 (the (item_of x4002 x280 j)) else idata ! j))"
  using assms
proof (induction "k - nat (sint x289)" arbitrary: x289 x283 x284 idata)
  case 0
  then have ki: "k = nat (sint x289)" by simp
  show ?case
  proof (cases "k < nat (sint x278)")
    case True
    then have "sint x289 < sint x278" using ki \<open>0 \<le> sint x289\<close> by linarith
    then have lt: "x289 <s x278" by (simp add: word_sless_alt)
    have miss: "item_of x4002 x280 (nat (sint x289)) = None" using True 0 ki by simp
    have "NewOrder_item x4002 x280 x289 (x297, x283, x284, idata) = Some (0, x283, x284, idata)"
      using 0 True ki miss by (intro NewOrder_item_missing) auto
    then have "NewOrder_items x4002 x278 x280 x289 (x297, x283, x284, idata) = Some (0, x283, x284, idata)"
      using lt \<open>x297 \<noteq> 0\<close> by (subst NewOrder_items.simps) (simp add: NewOrder_items_flag_0)
    then show ?thesis using True ki by auto
  next
    case False
    then have "sint x278 \<le> sint x289" using ki \<open>0 \<le> sint x289\<close> by linarith
    then have "\<not> x289 <s x278" by (simp add: word_sless_alt)
    then have "NewOrder_items x4002 x278 x280 x289 (x297, x283, x284, idata) = Some (x297, x283, x284, idata)"
      by (subst NewOrder_items.simps) simp
    then show ?thesis using False ki by auto
  qed
next
  case (Suc d)
  let ?i = "nat (sint x289)"
  have ik: "?i < k" using Suc.hyps(2) by simp
  then have "sint x289 < sint x278" using Suc.prems by linarith
  then have lt: "x289 <s x278" by (simp add: word_sless_alt)
  have s1: "sint (x289 + 1) = sint x289 + 1" using lt by (rule sint_succ)
  obtain it where it: "item_of x4002 x280 ?i = Some it" using Suc.prems(9) ik by auto
  have body: "NewOrder_item x4002 x280 x289 (x297, x283, x284, idata) =
    Some (x297, x283[?i := i_4 it], x284[?i := i_3 it], idata[?i := i_5 it])"
    using Suc.prems ik it by (intro NewOrder_item_found) auto
  have unfold: "NewOrder_items x4002 x278 x280 x289 (x297, x283, x284, idata) =
    NewOrder_items x4002 x278 x280 (x289 + 1) (x297, x283[?i := i_4 it], x284[?i := i_3 it], idata[?i := i_5 it])"
    using lt \<open>x297 \<noteq> 0\<close> body by (subst NewOrder_items.simps) simp
  have n1: "nat (sint (x289 + 1)) = Suc ?i" using s1 Suc.prems(1) by simp
  have "\<exists>x283' x284' idata'.
    NewOrder_items x4002 x278 x280 (x289 + 1) (x297, x283[?i := i_4 it], x284[?i := i_3 it], idata[?i := i_5 it]) =
      Some (if k < nat (sint x278) then 0 else x297, x283', x284', idata') \<and>
    length x283' = length (x283[?i := i_4 it]) \<and> length x284' = length (x284[?i := i_3 it]) \<and>
    length idata' = length (idata[?i := i_5 it]) \<and>
    (\<forall>j < length (x283[?i := i_4 it]). x283' ! j =
       (if nat (sint (x289 + 1)) \<le> j \<and> j < k then i_4 (the (item_of x4002 x280 j)) else x283[?i := i_4 it] ! j)) \<and>
    (\<forall>j < length (x284[?i := i_3 it]). x284' ! j =
       (if nat (sint (x289 + 1)) \<le> j \<and> j < k then i_3 (the (item_of x4002 x280 j)) else x284[?i := i_3 it] ! j)) \<and>
    (\<forall>j < length (idata[?i := i_5 it]). idata' ! j =
       (if nat (sint (x289 + 1)) \<le> j \<and> j < k then i_5 (the (item_of x4002 x280 j)) else idata[?i := i_5 it] ! j))"
  proof (rule Suc.hyps(1))
    show "d = k - nat (sint (x289 + 1))" using Suc.hyps(2) n1 by simp
    show "0 \<le> sint (x289 + 1)" using s1 Suc.prems(1) by simp
    show "nat (sint (x289 + 1)) \<le> k" using n1 ik by simp
    show "\<forall>j. nat (sint (x289 + 1)) \<le> j \<and> j < k \<longrightarrow> item_of x4002 x280 j \<noteq> None"
      using Suc.prems(9) n1 by simp
  qed (use Suc.prems in simp_all)
  then obtain x283' x284' idata' where r:
    "NewOrder_items x4002 x278 x280 (x289 + 1) (x297, x283[?i := i_4 it], x284[?i := i_3 it], idata[?i := i_5 it]) =
      Some (if k < nat (sint x278) then 0 else x297, x283', x284', idata')"
    "length x283' = length x283" "length x284' = length x284" "length idata' = length idata"
    "\<forall>j < length x283. x283' ! j =
       (if Suc ?i \<le> j \<and> j < k then i_4 (the (item_of x4002 x280 j)) else x283[?i := i_4 it] ! j)"
    "\<forall>j < length x284. x284' ! j =
       (if Suc ?i \<le> j \<and> j < k then i_3 (the (item_of x4002 x280 j)) else x284[?i := i_3 it] ! j)"
    "\<forall>j < length idata. idata' ! j =
       (if Suc ?i \<le> j \<and> j < k then i_5 (the (item_of x4002 x280 j)) else idata[?i := i_5 it] ! j)"
    unfolding n1 length_list_update by blast
  have a: "\<forall>j < length x283. x283' ! j =
       (if ?i \<le> j \<and> j < k then i_4 (the (item_of x4002 x280 j)) else x283 ! j)"
  proof (intro allI impI)
    fix j assume j: "j < length x283"
    consider "j < ?i" | "j = ?i" | "Suc ?i \<le> j" by linarith
    then show "x283' ! j = (if ?i \<le> j \<and> j < k then i_4 (the (item_of x4002 x280 j)) else x283 ! j)"
      using r(5) j it ik by cases (auto simp add: nth_list_update)
  qed
  have b: "\<forall>j < length x284. x284' ! j =
       (if ?i \<le> j \<and> j < k then i_3 (the (item_of x4002 x280 j)) else x284 ! j)"
  proof (intro allI impI)
    fix j assume j: "j < length x284"
    consider "j < ?i" | "j = ?i" | "Suc ?i \<le> j" by linarith
    then show "x284' ! j = (if ?i \<le> j \<and> j < k then i_3 (the (item_of x4002 x280 j)) else x284 ! j)"
      using r(6) j it ik by cases (auto simp add: nth_list_update)
  qed
  have c: "\<forall>j < length idata. idata' ! j =
       (if ?i \<le> j \<and> j < k then i_5 (the (item_of x4002 x280 j)) else idata ! j)"
  proof (intro allI impI)
    fix j assume j: "j < length idata"
    consider "j < ?i" | "j = ?i" | "Suc ?i \<le> j" by linarith
    then show "idata' ! j = (if ?i \<le> j \<and> j < k then i_5 (the (item_of x4002 x280 j)) else idata ! j)"
      using r(7) j it ik by cases (auto simp add: nth_list_update)
  qed
  show ?case unfolding unfold using r(1-4) a b c by (intro exI conjI) assumption+
qed

subsection \<open>A missing item\<close>

text \<open>
  C1. A NewOrder invocation whose item-id array holds, among its \<open>x278\<close> lines, an id with
  no item row performs no writes: it returns with the store it was given, so that each
  of the nine tables is what it was. The arrays have the \<open>x278\<close> elements that the
  procedure reads and writes.
\<close>

theorem NewOrderTx_missing_item_no_writes:
  assumes k: "k < nat (sint x278)"
    and miss: "item_of (itemTbl s) (itemid p) k = None"
    and len: "nat (sint x278) \<le> length (itemid p)" "nat (sint x278) \<le> length (price p)"
      "nat (sint x278) \<le> length (iname p)"
  shows "\<exists>p'. NewOrderTx i2d s x272 x273 x274 x275 x276 x277 x278 x279 p = Some (s, p')"
proof -
  define k0 where "k0 = (LEAST j. item_of (itemTbl s) (itemid p) j = None)"
  have k0_miss: "item_of (itemTbl s) (itemid p) k0 = None"
    unfolding k0_def using miss by (rule LeastI)
  have k0_le: "k0 \<le> k" unfolding k0_def using miss by (rule Least_le)
  have k0_first: "\<forall>j. nat (sint (0::int32)) \<le> j \<and> j < k0 \<longrightarrow> item_of (itemTbl s) (itemid p) j \<noteq> None"
    unfolding k0_def using not_less_Least by blast
  have pos: "\<not> x278 <s 0" using k by (simp add: word_sless_alt)
  have "\<exists>x283' x284' idata'.
    NewOrder_items (itemTbl s) x278 (itemid p) 0 (1, price p, iname p, replicate (nat (sint x278)) []) =
      Some (if k0 < nat (sint x278) then 0 else 1, x283', x284', idata') \<and>
    length x283' = length (price p) \<and> length x284' = length (iname p) \<and>
    length idata' = length (replicate (nat (sint x278)) ([]::PString)) \<and>
    (\<forall>j < length (price p). x283' ! j =
       (if nat (sint (0::int32)) \<le> j \<and> j < k0 then i_4 (the (item_of (itemTbl s) (itemid p) j)) else price p ! j)) \<and>
    (\<forall>j < length (iname p). x284' ! j =
       (if nat (sint (0::int32)) \<le> j \<and> j < k0 then i_3 (the (item_of (itemTbl s) (itemid p) j)) else iname p ! j)) \<and>
    (\<forall>j < length (replicate (nat (sint x278)) ([]::PString)). idata' ! j =
       (if nat (sint (0::int32)) \<le> j \<and> j < k0 then i_5 (the (item_of (itemTbl s) (itemid p) j))
        else replicate (nat (sint x278)) [] ! j))"
  proof (rule NewOrder_items_run)
    show "k0 \<le> nat (sint x278)" using k0_le k by simp
    show "k0 < nat (sint x278) \<longrightarrow> item_of (itemTbl s) (itemid p) k0 = None" using k0_miss by simp
    show "\<forall>j. nat (sint (0::int32)) \<le> j \<and> j < k0 \<longrightarrow> item_of (itemTbl s) (itemid p) j \<noteq> None"
      by (rule k0_first)
  qed (use len in simp_all)
  then obtain x283' x284' idata' where
    "NewOrder_items (itemTbl s) x278 (itemid p) 0 (1, price p, iname p, replicate (nat (sint x278)) []) =
      Some (0, x283', x284', idata')"
    using k0_le k by auto
  then show ?thesis using pos by (simp add: NewOrderTx_def)
qed

theorem NewOrderTx_missing_item_no_writes_witness:
  "(1::nat) < nat (sint (2::int32)) \<and> item_of (itemTbl s0) (itemid (p0\<lparr>itemid := [1, 2]\<rparr>)) 1 = None \<and>
   nat (sint (2::int32)) \<le> length (itemid (p0\<lparr>itemid := [1, 2]\<rparr>)) \<and>
   nat (sint (2::int32)) \<le> length (price (p0\<lparr>itemid := [1, 2]\<rparr>)) \<and>
   nat (sint (2::int32)) \<le> length (iname (p0\<lparr>itemid := [1, 2]\<rparr>)) \<and>
   (\<exists>p'. NewOrderTx sint s0 0 77 (- 1) 1 1 1 2 1 (p0\<lparr>itemid := [1, 2]\<rparr>) = Some (s0, p'))"
proof -
  have h1: "(1::nat) < nat (sint (2::int32))" by simp
  have h2: "item_of (itemTbl s0) (itemid (p0\<lparr>itemid := [1, 2]\<rparr>)) 1 = None"
    by (simp add: item_of_def s0_def ArrayIndex_get_def SEntry5_IISDS_Idx1f1t100001_hash_def)
  have h3: "nat (sint (2::int32)) \<le> length (itemid (p0\<lparr>itemid := [1, 2]\<rparr>))" by simp
  have h4: "nat (sint (2::int32)) \<le> length (price (p0\<lparr>itemid := [1, 2]\<rparr>))" by (simp add: p0_def)
  have h5: "nat (sint (2::int32)) \<le> length (iname (p0\<lparr>itemid := [1, 2]\<rparr>))" by (simp add: p0_def)
  from NewOrderTx_missing_item_no_writes [OF h1 h2 h3 h4 h5, of sint 0 77 "- 1" 1 1 1 1]
  show ?thesis using h1 h2 h3 h4 h5 by blast
qed

text \<open>
  C7, as stated, fails. The items 2 and 3 are ordered; item 2 has no row and item 3 has
  one, with the price 2 and the name item3. The first loop stops at the first line:
  the price, name and data of the second line are not recorded, neither in the loop
  state nor in the arrays that \<open>NewOrderTx\<close> returns.
\<close>

theorem NewOrder_items_skips_later_lines:
  "item_of (itemTbl s0) [2, 3] 0 = None \<and> item_of (itemTbl s0) [2, 3] 1 = Some it3 \<and>
   i_4 it3 = 2 \<and> i_3 it3 = ''item3'' \<and> i_5 it3 = ''x'' \<and>
   NewOrder_items (itemTbl s0) 2 [2, 3] 0 (1, [0, 0], [[], []], [[], []]) =
     Some (0, [0, 0], [[], []], [[], []]) \<and>
   NewOrderTx sint s0 0 77 (- 1) 1 1 1 2 1 (p0\<lparr>itemid := [2, 3]\<rparr>) =
     Some (s0, p0\<lparr>itemid := [2, 3]\<rparr>) \<and>
   price p0 = [0, 0] \<and> iname p0 = [[], []]"
  by code_simp

text \<open>
  C7, amended. When the item lookup of line \<open>k\<close> is the first to fail, the first loop
  ends there with the flag cleared: the price, name and data of each line before \<open>k\<close>
  are recorded, and the entries of line \<open>k\<close> and of each later line are left as they
  were, whether their items exist or not.
\<close>

theorem NewOrder_items_stops_at_first_missing_item:
  assumes k: "k < nat (sint x278)"
    and found: "\<forall>j<k. item_of x4002 x280 j \<noteq> None"
    and miss: "item_of x4002 x280 k = None"
    and len: "nat (sint x278) \<le> length x280" "nat (sint x278) \<le> length x283"
      "nat (sint x278) \<le> length x284"
  shows "\<exists>x283' x284' idata'.
    NewOrder_items x4002 x278 x280 0 (1, x283, x284, replicate (nat (sint x278)) []) =
      Some (0, x283', x284', idata') \<and>
    length x283' = length x283 \<and> length x284' = length x284 \<and>
    length idata' = nat (sint x278) \<and>
    (\<forall>j < length x283. x283' ! j = (if j < k then i_4 (the (item_of x4002 x280 j)) else x283 ! j)) \<and>
    (\<forall>j < length x284. x284' ! j = (if j < k then i_3 (the (item_of x4002 x280 j)) else x284 ! j)) \<and>
    (\<forall>j < nat (sint x278). idata' ! j = (if j < k then i_5 (the (item_of x4002 x280 j)) else []))"
proof -
  have "\<exists>x283' x284' idata'.
    NewOrder_items x4002 x278 x280 0 (1, x283, x284, replicate (nat (sint x278)) []) =
      Some (if k < nat (sint x278) then 0 else 1, x283', x284', idata') \<and>
    length x283' = length x283 \<and> length x284' = length x284 \<and>
    length idata' = length (replicate (nat (sint x278)) ([]::PString)) \<and>
    (\<forall>j < length x283. x283' ! j =
       (if nat (sint (0::int32)) \<le> j \<and> j < k then i_4 (the (item_of x4002 x280 j)) else x283 ! j)) \<and>
    (\<forall>j < length x284. x284' ! j =
       (if nat (sint (0::int32)) \<le> j \<and> j < k then i_3 (the (item_of x4002 x280 j)) else x284 ! j)) \<and>
    (\<forall>j < length (replicate (nat (sint x278)) ([]::PString)). idata' ! j =
       (if nat (sint (0::int32)) \<le> j \<and> j < k then i_5 (the (item_of x4002 x280 j))
        else replicate (nat (sint x278)) [] ! j))"
  proof (rule NewOrder_items_run)
    show "k \<le> nat (sint x278)" using k by simp
    show "k < nat (sint x278) \<longrightarrow> item_of x4002 x280 k = None" using miss by simp
    show "\<forall>j. nat (sint (0::int32)) \<le> j \<and> j < k \<longrightarrow> item_of x4002 x280 j \<noteq> None"
      using found by simp
  qed (use len in simp_all)
  then show ?thesis using k by (simp cong: if_cong)
qed

theorem NewOrder_items_stops_at_first_missing_item_witness:
  "(1::nat) < nat (sint (3::int32)) \<and> item_of (itemTbl s0) [1, 2, 3] 0 \<noteq> None \<and>
   item_of (itemTbl s0) [1, 2, 3] 1 = None \<and>
   (\<exists>x283' x284' idata'.
      NewOrder_items (itemTbl s0) 3 [1, 2, 3] 0 (1, [0, 0, 0], [[], [], []], replicate (nat (sint (3::int32))) []) =
        Some (0, x283', x284', idata') \<and>
      x283' ! 0 = 1 \<and> x283' ! 1 = 0 \<and> x283' ! 2 = 0 \<and>
      x284' ! 0 = ''item1'' \<and> x284' ! 1 = [] \<and> x284' ! 2 = [] \<and>
      idata' ! 0 = ''original'' \<and> idata' ! 1 = [] \<and> idata' ! 2 = [])"
proof -
  have h1: "(1::nat) < nat (sint (3::int32))" by simp
  have i0: "item_of (itemTbl s0) [1, 2, 3] 0 = Some it1"
    by (simp add: item_of_def s0_def ArrayIndex_get_def SEntry5_IISDS_Idx1f1t100001_hash_def)
  then have h2: "\<forall>j<1. item_of (itemTbl s0) [1, 2, 3] j \<noteq> None" by simp
  have h3: "item_of (itemTbl s0) [1, 2, 3] 1 = None"
    by (simp add: item_of_def s0_def ArrayIndex_get_def SEntry5_IISDS_Idx1f1t100001_hash_def)
  have h4: "nat (sint (3::int32)) \<le> length [1, 2, 3::int32]"
    and h5: "nat (sint (3::int32)) \<le> length [0, 0, 0::int]"
    and h6: "nat (sint (3::int32)) \<le> length [[], [], []::PString]" by simp_all
  from NewOrder_items_stops_at_first_missing_item [OF h1 h2 h3 h4 h5 h6]
  obtain x283' x284' idata' where r:
    "NewOrder_items (itemTbl s0) 3 [1, 2, 3] 0 (1, [0, 0, 0], [[], [], []], replicate (nat (sint (3::int32))) []) =
        Some (0, x283', x284', idata')"
    "\<forall>j < length [0, 0, 0::int]. x283' ! j = (if j < 1 then i_4 (the (item_of (itemTbl s0) [1, 2, 3] j)) else [0, 0, 0] ! j)"
    "\<forall>j < length [[], [], []::PString]. x284' ! j = (if j < 1 then i_3 (the (item_of (itemTbl s0) [1, 2, 3] j)) else [[], [], []] ! j)"
    "\<forall>j < nat (sint (3::int32)). idata' ! j = (if j < 1 then i_5 (the (item_of (itemTbl s0) [1, 2, 3] j)) else [])"
    by blast
  have "x283' ! 0 = 1 \<and> x283' ! 1 = 0 \<and> x283' ! 2 = 0" using r(2) i0 by (simp add: it1_def)
  moreover have "x284' ! 0 = ''item1'' \<and> x284' ! 1 = [] \<and> x284' ! 2 = []" using r(3) i0 by (simp add: it1_def)
  moreover have "idata' ! 0 = ''original'' \<and> idata' ! 1 = [] \<and> idata' ! 2 = []" using r(4) i0 by (simp add: it1_def)
  ultimately show ?thesis using h1 i0 h3 r(1) by auto
qed

subsection \<open>The write phase\<close>

lemma first_pos_None: "first_pos P rs = None \<longleftrightarrow> (\<forall>r\<in>set rs. \<not> P r)"
  by (induction rs) auto

lemma first_pos_Some: "first_pos P rs = Some i \<Longrightarrow> i < length rs \<and> P (rs ! i) \<and> (\<forall>j<i. \<not> P (rs ! j))"
proof (induction rs arbitrary: i)
  case Nil
  then show ?case by simp
next
  case (Cons r rs)
  show ?case
  proof (cases "P r")
    case True
    with Cons.prems show ?thesis by simp
  next
    case False
    with Cons.prems obtain i' where i': "first_pos P rs = Some i'" "i = Suc i'" by auto
    from Cons.IH [OF i'(1)] False i'(2) show ?thesis by (auto simp add: less_Suc_eq_0_disj)
  qed
qed

lemma add_fresh: "\<forall>r\<in>set tbl. cmp row r \<noteq> 0 \<Longrightarrow> add cmp unique row tbl = tbl @ [row]"
  by (simp add: add_def first_pos_None [THEN iffD2])

lemma ArrayIndex_get_update:
  "h < length tbl \<Longrightarrow> ArrayIndex_get (tbl[h := v]) h' = (if h' = h then v else ArrayIndex_get tbl h')"
  by (simp add: ArrayIndex_get_def)

lemma ArrayIndex_get_Some_less: "ArrayIndex_get tbl h = Some r \<Longrightarrow> h < length tbl \<and> tbl ! h = Some r"
  by (simp add: ArrayIndex_get_def split: if_splits)

lemma NewOrder_line_ok:
  fixes x352 :: "'d::{one,plus,minus,times}"
  assumes "0 \<le> sint x289" "nat (sint x289) < length x280" "nat (sint x289) < length x281"
    "nat (sint x289) < length x282" "nat (sint x289) < length x283" "nat (sint x289) < length x285"
    "nat (sint x289) < length x286" "nat (sint x289) < length x287"
    "x11191 = Some c" "x11194 = Some w"
    "ArrayIndex_get x4557 (SEntry17_IIISSSSSSSSSSIIIS_Idx1f1t100001_2f1t2_hash
        (x280 ! nat (sint x289)) (x281 ! nat (sint x289))) = Some r"
  shows "\<exists>r' row x285' x286' x287' x352'.
    NewOrder_line i2d x275 x276 x8112 x280 x281 x282 x283 x11191 x11194 x11198 x289
      (x4557, x4425, x285, x286, x287, x352) =
    Some (x4557[SEntry17_IIISSSSSSSSSSIIIS_Idx1f1t100001_2f1t2_hash
                  (x280 ! nat (sint x289)) (x281 ! nat (sint x289)) := Some r'],
          add (\<lambda>a. SEntry10_IIIIIITIDS_Idx1234_cmp (ol_1 a) (ol_2 a) (ol_3 a) (ol_4 a)) True row x4425, x285', x286', x287', x352') \<and>
    ol_1 row = x8112 \<and> ol_2 row = x276 \<and> ol_3 row = x275 \<and> ol_4 row = x289 + 1 \<and>
    length x285' = length x285 \<and> length x286' = length x286 \<and> length x287' = length x287"
proof -
  let ?i = "nat (sint x289)"
  let ?q = "x282 ! ?i"
  let ?amt = "((i2d ?q * x283 ! ?i) * ((1 + w_8 w) + d_9 x11198)) * (1 - c_16 c)"
  let ?row = "\<lparr>ol_1 = x8112, ol_2 = x276, ol_3 = x275, ol_4 = x289 + 1, ol_5 = x280 ! ?i,
      ol_6 = x281 ! ?i, ol_7 = 0, ol_8 = ?q, ol_9 = ?amt,
      ol_10 = (if x276 = 1 then s_4 r else if x276 = 2 then s_5 r
           else if x276 = 3 then s_6 r else if x276 = 4 then s_7 r
           else if x276 = 5 then s_8 r else if x276 = 6 then s_9 r
           else if x276 = 7 then s_10 r else if x276 = 8 then s_11 r
           else if x276 = 9 then s_12 r else s_13 r)\<rparr>"
  let ?r' = "if s_3 r \<le>s ?q then r\<lparr>s_3 := s_3 r - ?q + 91\<rparr> else r\<lparr>s_3 := s_3 r - ?q\<rparr>"
  let ?bg = "if (if strstr (c_14 c) ''original'' \<noteq> None
                      then strstr (s_17 r) ''original'' \<noteq> None else False) then ''B'' else ''G''"
  have "NewOrder_line i2d x275 x276 x8112 x280 x281 x282 x283 x11191 x11194 x11198 x289
      (x4557, x4425, x285, x286, x287, x352) =
    Some (x4557[SEntry17_IIISSSSSSSSSSIIIS_Idx1f1t100001_2f1t2_hash (x280 ! ?i) (x281 ! ?i) := Some ?r'],
          add (\<lambda>a. SEntry10_IIIIIITIDS_Idx1234_cmp (ol_1 a) (ol_2 a) (ol_3 a) (ol_4 a)) True ?row x4425, x285[?i := s_3 r], x286[?i := ?bg],
          x287[?i := ?amt], x352 + ?amt)"
    using assms by (simp add: NewOrder_line_def arr_get_Some arr_set_Some Let_def)
  moreover have "ol_1 ?row = x8112 \<and> ol_2 ?row = x276 \<and> ol_3 ?row = x275 \<and> ol_4 ?row = x289 + 1"
    by simp
  moreover have "length (x285[?i := s_3 r]) = length x285 \<and> length (x286[?i := ?bg]) = length x286
    \<and> length (x287[?i := ?amt]) = length x287" by simp
  ultimately show ?thesis by blast
qed


lemma NewOrder_lines_run:
  fixes x352 :: "'d::{one,plus,minus,times}"
  assumes "0 \<le> sint x289" "nat (sint x289) \<le> nat (sint x278)"
    "nat (sint x278) \<le> length x280" "nat (sint x278) \<le> length x281"
    "nat (sint x278) \<le> length x282" "nat (sint x278) \<le> length x283"
    "nat (sint x278) \<le> length x285" "nat (sint x278) \<le> length x286"
    "nat (sint x278) \<le> length x287"
    "x11191 = Some c" "x11194 = Some w"
    "\<forall>j. nat (sint x289) \<le> j \<and> j < nat (sint x278) \<longrightarrow>
       ArrayIndex_get x4557 (SEntry17_IIISSSSSSSSSSIIIS_Idx1f1t100001_2f1t2_hash (x280 ! j) (x281 ! j)) \<noteq> None"
    "\<forall>r\<in>set x4425. ol_1 r = x8112 \<and> ol_2 r = x276 \<and> ol_3 r = x275 \<longrightarrow>
       0 < sint (ol_4 r) \<and> sint (ol_4 r) \<le> sint x289"
  shows "\<exists>x4557' ols x285' x286' x287' x352'.
    NewOrder_lines i2d x275 x276 x278 x8112 x280 x281 x282 x283 x11191 x11194 x11198 x289
      (x4557, x4425, x285, x286, x287, x352) =
    Some (x4557', x4425 @ ols, x285', x286', x287', x352') \<and>
    length ols = nat (sint x278) - nat (sint x289) \<and>
    (\<forall>r\<in>set ols. ol_1 r = x8112 \<and> ol_2 r = x276 \<and> ol_3 r = x275) \<and>
    length x4557' = length x4557 \<and>
    (\<forall>h<length x4557. (x4557' ! h = None) = (x4557 ! h = None)) \<and>
    length x285' = length x285 \<and> length x286' = length x286 \<and> length x287' = length x287"
  using assms
proof (induction "nat (sint x278) - nat (sint x289)" arbitrary: x289 x4557 x4425 x285 x286 x287 x352)
  case 0
  then have "sint x278 \<le> sint x289" by linarith
  then have "\<not> x289 <s x278" by (simp add: word_sless_alt)
  then have "NewOrder_lines i2d x275 x276 x278 x8112 x280 x281 x282 x283 x11191 x11194 x11198 x289
      (x4557, x4425, x285, x286, x287, x352) = Some (x4557, x4425 @ [], x285, x286, x287, x352)"
    by (subst NewOrder_lines.simps) simp
  moreover have "length ([]::'d SEntry10_IIIIIITIDS list) = nat (sint x278) - nat (sint x289)"
    using 0(1) by simp
  ultimately show ?case by fastforce
next
  case (Suc d)
  let ?i = "nat (sint x289)"
  let ?h = "SEntry17_IIISSSSSSSSSSIIIS_Idx1f1t100001_2f1t2_hash (x280 ! ?i) (x281 ! ?i)"
  have ik: "?i < nat (sint x278)" using Suc.hyps(2) by linarith
  then have "sint x289 < sint x278" using Suc.prems(1) by linarith
  then have lt: "x289 <s x278" by (simp add: word_sless_alt)
  have s1: "sint (x289 + 1) = sint x289 + 1" using lt by (rule sint_succ)
  have n1: "nat (sint (x289 + 1)) = Suc ?i" using s1 Suc.prems(1) by simp
  obtain r where r: "ArrayIndex_get x4557 ?h = Some r" using Suc.prems(12) ik by blast
  then have hlt: "?h < length x4557" and hr: "x4557 ! ?h = Some r"
    by (simp_all add: ArrayIndex_get_Some_less)
  obtain r' row x285a x286a x287a x352a where body:
    "NewOrder_line i2d x275 x276 x8112 x280 x281 x282 x283 x11191 x11194 x11198 x289
      (x4557, x4425, x285, x286, x287, x352) =
     Some (x4557[?h := Some r'], add (\<lambda>a. SEntry10_IIIIIITIDS_Idx1234_cmp (ol_1 a) (ol_2 a) (ol_3 a) (ol_4 a)) True row x4425, x285a, x286a, x287a, x352a)"
    and row: "ol_1 row = x8112" "ol_2 row = x276" "ol_3 row = x275" "ol_4 row = x289 + 1"
    and lens: "length x285a = length x285" "length x286a = length x286" "length x287a = length x287"
    using NewOrder_line_ok [of x289 x280 x281 x282 x283 x285 x286 x287 x11191 c x11194 w x4557 r
        i2d x275 x276 x8112 x11198 x4425 x352]
      Suc.prems(1,3-11) ik r by force
  have "\<forall>q\<in>set x4425. SEntry10_IIIIIITIDS_Idx1234_cmp (ol_1 row) (ol_2 row) (ol_3 row) (ol_4 row) q \<noteq> 0"
  proof
    fix q assume q: "q \<in> set x4425"
    show "SEntry10_IIIIIITIDS_Idx1234_cmp (ol_1 row) (ol_2 row) (ol_3 row) (ol_4 row) q \<noteq> 0"
    proof (cases "ol_1 q = x8112 \<and> ol_2 q = x276 \<and> ol_3 q = x275")
      case True
      then have "sint (ol_4 q) \<le> sint x289" using Suc.prems(13) q by blast
      then have "ol_4 q \<noteq> x289 + 1" using s1 by auto
      then show ?thesis using row by (simp add: SEntry10_IIIIIITIDS_Idx1234_cmp_def)
    next
      case False
      then show ?thesis using row by (auto simp add: SEntry10_IIIIIITIDS_Idx1234_cmp_def)
    qed
  qed
  then have addr: "add (\<lambda>a. SEntry10_IIIIIITIDS_Idx1234_cmp (ol_1 a) (ol_2 a) (ol_3 a) (ol_4 a)) True row x4425 = x4425 @ [row]"
    by (rule add_fresh)
  have unfold: "NewOrder_lines i2d x275 x276 x278 x8112 x280 x281 x282 x283 x11191 x11194 x11198 x289
      (x4557, x4425, x285, x286, x287, x352) =
    NewOrder_lines i2d x275 x276 x278 x8112 x280 x281 x282 x283 x11191 x11194 x11198 (x289 + 1)
      (x4557[?h := Some r'], x4425 @ [row], x285a, x286a, x287a, x352a)"
    using lt body addr by (subst NewOrder_lines.simps) simp
  have "\<exists>x4557' ols x285' x286' x287' x352'.
    NewOrder_lines i2d x275 x276 x278 x8112 x280 x281 x282 x283 x11191 x11194 x11198 (x289 + 1)
      (x4557[?h := Some r'], x4425 @ [row], x285a, x286a, x287a, x352a) =
    Some (x4557', (x4425 @ [row]) @ ols, x285', x286', x287', x352') \<and>
    length ols = nat (sint x278) - nat (sint (x289 + 1)) \<and>
    (\<forall>r\<in>set ols. ol_1 r = x8112 \<and> ol_2 r = x276 \<and> ol_3 r = x275) \<and>
    length x4557' = length (x4557[?h := Some r']) \<and>
    (\<forall>h<length (x4557[?h := Some r']). (x4557' ! h = None) = (x4557[?h := Some r'] ! h = None)) \<and>
    length x285' = length x285a \<and> length x286' = length x286a \<and> length x287' = length x287a"
  proof (rule Suc.hyps(1))
    show "d = nat (sint x278) - nat (sint (x289 + 1))" using Suc.hyps(2) n1 by simp
    show "0 \<le> sint (x289 + 1)" using s1 Suc.prems(1) by simp
    show "nat (sint (x289 + 1)) \<le> nat (sint x278)" using n1 ik by linarith
    show "\<forall>j. nat (sint (x289 + 1)) \<le> j \<and> j < nat (sint x278) \<longrightarrow>
       ArrayIndex_get (x4557[?h := Some r'])
         (SEntry17_IIISSSSSSSSSSIIIS_Idx1f1t100001_2f1t2_hash (x280 ! j) (x281 ! j)) \<noteq> None"
      using Suc.prems(12) n1 hlt by (simp add: ArrayIndex_get_update)
    show "\<forall>r\<in>set (x4425 @ [row]). ol_1 r = x8112 \<and> ol_2 r = x276 \<and> ol_3 r = x275 \<longrightarrow>
       0 < sint (ol_4 r) \<and> sint (ol_4 r) \<le> sint (x289 + 1)"
      using Suc.prems(13) Suc.prems(1) row s1 by auto
  qed (use Suc.prems(3-11) lens in simp_all)
  then obtain x4557' ols x285' x286' x287' x352' where res:
    "NewOrder_lines i2d x275 x276 x278 x8112 x280 x281 x282 x283 x11191 x11194 x11198 (x289 + 1)
      (x4557[?h := Some r'], x4425 @ [row], x285a, x286a, x287a, x352a) =
    Some (x4557', x4425 @ (row # ols), x285', x286', x287', x352')"
    "length ols = nat (sint x278) - Suc ?i"
    "\<forall>r\<in>set ols. ol_1 r = x8112 \<and> ol_2 r = x276 \<and> ol_3 r = x275"
    "length x4557' = length x4557"
    "\<forall>h<length x4557. (x4557' ! h = None) = (x4557[?h := Some r'] ! h = None)"
    "length x285' = length x285" "length x286' = length x286" "length x287' = length x287"
    unfolding n1 using lens by auto
  have a: "length (row # ols) = nat (sint x278) - ?i" using res(2) ik by (simp del: nat_less_iff) linarith
  have b: "\<forall>r\<in>set (row # ols). ol_1 r = x8112 \<and> ol_2 r = x276 \<and> ol_3 r = x275"
    using res(3) row by simp
  have c: "\<forall>h<length x4557. (x4557' ! h = None) = (x4557 ! h = None)"
  proof (intro allI impI)
    fix h assume "h < length x4557"
    then show "(x4557' ! h = None) = (x4557 ! h = None)"
      using res(5) hr by (cases "h = ?h") (auto simp add: nth_list_update)
  qed
  show ?case unfolding unfold using res(1) a b res(4) c res(6-8) by blast
qed


lemma NewOrderTx_commit:
  fixes s :: "('d::{zero,one,plus,minus,times}) store"
  assumes n0: "0 \<le> sint x278"
    and len: "nat (sint x278) \<le> length (itemid p)" "nat (sint x278) \<le> length (supware p)"
      "nat (sint x278) \<le> length (quantity p)" "nat (sint x278) \<le> length (price p)"
      "nat (sint x278) \<le> length (iname p)" "nat (sint x278) \<le> length (stock p)"
      "nat (sint x278) \<le> length (bg p)" "nat (sint x278) \<le> length (amt p)"
    and items: "\<forall>j < nat (sint x278). item_of (itemTbl s) (itemid p) j \<noteq> None"
    and cust: "ArrayIndex_get (customerTbl s)
        (SEntry21_IIISSSSSSSSSTSDDDDIIS_Idx1f1t3001_2f1t11_3f1t2_hash x277 x276 x275) \<noteq> None"
    and wh: "ArrayIndex_get (warehouseTbl s) (SEntry9_ISSSSSSDD_Idx1f1t2_hash x275) \<noteq> None"
    and dist: "ArrayIndex_get (districtTbl s) (SEntry11_IISSSSSSDDI_Idx1f1t11_2f1t2_hash x276 x275) = Some d"
    and stk: "\<forall>j < nat (sint x278). ArrayIndex_get (stockTbl s)
        (SEntry17_IIISSSSSSSSSSIIIS_Idx1f1t100001_2f1t2_hash (itemid p ! j) (supware p ! j)) \<noteq> None"
    and fresh_o: "\<forall>r\<in>set (orderTbl s). \<not> (o_1 r = d_11 d \<and> o_2 r = x276 \<and> o_3 r = x275)"
    and fresh_no: "\<forall>r\<in>set (newOrderTbl s). \<not> (no_1 r = d_11 d \<and> no_2 r = x276 \<and> no_3 r = x275)"
    and fresh_ol: "\<forall>r\<in>set (orderLineTbl s). \<not> (ol_1 r = d_11 d \<and> ol_2 r = x276 \<and> ol_3 r = x275)"
  shows "\<exists>x4557 ols p'.
    NewOrderTx i2d s x272 x273 x274 x275 x276 x277 x278 x279 p =
      Some (s\<lparr>districtTbl := (districtTbl s)[SEntry11_IISSSSSSDDI_Idx1f1t11_2f1t2_hash x276 x275 :=
                                 Some (d\<lparr>d_11 := d_11 d + 1\<rparr>)],
               stockTbl := x4557,
               orderTbl := orderTbl s @ [\<lparr>o_1 = d_11 d, o_2 = x276, o_3 = x275, o_4 = x277, o_5 = x273,
                                   o_6 = - 1, o_7 = x278, o_8 = (if 0 <s x279 then 1 else 0)\<rparr>],
               newOrderTbl := newOrderTbl s @ [\<lparr>no_1 = d_11 d, no_2 = x276, no_3 = x275\<rparr>],
               orderLineTbl := orderLineTbl s @ ols\<rparr>, p') \<and>
    length ols = nat (sint x278) \<and>
    (\<forall>r\<in>set ols. ol_1 r = d_11 d \<and> ol_2 r = x276 \<and> ol_3 r = x275) \<and>
    length x4557 = length (stockTbl s) \<and>
    (\<forall>h<length (stockTbl s). (x4557 ! h = None) = (stockTbl s ! h = None))"
proof -
  let ?n = "nat (sint x278)"
  have pos: "\<not> x278 <s 0" using n0 by (simp add: word_sless_alt)
  have "\<exists>x283' x284' idata'.
    NewOrder_items (itemTbl s) x278 (itemid p) 0 (1, price p, iname p, replicate ?n []) =
      Some (if ?n < ?n then 0 else 1, x283', x284', idata') \<and>
    length x283' = length (price p) \<and> length x284' = length (iname p) \<and>
    length idata' = length (replicate ?n ([]::PString)) \<and>
    (\<forall>j < length (price p). x283' ! j =
       (if nat (sint (0::int32)) \<le> j \<and> j < ?n then i_4 (the (item_of (itemTbl s) (itemid p) j)) else price p ! j)) \<and>
    (\<forall>j < length (iname p). x284' ! j =
       (if nat (sint (0::int32)) \<le> j \<and> j < ?n then i_3 (the (item_of (itemTbl s) (itemid p) j)) else iname p ! j)) \<and>
    (\<forall>j < length (replicate ?n ([]::PString)). idata' ! j =
       (if nat (sint (0::int32)) \<le> j \<and> j < ?n then i_5 (the (item_of (itemTbl s) (itemid p) j))
        else replicate ?n [] ! j))"
  proof (rule NewOrder_items_run)
    show "\<forall>j. nat (sint (0::int32)) \<le> j \<and> j < ?n \<longrightarrow> item_of (itemTbl s) (itemid p) j \<noteq> None"
      using items by simp
  qed (use len in simp_all)
  then obtain x283' x284' idata' where loop1:
    "NewOrder_items (itemTbl s) x278 (itemid p) 0 (1, price p, iname p, replicate ?n []) =
      Some (1, x283', x284', idata')"
    and len283: "length x283' = length (price p)"
    by auto
  obtain c where c: "ArrayIndex_get (customerTbl s)
        (SEntry21_IIISSSSSSSSSTSDDDDIIS_Idx1f1t3001_2f1t11_3f1t2_hash x277 x276 x275) = Some c"
    using cust by blast
  obtain w where w: "ArrayIndex_get (warehouseTbl s) (SEntry9_ISSSSSSDD_Idx1f1t2_hash x275) = Some w"
    using wh by blast
  let ?ord = "\<lparr>o_1 = d_11 d, o_2 = x276, o_3 = x275, o_4 = x277, o_5 = x273,
                o_6 = - 1, o_7 = x278, o_8 = (if 0 <s x279 then 1 else 0)\<rparr>"
  let ?no = "\<lparr>no_1 = d_11 d, no_2 = x276, no_3 = x275\<rparr>"
  have "\<forall>r\<in>set (orderTbl s). SEntry8_IIIITIIB_Idx123_cmp (o_1 ?ord) (o_2 ?ord) (o_3 ?ord) r \<noteq> 0"
    using fresh_o by (auto simp add: SEntry8_IIIITIIB_Idx123_cmp_def)
  then have add_o: "add (\<lambda>a. SEntry8_IIIITIIB_Idx123_cmp (o_1 a) (o_2 a) (o_3 a)) True ?ord (orderTbl s) = orderTbl s @ [?ord]"
    by (rule add_fresh)
  have "\<forall>r\<in>set (newOrderTbl s). SEntry3_III_Idx123_cmp (no_1 ?no) (no_2 ?no) (no_3 ?no) r \<noteq> 0"
    using fresh_no by (auto simp add: SEntry3_III_Idx123_cmp_def)
  then have add_no: "add (\<lambda>a. SEntry3_III_Idx123_cmp (no_1 a) (no_2 a) (no_3 a)) True ?no (newOrderTbl s) = newOrderTbl s @ [?no]"
    by (rule add_fresh)
  have "\<exists>x4557' ols x285' x286' x287' x352'.
    NewOrder_lines i2d x275 x276 x278 (d_11 d) (itemid p) (supware p) (quantity p) x283'
      (Some c) (Some w) (d\<lparr>d_11 := d_11 d + 1\<rparr>) 0
      (stockTbl s, orderLineTbl s, stock p, bg p, amt p, 0) =
    Some (x4557', orderLineTbl s @ ols, x285', x286', x287', x352') \<and>
    length ols = ?n - nat (sint (0::int32)) \<and>
    (\<forall>r\<in>set ols. ol_1 r = d_11 d \<and> ol_2 r = x276 \<and> ol_3 r = x275) \<and>
    length x4557' = length (stockTbl s) \<and>
    (\<forall>h<length (stockTbl s). (x4557' ! h = None) = (stockTbl s ! h = None)) \<and>
    length x285' = length (stock p) \<and> length x286' = length (bg p) \<and> length x287' = length (amt p)"
  proof (rule NewOrder_lines_run)
    show "\<forall>j. nat (sint (0::int32)) \<le> j \<and> j < ?n \<longrightarrow>
       ArrayIndex_get (stockTbl s)
         (SEntry17_IIISSSSSSSSSSIIIS_Idx1f1t100001_2f1t2_hash (itemid p ! j) (supware p ! j)) \<noteq> None"
      using stk by simp
    show "\<forall>r\<in>set (orderLineTbl s). ol_1 r = d_11 d \<and> ol_2 r = x276 \<and> ol_3 r = x275 \<longrightarrow>
       0 < sint (ol_4 r) \<and> sint (ol_4 r) \<le> sint (0::int32)"
      using fresh_ol by blast
  qed (use len len283 in simp_all)
  then obtain x4557' ols x285' x286' x287' x352' where loop2:
    "NewOrder_lines i2d x275 x276 x278 (d_11 d) (itemid p) (supware p) (quantity p) x283'
      (Some c) (Some w) (d\<lparr>d_11 := d_11 d + 1\<rparr>) 0
      (stockTbl s, orderLineTbl s, stock p, bg p, amt p, 0) =
    Some (x4557', orderLineTbl s @ ols, x285', x286', x287', x352')"
    and rest: "length ols = ?n" "\<forall>r\<in>set ols. ol_1 r = d_11 d \<and> ol_2 r = x276 \<and> ol_3 r = x275"
      "length x4557' = length (stockTbl s)"
      "\<forall>h<length (stockTbl s). (x4557' ! h = None) = (stockTbl s ! h = None)"
    by auto
  have "NewOrderTx i2d s x272 x273 x274 x275 x276 x277 x278 x279 p =
      Some (s\<lparr>districtTbl := (districtTbl s)[SEntry11_IISSSSSSDDI_Idx1f1t11_2f1t2_hash x276 x275 :=
                                 Some (d\<lparr>d_11 := d_11 d + 1\<rparr>)],
               stockTbl := x4557',
               orderTbl := orderTbl s @ [?ord],
               newOrderTbl := newOrderTbl s @ [?no],
               orderLineTbl := orderLineTbl s @ ols\<rparr>,
            p\<lparr>price := x283', iname := x284', stock := x285', bg := x286', amt := x287'\<rparr>)"
    using pos loop1 c w dist add_o add_no loop2 by (simp add: NewOrderTx_def Let_def)
  then show ?thesis using rest by blast
qed

subsection \<open>The commit case\<close>

text \<open>
  C4. In the commit case of a NewOrder invocation with \<open>x278\<close> lines (every item lookup
  succeeds), the \<open>next_o_id\<close> field \<open>d_11\<close> of the district row grows by one, one order
  row is appended with the old \<open>next_o_id\<close> as its id, the carrier \<open>-1\<close> and the line
  count \<open>x278\<close>, one new_order row with the same key is appended, \<open>x278\<close> order_line rows
  with that key are appended, and no other row is added or removed: the warehouse,
  customer, item and history tables are unchanged, and the district and stock tables
  keep their slots. The hypotheses are those of a valid invocation: the arrays have
  \<open>x278\<close> elements, the customer, warehouse, district and stock rows exist, and no order,
  new_order or order_line row carries the district's next order id already.
\<close>

theorem NewOrderTx_commit_rows:
  fixes s :: "('d::{zero,one,plus,minus,times}) store"
  assumes n0: "0 \<le> sint x278"
    and len: "nat (sint x278) \<le> length (itemid p)" "nat (sint x278) \<le> length (supware p)"
      "nat (sint x278) \<le> length (quantity p)" "nat (sint x278) \<le> length (price p)"
      "nat (sint x278) \<le> length (iname p)" "nat (sint x278) \<le> length (stock p)"
      "nat (sint x278) \<le> length (bg p)" "nat (sint x278) \<le> length (amt p)"
    and items: "\<forall>j < nat (sint x278). item_of (itemTbl s) (itemid p) j \<noteq> None"
    and cust: "ArrayIndex_get (customerTbl s)
        (SEntry21_IIISSSSSSSSSTSDDDDIIS_Idx1f1t3001_2f1t11_3f1t2_hash x277 x276 x275) \<noteq> None"
    and wh: "ArrayIndex_get (warehouseTbl s) (SEntry9_ISSSSSSDD_Idx1f1t2_hash x275) \<noteq> None"
    and dist: "ArrayIndex_get (districtTbl s) (SEntry11_IISSSSSSDDI_Idx1f1t11_2f1t2_hash x276 x275) = Some d"
    and stk: "\<forall>j < nat (sint x278). ArrayIndex_get (stockTbl s)
        (SEntry17_IIISSSSSSSSSSIIIS_Idx1f1t100001_2f1t2_hash (itemid p ! j) (supware p ! j)) \<noteq> None"
    and fresh_o: "\<forall>r\<in>set (orderTbl s). \<not> (o_1 r = d_11 d \<and> o_2 r = x276 \<and> o_3 r = x275)"
    and fresh_no: "\<forall>r\<in>set (newOrderTbl s). \<not> (no_1 r = d_11 d \<and> no_2 r = x276 \<and> no_3 r = x275)"
    and fresh_ol: "\<forall>r\<in>set (orderLineTbl s). \<not> (ol_1 r = d_11 d \<and> ol_2 r = x276 \<and> ol_3 r = x275)"
  shows "\<exists>s' p' ord ols.
    NewOrderTx i2d s x272 x273 x274 x275 x276 x277 x278 x279 p = Some (s', p') \<and>
    districtTbl s' = (districtTbl s)[SEntry11_IISSSSSSDDI_Idx1f1t11_2f1t2_hash x276 x275 :=
                                       Some (d\<lparr>d_11 := d_11 d + 1\<rparr>)] \<and>
    orderTbl s' = orderTbl s @ [ord] \<and>
    o_1 ord = d_11 d \<and> o_2 ord = x276 \<and> o_3 ord = x275 \<and> o_6 ord = - 1 \<and> o_7 ord = x278 \<and>
    newOrderTbl s' = newOrderTbl s @ [\<lparr>no_1 = d_11 d, no_2 = x276, no_3 = x275\<rparr>] \<and>
    orderLineTbl s' = orderLineTbl s @ ols \<and> length ols = nat (sint x278) \<and>
    (\<forall>r\<in>set ols. ol_1 r = d_11 d \<and> ol_2 r = x276 \<and> ol_3 r = x275) \<and>
    warehouseTbl s' = warehouseTbl s \<and> customerTbl s' = customerTbl s \<and>
    itemTbl s' = itemTbl s \<and> historyTbl s' = historyTbl s \<and>
    length (stockTbl s') = length (stockTbl s) \<and>
    (\<forall>h<length (stockTbl s). (stockTbl s' ! h = None) = (stockTbl s ! h = None))"
proof -
  from NewOrderTx_commit [OF assms, of i2d x272 x273 x274 x279]
  obtain x4557 ols p' where r:
    "NewOrderTx i2d s x272 x273 x274 x275 x276 x277 x278 x279 p =
      Some (s\<lparr>districtTbl := (districtTbl s)[SEntry11_IISSSSSSDDI_Idx1f1t11_2f1t2_hash x276 x275 :=
                                 Some (d\<lparr>d_11 := d_11 d + 1\<rparr>)],
               stockTbl := x4557,
               orderTbl := orderTbl s @ [\<lparr>o_1 = d_11 d, o_2 = x276, o_3 = x275, o_4 = x277, o_5 = x273,
                                   o_6 = - 1, o_7 = x278, o_8 = (if 0 <s x279 then 1 else 0)\<rparr>],
               newOrderTbl := newOrderTbl s @ [\<lparr>no_1 = d_11 d, no_2 = x276, no_3 = x275\<rparr>],
               orderLineTbl := orderLineTbl s @ ols\<rparr>, p')"
    "length ols = nat (sint x278)"
    "\<forall>r\<in>set ols. ol_1 r = d_11 d \<and> ol_2 r = x276 \<and> ol_3 r = x275"
    "length x4557 = length (stockTbl s)"
    "\<forall>h<length (stockTbl s). (x4557 ! h = None) = (stockTbl s ! h = None)"
    by blast
  show ?thesis
    apply (rule exI [where x = "s\<lparr>districtTbl := (districtTbl s)[SEntry11_IISSSSSSDDI_Idx1f1t11_2f1t2_hash x276 x275 :=
                                 Some (d\<lparr>d_11 := d_11 d + 1\<rparr>)],
               stockTbl := x4557,
               orderTbl := orderTbl s @ [\<lparr>o_1 = d_11 d, o_2 = x276, o_3 = x275, o_4 = x277, o_5 = x273,
                                   o_6 = - 1, o_7 = x278, o_8 = (if 0 <s x279 then 1 else 0)\<rparr>],
               newOrderTbl := newOrderTbl s @ [\<lparr>no_1 = d_11 d, no_2 = x276, no_3 = x275\<rparr>],
               orderLineTbl := orderLineTbl s @ ols\<rparr>"])
    apply (rule exI [where x = p'])
    apply (rule exI [where x = "\<lparr>o_1 = d_11 d, o_2 = x276, o_3 = x275, o_4 = x277, o_5 = x273,
                                   o_6 = - 1, o_7 = x278, o_8 = (if 0 <s x279 then 1 else 0)\<rparr>"])
    apply (rule exI [where x = ols])
    using r apply simp
    done
qed

lemma s0_commit_hyps:
  "0 \<le> sint (2::int32)"
  "nat (sint (2::int32)) \<le> length (itemid p0)" "nat (sint (2::int32)) \<le> length (supware p0)"
  "nat (sint (2::int32)) \<le> length (quantity p0)" "nat (sint (2::int32)) \<le> length (price p0)"
  "nat (sint (2::int32)) \<le> length (iname p0)" "nat (sint (2::int32)) \<le> length (stock p0)"
  "nat (sint (2::int32)) \<le> length (bg p0)" "nat (sint (2::int32)) \<le> length (amt p0)"
  "\<forall>j < nat (sint (2::int32)). item_of (itemTbl s0) (itemid p0) j \<noteq> None"
  "ArrayIndex_get (customerTbl s0)
        (SEntry21_IIISSSSSSSSSTSDDDDIIS_Idx1f1t3001_2f1t11_3f1t2_hash 1 1 1) \<noteq> None"
  "ArrayIndex_get (warehouseTbl s0) (SEntry9_ISSSSSSDD_Idx1f1t2_hash 1) \<noteq> None"
  "ArrayIndex_get (districtTbl s0) (SEntry11_IISSSSSSDDI_Idx1f1t11_2f1t2_hash 1 1) = Some d1"
  "\<forall>j < nat (sint (2::int32)). ArrayIndex_get (stockTbl s0)
        (SEntry17_IIISSSSSSSSSSIIIS_Idx1f1t100001_2f1t2_hash (itemid p0 ! j) (supware p0 ! j)) \<noteq> None"
  "\<forall>r\<in>set (orderTbl s0). \<not> (o_1 r = d_11 d1 \<and> o_2 r = 1 \<and> o_3 r = 1)"
  "\<forall>r\<in>set (newOrderTbl s0). \<not> (no_1 r = d_11 d1 \<and> no_2 r = 1 \<and> no_3 r = 1)"
  "\<forall>r\<in>set (orderLineTbl s0). \<not> (ol_1 r = d_11 d1 \<and> ol_2 r = 1 \<and> ol_3 r = 1)"
  by (simp_all add: s0_def p0_def item_of_def ArrayIndex_get_def SEntry5_IISDS_Idx1f1t100001_hash_def
        SEntry21_IIISSSSSSSSSTSDDDDIIS_Idx1f1t3001_2f1t11_3f1t2_hash_def SEntry9_ISSSSSSDD_Idx1f1t2_hash_def
        SEntry11_IISSSSSSDDI_Idx1f1t11_2f1t2_hash_def SEntry17_IIISSSSSSSSSSIIIS_Idx1f1t100001_2f1t2_hash_def
        numeral_2_eq_2 All_less_Suc)

theorem NewOrderTx_commit_rows_witness:
  "\<exists>s' p' ord ols.
    NewOrderTx sint s0 0 77 (- 1) 1 1 1 2 1 p0 = Some (s', p') \<and>
    districtTbl s' = (districtTbl s0)[SEntry11_IISSSSSSDDI_Idx1f1t11_2f1t2_hash 1 1 :=
                                       Some (d1\<lparr>d_11 := d_11 d1 + 1\<rparr>)] \<and>
    orderTbl s' = orderTbl s0 @ [ord] \<and>
    o_1 ord = d_11 d1 \<and> o_2 ord = 1 \<and> o_3 ord = 1 \<and> o_6 ord = - 1 \<and> o_7 ord = 2 \<and>
    newOrderTbl s' = newOrderTbl s0 @ [\<lparr>no_1 = d_11 d1, no_2 = 1, no_3 = 1\<rparr>] \<and>
    orderLineTbl s' = orderLineTbl s0 @ ols \<and> length ols = nat (sint (2::int32)) \<and>
    (\<forall>r\<in>set ols. ol_1 r = d_11 d1 \<and> ol_2 r = 1 \<and> ol_3 r = 1) \<and>
    warehouseTbl s' = warehouseTbl s0 \<and> customerTbl s' = customerTbl s0 \<and>
    itemTbl s' = itemTbl s0 \<and> historyTbl s' = historyTbl s0 \<and>
    length (stockTbl s') = length (stockTbl s0) \<and>
    (\<forall>h<length (stockTbl s0). (stockTbl s' ! h = None) = (stockTbl s0 ! h = None))"
  by (rule NewOrderTx_commit_rows [OF s0_commit_hyps])

text \<open>
  C6, as stated, fails. The order has a line supplied by warehouse 2 while the home
  warehouse is 1, and the all-local argument \<open>x279\<close> is 1: the order row that is
  inserted has \<open>o_8 = 1\<close>, not 0. With all lines local and \<open>x279 = 0\<close> it has \<open>o_8 = 0\<close>.
\<close>

theorem NewOrderTx_all_local_is_the_argument:
  "supware p0 ! 1 = 2 \<and>
   map_option (map o_8 \<circ> orderTbl \<circ> fst) (NewOrderTx sint s0 0 77 (- 1) 1 1 1 2 1 p0) = Some [1] \<and>
   supware (p0\<lparr>supware := [1, 1]\<rparr>) = [1, 1] \<and>
   map_option (map o_8 \<circ> orderTbl \<circ> fst)
     (NewOrderTx sint s0 0 77 (- 1) 1 1 1 2 0 (p0\<lparr>supware := [1, 1]\<rparr>)) = Some [0]"
  by code_simp

text \<open>
  C6, amended. In the commit case the \<open>o_all_local\<close> field \<open>o_8\<close> of the inserted order row
  is 1 when the all-local argument \<open>x279\<close> is positive and 0 otherwise, whatever the
  supplying warehouses of the lines are.
\<close>

theorem NewOrderTx_commit_all_local:
  fixes s :: "('d::{zero,one,plus,minus,times}) store"
  assumes n0: "0 \<le> sint x278"
    and len: "nat (sint x278) \<le> length (itemid p)" "nat (sint x278) \<le> length (supware p)"
      "nat (sint x278) \<le> length (quantity p)" "nat (sint x278) \<le> length (price p)"
      "nat (sint x278) \<le> length (iname p)" "nat (sint x278) \<le> length (stock p)"
      "nat (sint x278) \<le> length (bg p)" "nat (sint x278) \<le> length (amt p)"
    and items: "\<forall>j < nat (sint x278). item_of (itemTbl s) (itemid p) j \<noteq> None"
    and cust: "ArrayIndex_get (customerTbl s)
        (SEntry21_IIISSSSSSSSSTSDDDDIIS_Idx1f1t3001_2f1t11_3f1t2_hash x277 x276 x275) \<noteq> None"
    and wh: "ArrayIndex_get (warehouseTbl s) (SEntry9_ISSSSSSDD_Idx1f1t2_hash x275) \<noteq> None"
    and dist: "ArrayIndex_get (districtTbl s) (SEntry11_IISSSSSSDDI_Idx1f1t11_2f1t2_hash x276 x275) = Some d"
    and stk: "\<forall>j < nat (sint x278). ArrayIndex_get (stockTbl s)
        (SEntry17_IIISSSSSSSSSSIIIS_Idx1f1t100001_2f1t2_hash (itemid p ! j) (supware p ! j)) \<noteq> None"
    and fresh_o: "\<forall>r\<in>set (orderTbl s). \<not> (o_1 r = d_11 d \<and> o_2 r = x276 \<and> o_3 r = x275)"
    and fresh_no: "\<forall>r\<in>set (newOrderTbl s). \<not> (no_1 r = d_11 d \<and> no_2 r = x276 \<and> no_3 r = x275)"
    and fresh_ol: "\<forall>r\<in>set (orderLineTbl s). \<not> (ol_1 r = d_11 d \<and> ol_2 r = x276 \<and> ol_3 r = x275)"
  shows "\<exists>s' p' ord.
    NewOrderTx i2d s x272 x273 x274 x275 x276 x277 x278 x279 p = Some (s', p') \<and>
    orderTbl s' = orderTbl s @ [ord] \<and> o_8 ord = (if 0 <s x279 then 1 else 0)"
proof -
  from NewOrderTx_commit [OF assms, of i2d x272 x273 x274 x279]
  obtain x4557 ols p' where r:
    "NewOrderTx i2d s x272 x273 x274 x275 x276 x277 x278 x279 p =
      Some (s\<lparr>districtTbl := (districtTbl s)[SEntry11_IISSSSSSDDI_Idx1f1t11_2f1t2_hash x276 x275 :=
                                 Some (d\<lparr>d_11 := d_11 d + 1\<rparr>)],
               stockTbl := x4557,
               orderTbl := orderTbl s @ [\<lparr>o_1 = d_11 d, o_2 = x276, o_3 = x275, o_4 = x277, o_5 = x273,
                                   o_6 = - 1, o_7 = x278, o_8 = (if 0 <s x279 then 1 else 0)\<rparr>],
               newOrderTbl := newOrderTbl s @ [\<lparr>no_1 = d_11 d, no_2 = x276, no_3 = x275\<rparr>],
               orderLineTbl := orderLineTbl s @ ols\<rparr>, p')"
    by blast
  show ?thesis
    apply (rule exI [where x = "s\<lparr>districtTbl := (districtTbl s)[SEntry11_IISSSSSSDDI_Idx1f1t11_2f1t2_hash x276 x275 :=
                                 Some (d\<lparr>d_11 := d_11 d + 1\<rparr>)],
               stockTbl := x4557,
               orderTbl := orderTbl s @ [\<lparr>o_1 = d_11 d, o_2 = x276, o_3 = x275, o_4 = x277, o_5 = x273,
                                   o_6 = - 1, o_7 = x278, o_8 = (if 0 <s x279 then 1 else 0)\<rparr>],
               newOrderTbl := newOrderTbl s @ [\<lparr>no_1 = d_11 d, no_2 = x276, no_3 = x275\<rparr>],
               orderLineTbl := orderLineTbl s @ ols\<rparr>"])
    apply (rule exI [where x = p'])
    apply (rule exI [where x = "\<lparr>o_1 = d_11 d, o_2 = x276, o_3 = x275, o_4 = x277, o_5 = x273,
                                   o_6 = - 1, o_7 = x278, o_8 = (if 0 <s x279 then 1 else 0)\<rparr>"])
    using r apply simp
    done
qed

theorem NewOrderTx_commit_all_local_witness:
  "\<exists>s' p' ord.
    NewOrderTx sint s0 0 77 (- 1) 1 1 1 2 1 p0 = Some (s', p') \<and>
    orderTbl s' = orderTbl s0 @ [ord] \<and> o_8 ord = (if 0 <s (1::int32) then 1 else 0)"
  by (rule NewOrderTx_commit_all_local [OF s0_commit_hyps])

section \<open>Properties of StockLevelTx\<close>

lemma slice_StockLevel_line:
  assumes "\<forall>r\<in>set rows. P r \<longrightarrow>
    ArrayIndex_get x4557 (SEntry17_IIISSSSSSSSSSIIIS_Idx1f1t100001_2f1t2_hash (ol_5 r) x85) \<noteq> None"
  shows "slice P (StockLevel_line x4557 x85 x87) rows S =
    Some (rows, S \<union> {ol_5 r | r. r \<in> set rows \<and> P r \<and> low_stock x4557 x85 x87 r})"
  using assms
proof (induction rows arbitrary: S)
  case Nil
  then show ?case by simp
next
  case (Cons r rs)
  have rest: "\<forall>r\<in>set rs. P r \<longrightarrow>
    ArrayIndex_get x4557 (SEntry17_IIISSSSSSSSSSIIIS_Idx1f1t100001_2f1t2_hash (ol_5 r) x85) \<noteq> None"
    using Cons.prems by simp
  show ?case
  proof (cases "P r")
    case True
    then obtain st where st: "ArrayIndex_get x4557
        (SEntry17_IIISSSSSSSSSSIIIS_Idx1f1t100001_2f1t2_hash (ol_5 r) x85) = Some st"
      using Cons.prems by auto
    let ?S' = "if s_3 st <s x87 then insert (ol_5 r) S else S"
    have f: "StockLevel_line x4557 x85 x87 r S = Some (r, ?S')"
      using st by (simp add: StockLevel_line_def)
    have low: "low_stock x4557 x85 x87 r = (s_3 st <s x87)" using st by (simp add: low_stock_def)
    have "?S' \<union> {ol_5 q | q. q \<in> set rs \<and> P q \<and> low_stock x4557 x85 x87 q} =
      S \<union> {ol_5 q | q. q \<in> set (r # rs) \<and> P q \<and> low_stock x4557 x85 x87 q}"
      using True low by auto
    then show ?thesis using True f Cons.IH [OF rest, of ?S'] by simp
  next
    case False
    have "S \<union> {ol_5 q | q. q \<in> set rs \<and> P q \<and> low_stock x4557 x85 x87 q} =
      S \<union> {ol_5 q | q. q \<in> set (r # rs) \<and> P q \<and> low_stock x4557 x85 x87 q}"
      using False by auto
    then show ?thesis using False Cons.IH [OF rest, of S] by simp
  qed
qed

lemma SEntry10_IIIIIITIDS_Idx123_cmp_eq_0:
  "SEntry10_IIIIIITIDS_Idx123_cmp a b c r = 0 \<longleftrightarrow> ol_1 r = a \<and> ol_2 r = b \<and> ol_3 r = c"
  by (auto simp add: SEntry10_IIIIIITIDS_Idx123_cmp_def Let_def)

lemma sint_eq_iff: "sint (a::int32) = sint b \<longleftrightarrow> a = b"
  by (auto intro: signed_word_eqI)

lemma StockLevel_loop_run:
  assumes "\<forall>r\<in>set rows. ol_2 r = x86 \<and> ol_3 r = x85 \<and> sint x97 \<le> sint (ol_1 r) \<and>
      sint (ol_1 r) < sint x7660 \<longrightarrow>
    ArrayIndex_get x4557 (SEntry17_IIISSSSSSSSSSIIIS_Idx1f1t100001_2f1t2_hash (ol_5 r) x85) \<noteq> None"
  shows "StockLevel_loop x4557 x85 x86 x87 x7660 x97 (rows, S) =
    Some (rows, S \<union> {ol_5 r | r. r \<in> set rows \<and> ol_2 r = x86 \<and> ol_3 r = x85 \<and>
                      sint x97 \<le> sint (ol_1 r) \<and> sint (ol_1 r) < sint x7660 \<and>
                      low_stock x4557 x85 x87 r})"
  using assms
proof (induction "nat (sint x7660 - sint x97)" arbitrary: x97 S)
  case 0
  then have "\<not> x97 <s x7660" by (simp add: word_sless_alt)
  then have l: "StockLevel_loop x4557 x85 x86 x87 x7660 x97 (rows, S) = Some (rows, S)"
    by (subst StockLevel_loop.simps) simp
  have e: "{ol_5 r | r. r \<in> set rows \<and> ol_2 r = x86 \<and> ol_3 r = x85 \<and>
                      sint x97 \<le> sint (ol_1 r) \<and> sint (ol_1 r) < sint x7660 \<and>
                      low_stock x4557 x85 x87 r} = {}"
    using 0(1) by auto
  show ?case unfolding l e by simp
next
  case (Suc n)
  have "sint x97 < sint x7660" using Suc.hyps(2) by linarith
  then have lt: "x97 <s x7660" by (simp add: word_sless_alt)
  have s1: "sint (x97 + 1) = sint x97 + 1" using lt by (rule sint_succ)
  let ?P = "\<lambda>r. SEntry10_IIIIIITIDS_Idx123_cmp x97 x86 x85 r = 0"
  let ?A = "{ol_5 r | r. r \<in> set rows \<and> ?P r \<and> low_stock x4557 x85 x87 r}"
  have "\<forall>r\<in>set rows. ?P r \<longrightarrow>
    ArrayIndex_get x4557 (SEntry17_IIISSSSSSSSSSIIIS_Idx1f1t100001_2f1t2_hash (ol_5 r) x85) \<noteq> None"
    using Suc.prems \<open>sint x97 < sint x7660\<close> by (simp add: SEntry10_IIIIIITIDS_Idx123_cmp_eq_0)
  then have sl: "slice ?P (StockLevel_line x4557 x85 x87) rows S = Some (rows, S \<union> ?A)"
    by (rule slice_StockLevel_line)
  have unfold: "StockLevel_loop x4557 x85 x86 x87 x7660 x97 (rows, S) =
    StockLevel_loop x4557 x85 x86 x87 x7660 (x97 + 1) (rows, S \<union> ?A)"
    using lt sl by (subst StockLevel_loop.simps) simp
  have ih: "StockLevel_loop x4557 x85 x86 x87 x7660 (x97 + 1) (rows, S \<union> ?A) =
    Some (rows, (S \<union> ?A) \<union> {ol_5 r | r. r \<in> set rows \<and> ol_2 r = x86 \<and> ol_3 r = x85 \<and>
                      sint (x97 + 1) \<le> sint (ol_1 r) \<and> sint (ol_1 r) < sint x7660 \<and>
                      low_stock x4557 x85 x87 r})"
  proof (rule Suc.hyps(1))
    show "n = nat (sint x7660 - sint (x97 + 1))" using Suc.hyps(2) s1 by simp
    show "\<forall>r\<in>set rows. ol_2 r = x86 \<and> ol_3 r = x85 \<and> sint (x97 + 1) \<le> sint (ol_1 r) \<and>
      sint (ol_1 r) < sint x7660 \<longrightarrow>
      ArrayIndex_get x4557 (SEntry17_IIISSSSSSSSSSIIIS_Idx1f1t100001_2f1t2_hash (ol_5 r) x85) \<noteq> None"
      using Suc.prems s1 by simp
  qed
  have "?A \<union> {ol_5 r | r. r \<in> set rows \<and> ol_2 r = x86 \<and> ol_3 r = x85 \<and>
                      sint (x97 + 1) \<le> sint (ol_1 r) \<and> sint (ol_1 r) < sint x7660 \<and>
                      low_stock x4557 x85 x87 r} =
    {ol_5 r | r. r \<in> set rows \<and> ol_2 r = x86 \<and> ol_3 r = x85 \<and>
                      sint x97 \<le> sint (ol_1 r) \<and> sint (ol_1 r) < sint x7660 \<and>
                      low_stock x4557 x85 x87 r}" (is "?A \<union> ?B = ?C")
  proof (intro set_eqI iffI)
    fix u assume "u \<in> ?A \<union> ?B"
    then show "u \<in> ?C"
      using \<open>sint x97 < sint x7660\<close> s1 by (auto simp add: SEntry10_IIIIIITIDS_Idx123_cmp_eq_0)
  next
    fix u assume "u \<in> ?C"
    then obtain r where r: "u = ol_5 r" "r \<in> set rows" "ol_2 r = x86" "ol_3 r = x85"
      "sint x97 \<le> sint (ol_1 r)" "sint (ol_1 r) < sint x7660" "low_stock x4557 x85 x87 r"
      by auto
    show "u \<in> ?A \<union> ?B"
    proof (cases "sint (ol_1 r) = sint x97")
      case True
      then have "ol_1 r = x97" by (simp add: sint_eq_iff)
      then have "u \<in> ?A" using r by (auto simp add: SEntry10_IIIIIITIDS_Idx123_cmp_eq_0)
      then show ?thesis by simp
    next
      case False
      then have "sint (x97 + 1) \<le> sint (ol_1 r)" using r(5) s1 by simp
      then have "u \<in> ?B" using r by auto
      then show ?thesis by simp
    qed
  qed
  then show ?case unfolding unfold ih by (simp add: Un_assoc)
qed

lemma sint_minus_20: "- 2147483628 \<le> sint (x::int32) \<Longrightarrow> sint (x - 20) = sint x - 20"
proof -
  assume a: "- 2147483628 \<le> sint x"
  have "sint x < 2 ^ 31" using sint_lt [of x] by simp
  then have "signed_take_bit 31 (sint x - 20) = sint x - 20"
    using a by (intro signed_take_bit_int_eq_self) auto
  then show ?thesis by (simp add: sint_word_ariths)
qed

text \<open>
  C8, as stated, fails. The district's next order id is 5 and the district has an order
  line of the order id 0 whose item has the stock quantity 20, below the threshold 30.
  The loop starts at \<open>5 - 20\<close>, not at 1, so the line is scanned and its item enters
  the set: the set has one element, where the scan of \<open>[1, 5)\<close> that the claim
  describes counts none. The procedure itself returns no count: its only result is the
  store.
\<close>

theorem StockLevelTx_scans_below_1:
  "ArrayIndex_get (districtTbl s1) (SEntry11_IISSSSSSDDI_Idx1f1t11_2f1t2_hash 1 1) =
     Some (d1\<lparr>d_11 := 5\<rparr>) \<and>
   orderLineTbl s1 = [ol0] \<and> ol_1 ol0 = 0 \<and>
   map_option snd (StockLevel_body s1 0 0 0 1 1 30) = Some {1} \<and>
   StockLevel_spec s1 1 1 30 = Some 0 \<and>
   StockLevelTx s1 0 0 0 1 1 30 = Some s1"
  by code_simp

text \<open>
  C8, amended. StockLevel reads the \<open>next_o_id\<close> field \<open>d_11\<close> of the district row of
  \<open>(x85, x86)\<close>, scans the order lines of the district for each order id of
  \<open>[next_o_id - 20, next_o_id)\<close>, with no lower bound at 1, and collects in a local set
  the item ids of the scanned lines whose stock quantity in the warehouse is strictly
  below the threshold \<open>x87\<close>. It returns nothing and leaves the store as it was. The
  hypotheses are that the district row and the stock rows of the scanned lines exist,
  and that \<open>next_o_id - 20\<close> does not wrap around.
\<close>

theorem StockLevelTx_scan:
  assumes dist: "ArrayIndex_get (districtTbl s) (SEntry11_IISSSSSSDDI_Idx1f1t11_2f1t2_hash x86 x85) = Some d"
    and nowrap: "- 2147483628 \<le> sint (d_11 d)"
    and stk: "\<forall>r\<in>set (orderLineTbl s). ol_2 r = x86 \<and> ol_3 r = x85 \<and>
        sint (d_11 d) - 20 \<le> sint (ol_1 r) \<and> sint (ol_1 r) < sint (d_11 d) \<longrightarrow>
      ArrayIndex_get (stockTbl s)
        (SEntry17_IIISSSSSSSSSSIIIS_Idx1f1t100001_2f1t2_hash (ol_5 r) x85) \<noteq> None"
  shows "StockLevel_body s x82 x83 x84 x85 x86 x87 =
      Some (s, {ol_5 r | r. r \<in> set (orderLineTbl s) \<and> ol_2 r = x86 \<and> ol_3 r = x85 \<and>
                  sint (d_11 d) - 20 \<le> sint (ol_1 r) \<and> sint (ol_1 r) < sint (d_11 d) \<and>
                  low_stock (stockTbl s) x85 x87 r}) \<and>
    StockLevelTx s x82 x83 x84 x85 x86 x87 = Some s"
proof -
  have m: "sint (d_11 d - 20) = sint (d_11 d) - 20" using nowrap by (rule sint_minus_20)
  have "StockLevel_loop (stockTbl s) x85 x86 x87 (d_11 d) (d_11 d - 20) (orderLineTbl s, {}) =
    Some (orderLineTbl s, {} \<union> {ol_5 r | r. r \<in> set (orderLineTbl s) \<and> ol_2 r = x86 \<and> ol_3 r = x85 \<and>
                  sint (d_11 d - 20) \<le> sint (ol_1 r) \<and> sint (ol_1 r) < sint (d_11 d) \<and>
                  low_stock (stockTbl s) x85 x87 r})"
    by (rule StockLevel_loop_run) (use stk m in simp)
  then have body: "StockLevel_body s x82 x83 x84 x85 x86 x87 =
      Some (s, {ol_5 r | r. r \<in> set (orderLineTbl s) \<and> ol_2 r = x86 \<and> ol_3 r = x85 \<and>
                  sint (d_11 d) - 20 \<le> sint (ol_1 r) \<and> sint (ol_1 r) < sint (d_11 d) \<and>
                  low_stock (stockTbl s) x85 x87 r})"
    using dist m by (simp add: StockLevel_body_def Let_def)
  then show ?thesis by (simp add: StockLevelTx_def)
qed

theorem StockLevelTx_scan_witness:
  "StockLevel_body s1 0 0 0 1 1 30 =
      Some (s1, {ol_5 r | r. r \<in> set (orderLineTbl s1) \<and> ol_2 r = 1 \<and> ol_3 r = 1 \<and>
                  sint (d_11 (d1\<lparr>d_11 := 5\<rparr>)) - 20 \<le> sint (ol_1 r) \<and>
                  sint (ol_1 r) < sint (d_11 (d1\<lparr>d_11 := 5\<rparr>)) \<and>
                  low_stock (stockTbl s1) 1 30 r}) \<and>
   StockLevelTx s1 0 0 0 1 1 30 = Some s1"
proof -
  have h1: "ArrayIndex_get (districtTbl s1) (SEntry11_IISSSSSSDDI_Idx1f1t11_2f1t2_hash 1 1) =
     Some (d1\<lparr>d_11 := 5\<rparr>)"
    by (simp add: s1_def ArrayIndex_get_def SEntry11_IISSSSSSDDI_Idx1f1t11_2f1t2_hash_def)
  have h2: "- 2147483628 \<le> sint (d_11 (d1\<lparr>d_11 := 5\<rparr>))" by simp
  have h3: "\<forall>r\<in>set (orderLineTbl s1). ol_2 r = 1 \<and> ol_3 r = 1 \<and>
        sint (d_11 (d1\<lparr>d_11 := 5\<rparr>)) - 20 \<le> sint (ol_1 r) \<and>
        sint (ol_1 r) < sint (d_11 (d1\<lparr>d_11 := 5\<rparr>)) \<longrightarrow>
      ArrayIndex_get (stockTbl s1)
        (SEntry17_IIISSSSSSSSSSIIIS_Idx1f1t100001_2f1t2_hash (ol_5 r) 1) \<noteq> None"
    by (simp add: s1_def s0_def ol0_def ArrayIndex_get_def
          SEntry17_IIISSSSSSSSSSIIIS_Idx1f1t100001_2f1t2_hash_def)
  show ?thesis by (rule StockLevelTx_scan [OF h1 h2 h3])
qed

section \<open>Properties of DeliveryTx\<close>

lemma min_by_mem: "min_by ord tbl b js \<in> set (b # js)"
  by (induction js arbitrary: b) auto

lemma SEntry3_III_Idx23_Ordering_cmp_less:
  "SEntry3_III_Idx23_Ordering_cmp a b < 0 \<longleftrightarrow> no_1 a < no_1 b"
  by (auto simp add: SEntry3_III_Idx23_Ordering_cmp_def Let_def)

lemma min_by_least:
  "no_1 (tbl ! min_by SEntry3_III_Idx23_Ordering_cmp tbl b js) \<le> no_1 (tbl ! b) \<and>
   (\<forall>j\<in>set js. no_1 (tbl ! min_by SEntry3_III_Idx23_Ordering_cmp tbl b js) \<le> no_1 (tbl ! j))"
proof (induction js arbitrary: b)
  case Nil
  show ?case by simp
next
  case (Cons j js)
  let ?b' = "if SEntry3_III_Idx23_Ordering_cmp (tbl ! j) (tbl ! b) < 0 then j else b"
  have le: "no_1 (tbl ! ?b') \<le> no_1 (tbl ! b)" "no_1 (tbl ! ?b') \<le> no_1 (tbl ! j)"
    by (auto simp add: SEntry3_III_Idx23_Ordering_cmp_less)
  from Cons.IH [of ?b'] le show ?case
    by (auto simp del: min_by.simps simp add: min_by.simps(2) [of _ tbl b j js] intro: order_trans)
qed

lemma filter_positions:
  "set (filter (\<lambda>i. P (tbl ! i)) [0..<length tbl]) = {i. i < length tbl \<and> P (tbl ! i)}"
  by auto

lemma TreeIndex_get_None:
  "TreeIndex_get P ord tbl = None \<longleftrightarrow> (\<forall>r\<in>set tbl. \<not> P r)"
proof -
  have "TreeIndex_get P ord tbl = None \<longleftrightarrow> filter (\<lambda>i. P (tbl ! i)) [0..<length tbl] = []"
    by (simp add: TreeIndex_get_def split: list.splits)
  also have "\<dots> \<longleftrightarrow> (\<forall>i<length tbl. \<not> P (tbl ! i))"
    by (auto simp add: filter_empty_conv)
  also have "\<dots> \<longleftrightarrow> (\<forall>r\<in>set tbl. \<not> P r)"
    by (metis in_set_conv_nth)
  finally show ?thesis .
qed

lemma TreeIndex_get_Some:
  assumes "TreeIndex_get P SEntry3_III_Idx23_Ordering_cmp tbl = Some h"
  shows "h < length tbl \<and> P (tbl ! h) \<and> (\<forall>r\<in>set tbl. P r \<longrightarrow> no_1 (tbl ! h) \<le> no_1 r)"
proof -
  obtain i js where f: "filter (\<lambda>i. P (tbl ! i)) [0..<length tbl] = i # js"
    and h: "h = min_by SEntry3_III_Idx23_Ordering_cmp tbl i js"
    using assms by (auto simp add: TreeIndex_get_def split: list.splits)
  have "h \<in> set (i # js)" unfolding h by (rule min_by_mem)
  then have "h \<in> {i. i < length tbl \<and> P (tbl ! i)}"
    unfolding f [symmetric] filter_positions .
  then have 1: "h < length tbl" "P (tbl ! h)" by simp_all
  have 2: "\<forall>r\<in>set tbl. P r \<longrightarrow> no_1 (tbl ! h) \<le> no_1 r"
  proof (intro ballI impI)
    fix r assume "r \<in> set tbl" "P r"
    then obtain k where k: "k < length tbl" "tbl ! k = r" by (auto simp add: in_set_conv_nth)
    then have "k \<in> {i. i < length tbl \<and> P (tbl ! i)}" using \<open>P r\<close> by simp
    then have "k \<in> set (i # js)" unfolding f [symmetric] filter_positions .
    then show "no_1 (tbl ! h) \<le> no_1 r"
      using min_by_least [of tbl i js] k(2) unfolding h by auto
  qed
  show ?thesis using 1 2 by simp
qed

lemma SEntry3_III_Idx23_cmp_eq_0:
  "SEntry3_III_Idx23_cmp a b r = 0 \<longleftrightarrow> no_2 r = a \<and> no_3 r = b"
  by (auto simp add: SEntry3_III_Idx23_cmp_def Let_def)

lemma sint_pred: "1 \<le> sint (x::int32) \<Longrightarrow> sint (x - 1) = sint x - 1"
proof -
  assume a: "1 \<le> sint x"
  have "sint x < 2 ^ 31" using sint_lt [of x] by simp
  then have "signed_take_bit 31 (sint x - 1) = sint x - 1"
    using a by (intro signed_take_bit_int_eq_self) auto
  then show ?thesis by (simp add: sint_word_ariths)
qed

lemma Delivery_loop_step:
  "x18 \<le>s 10 \<Longrightarrow> Delivery_district st x11 x12 x13 x18 = Some st' \<Longrightarrow>
   Delivery_loop x11 x12 x13 x18 st = Delivery_loop x11 x12 x13 (x18 + 1) st'"
  by (subst Delivery_loop.simps) simp

lemma orderIDs_set:
  "1 \<le> sint x18 \<Longrightarrow> sint x18 \<le> 10 \<Longrightarrow> 10 \<le> length orderIDs \<Longrightarrow>
   arr_set orderIDs (x18 - 1) v = Some (orderIDs[nat (sint x18 - 1) := v])"
  by (simp add: arr_set_def sint_pred word_sle_eq)

text \<open>
  C9. When the district \<open>x18\<close> of 1 to 10 has no pending new_order row for the warehouse
  \<open>x12\<close>, the iteration of the Delivery loop for that district records 0 in the slot
  \<open>x18 - 1\<close> of \<open>orderIDs\<close> and leaves the store as it was: no row of any table is
  inserted, removed or changed, and the loop goes on to the next district.
\<close>

theorem Delivery_district_nothing_pending:
  fixes s :: "('d::{zero,plus}) store"
  assumes "1 \<le> sint x18" and "sint x18 \<le> 10" and "10 \<le> length orderIDs"
    and "\<forall>r\<in>set (newOrderTbl s). \<not> (no_2 r = x18 \<and> no_3 r = x12)"
  shows "Delivery_district (s, orderIDs) x11 x12 x13 x18 = Some (s, orderIDs[nat (sint x18 - 1) := 0]) \<and>
    Delivery_loop x11 x12 x13 x18 (s, orderIDs) =
      Delivery_loop x11 x12 x13 (x18 + 1) (s, orderIDs[nat (sint x18 - 1) := 0])"
proof -
  have "TreeIndex_get (\<lambda>r. SEntry3_III_Idx23_cmp x18 x12 r = 0) SEntry3_III_Idx23_Ordering_cmp
      (newOrderTbl s) = None"
    using assms(4) by (simp add: TreeIndex_get_None SEntry3_III_Idx23_cmp_eq_0)
  then have body: "Delivery_district (s, orderIDs) x11 x12 x13 x18 =
      Some (s, orderIDs[nat (sint x18 - 1) := 0])"
    using assms(1-3) by (simp add: Delivery_district_def orderIDs_set)
  moreover have "x18 \<le>s 10" using assms(2) by (simp add: word_sle_eq)
  ultimately show ?thesis using Delivery_loop_step by blast
qed

theorem Delivery_district_nothing_pending_witness:
  "Delivery_district (s0, replicate 123 0) 55 1 8 3 = Some (s0, (replicate 123 0)[nat (sint (3::int32) - 1) := 0]) \<and>
   Delivery_loop 55 1 8 3 (s0, replicate 123 0) =
      Delivery_loop 55 1 8 (3 + 1) (s0, (replicate 123 0)[nat (sint (3::int32) - 1) := 0])"
proof -
  have h1: "1 \<le> sint (3::int32)" and h2: "sint (3::int32) \<le> 10"
    and h3: "10 \<le> length (replicate 123 (0::int32))" by simp_all
  have h4: "\<forall>r\<in>set (newOrderTbl s0). \<not> (no_2 r = 3 \<and> no_3 r = 1)" by (simp add: s0_def)
  show ?thesis by (rule Delivery_district_nothing_pending [OF h1 h2 h3 h4])
qed

lemma sint_nonneg_uint: "0 \<le> sint (a::int32) \<Longrightarrow> sint a = uint a"
proof -
  assume nn: "0 \<le> sint a"
  have u: "0 \<le> uint a" "uint a < 2 ^ 32" using uint_lt2p [of a] by simp_all
  have s: "sint a = (uint a + 2 ^ 31) mod 2 ^ 32 - 2 ^ 31"
    by (simp add: sint_uint signed_take_bit_eq_take_bit_shift take_bit_eq_mod)
  show ?thesis
  proof (cases "uint a < 2 ^ 31")
    case True
    then have "(uint a + 2 ^ 31) mod 2 ^ 32 = uint a + 2 ^ 31" using u by simp
    then show ?thesis using s by simp
  next
    case False
    then have "(uint a + 2 ^ 31) mod 2 ^ 32 = uint a + 2 ^ 31 - 2 ^ 32"
      using u by (simp add: mod_pos_geq mod_pos_pos_trivial)
    then have "sint a < 0" using s u by simp
    then show ?thesis using nn by simp
  qed
qed

lemma nonneg_le_iff_sle:
  "0 \<le> sint (a::int32) \<Longrightarrow> 0 \<le> sint b \<Longrightarrow> a \<le> b \<longleftrightarrow> a \<le>s b"
  by (simp add: word_le_def word_sle_eq sint_nonneg_uint)


lemma first_pos_ex: "\<exists>r\<in>set rs. P r \<Longrightarrow> \<exists>i. first_pos P rs = Some i"
  using first_pos_None [of P rs] by (cases "first_pos P rs") auto

lemma SEntry8_IIIITIIB_Idx123_cmp_eq_0:
  "SEntry8_IIIITIIB_Idx123_cmp a b c r = 0 \<longleftrightarrow> o_1 r = a \<and> o_2 r = b \<and> o_3 r = c"
  by (auto simp add: SEntry8_IIIITIIB_Idx123_cmp_def Let_def)

lemma slice_Delivery_line:
  "slice P (Delivery_line x11) rows a =
    Some (map (\<lambda>l. if P l then l\<lparr>ol_7 := x11\<rparr> else l) rows,
          foldl (\<lambda>a l. a + ol_9 l) a (filter P rows))"
  by (induction rows arbitrary: a) (simp_all add: Delivery_line_def)



lemma Delivery_district_run:
  fixes s :: "('d::{zero,plus}) store"
  assumes rng: "1 \<le> sint x18" "sint x18 \<le> 10" "10 \<le> length orderIDs"
    and get: "TreeIndex_get (\<lambda>r. SEntry3_III_Idx23_cmp x18 x12 r = 0)
        SEntry3_III_Idx23_Ordering_cmp (newOrderTbl s) = Some h"
    and fp: "first_pos (\<lambda>q. SEntry8_IIIITIIB_Idx123_cmp (no_1 (newOrderTbl s ! h)) x18 x12 q = 0)
        (orderTbl s) = Some ho"
    and c: "ArrayIndex_get (customerTbl s)
      (SEntry21_IIISSSSSSSSSTSDDDDIIS_Idx1f1t3001_2f1t11_3f1t2_hash (o_4 (orderTbl s ! ho)) x18 x12) = Some c"
  shows "Delivery_district (s, orderIDs) x11 x12 x13 x18 =
      Some (s\<lparr>customerTbl := (customerTbl s)
      [SEntry21_IIISSSSSSSSSTSDDDDIIS_Idx1f1t3001_2f1t11_3f1t2_hash (o_4 (orderTbl s ! ho)) x18 x12 :=
         Some (c\<lparr>c_17 := c_17 c + foldl (\<lambda>a l. a + ol_9 l) 0
                  (filter (\<lambda>l. ol_1 l = no_1 (newOrderTbl s ! h) \<and> ol_2 l = x18 \<and> ol_3 l = x12)
                     (orderLineTbl s)),
                 c_20 := c_20 c + 1\<rparr>)],
      orderTbl := (orderTbl s)[ho := (orderTbl s ! ho)\<lparr>o_6 := x13\<rparr>],
      newOrderTbl := del h (newOrderTbl s),
      orderLineTbl := map (\<lambda>l. if ol_1 l = no_1 (newOrderTbl s ! h) \<and> ol_2 l = x18 \<and> ol_3 l = x12
                then l\<lparr>ol_7 := x11\<rparr> else l) (orderLineTbl s)\<rparr>,
            orderIDs[nat (sint x18 - 1) := no_1 (newOrderTbl s ! h)])"
proof -
  have ids: "arr_set orderIDs (x18 - 1) (no_1 (newOrderTbl s ! h)) =
    Some (orderIDs[nat (sint x18 - 1) := no_1 (newOrderTbl s ! h)])"
    using rng by (rule orderIDs_set)
  show ?thesis
    unfolding Delivery_district_def
    by (simp only: prod.case get option.case Let_def ids fp c bind.bind_lunit slice_Delivery_line
          SEntry10_IIIIIITIDS_Idx123_cmp_eq_0 fst_conv snd_conv)
       simp
qed


lemma TreeIndex_get_pending:
  fixes s :: "('d::{zero,plus}) store"
  assumes pend: "\<exists>r\<in>set (newOrderTbl s). no_2 r = x18 \<and> no_3 r = x12"
  shows "\<exists>h. TreeIndex_get (\<lambda>r. SEntry3_III_Idx23_cmp x18 x12 r = 0) SEntry3_III_Idx23_Ordering_cmp (newOrderTbl s) = Some h
    \<and> h < length (newOrderTbl s) \<and> no_2 (newOrderTbl s ! h) = x18 \<and> no_3 (newOrderTbl s ! h) = x12 \<and>
    (\<forall>r\<in>set (newOrderTbl s). no_2 r = x18 \<and> no_3 r = x12 \<longrightarrow> no_1 (newOrderTbl s ! h) \<le> no_1 r)"
proof -
  let ?P = "\<lambda>r. SEntry3_III_Idx23_cmp x18 x12 r = 0"
  have "TreeIndex_get ?P SEntry3_III_Idx23_Ordering_cmp (newOrderTbl s) \<noteq> None"
    using pend by (simp add: TreeIndex_get_None SEntry3_III_Idx23_cmp_eq_0)
  then obtain h where get: "TreeIndex_get ?P SEntry3_III_Idx23_Ordering_cmp (newOrderTbl s) = Some h"
    by blast
  let ?r = "newOrderTbl s ! h"
  from TreeIndex_get_Some [OF get]
  have h: "h < length (newOrderTbl s)" and key: "no_2 ?r = x18" "no_3 ?r = x12"
    and least: "\<forall>r\<in>set (newOrderTbl s). no_2 r = x18 \<and> no_3 r = x12 \<longrightarrow> no_1 ?r \<le> no_1 r"
    by (simp_all add: SEntry3_III_Idx23_cmp_eq_0)
  show ?thesis using get h key least by blast
qed


lemma pending_signed_least:
  fixes s :: "('d::{zero,plus}) store"
  assumes h: "h < length (newOrderTbl s)" and key: "no_2 (newOrderTbl s ! h) = x18" "no_3 (newOrderTbl s ! h) = x12"
    and least: "\<forall>r\<in>set (newOrderTbl s). no_2 r = x18 \<and> no_3 r = x12 \<longrightarrow> no_1 (newOrderTbl s ! h) \<le> no_1 r"
  shows "(\<forall>r\<in>set (newOrderTbl s). no_2 r = x18 \<and> no_3 r = x12 \<longrightarrow> 0 \<le>s no_1 r) \<longrightarrow>
     (\<forall>r\<in>set (newOrderTbl s). no_2 r = x18 \<and> no_3 r = x12 \<longrightarrow> no_1 (newOrderTbl s ! h) \<le>s no_1 r)"
proof (intro impI ballI)
  let ?r = "newOrderTbl s ! h"
  have rin: "?r \<in> set (newOrderTbl s)" using h by simp
  fix r
  assume nn: "\<forall>r\<in>set (newOrderTbl s). no_2 r = x18 \<and> no_3 r = x12 \<longrightarrow> 0 \<le>s no_1 r"
    and r: "r \<in> set (newOrderTbl s)" "no_2 r = x18 \<and> no_3 r = x12"
  have "0 \<le>s no_1 ?r" using nn rin key by blast
  moreover have "0 \<le>s no_1 r" using nn r by blast
  moreover have "no_1 ?r \<le> no_1 r" using least r by blast
  ultimately show "no_1 ?r \<le>s no_1 r" by (simp add: nonneg_le_iff_sle word_sle_eq)
qed


lemma pending_order_customer:
  fixes s :: "('d::{zero,plus}) store"
  assumes rin: "r \<in> set (newOrderTbl s)" and key: "no_2 r = x18" "no_3 r = x12"
    and ord: "\<forall>r\<in>set (newOrderTbl s). no_2 r = x18 \<and> no_3 r = x12 \<longrightarrow>
      (\<exists>q\<in>set (orderTbl s). o_1 q = no_1 r \<and> o_2 q = x18 \<and> o_3 q = x12)"
    and cust: "\<forall>q\<in>set (orderTbl s). o_2 q = x18 \<and> o_3 q = x12 \<longrightarrow>
      ArrayIndex_get (customerTbl s)
        (SEntry21_IIISSSSSSSSSTSDDDDIIS_Idx1f1t3001_2f1t11_3f1t2_hash (o_4 q) x18 x12) \<noteq> None"
  shows "\<exists>ho c. first_pos (\<lambda>q. SEntry8_IIIITIIB_Idx123_cmp (no_1 r) x18 x12 q = 0) (orderTbl s) = Some ho \<and>
    ho < length (orderTbl s) \<and> o_1 (orderTbl s ! ho) = no_1 r \<and>
    o_2 (orderTbl s ! ho) = x18 \<and> o_3 (orderTbl s ! ho) = x12 \<and>
    ArrayIndex_get (customerTbl s)
      (SEntry21_IIISSSSSSSSSTSDDDDIIS_Idx1f1t3001_2f1t11_3f1t2_hash (o_4 (orderTbl s ! ho)) x18 x12) = Some c"
proof -
  let ?Q = "\<lambda>q. SEntry8_IIIITIIB_Idx123_cmp (no_1 r) x18 x12 q = 0"
  have "\<exists>q\<in>set (orderTbl s). o_1 q = no_1 r \<and> o_2 q = x18 \<and> o_3 q = x12"
    using ord [rule_format, OF rin] key by simp
  then have "\<exists>q\<in>set (orderTbl s). ?Q q"
    by (simp add: SEntry8_IIIITIIB_Idx123_cmp_eq_0)
  then have "\<exists>i. first_pos ?Q (orderTbl s) = Some i" by (rule first_pos_ex)
  then obtain ho where fp: "first_pos ?Q (orderTbl s) = Some ho" by (rule exE)
  from first_pos_Some [OF fp]
  have ho: "ho < length (orderTbl s)" and q: "?Q (orderTbl s ! ho)"
    by simp_all
  have okey: "o_1 (orderTbl s ! ho) = no_1 r" "o_2 (orderTbl s ! ho) = x18" "o_3 (orderTbl s ! ho) = x12"
    using q by (simp_all add: SEntry8_IIIITIIB_Idx123_cmp_eq_0)
  have mem: "orderTbl s ! ho \<in> set (orderTbl s)" using ho by simp
  have "ArrayIndex_get (customerTbl s)
      (SEntry21_IIISSSSSSSSSTSDDDDIIS_Idx1f1t3001_2f1t11_3f1t2_hash (o_4 (orderTbl s ! ho)) x18 x12) \<noteq> None"
    using cust [rule_format, OF mem] okey(2,3) by simp
  then obtain c where c: "ArrayIndex_get (customerTbl s)
      (SEntry21_IIISSSSSSSSSTSDDDDIIS_Idx1f1t3001_2f1t11_3f1t2_hash (o_4 (orderTbl s ! ho)) x18 x12) = Some c"
    by blast
  show ?thesis
    apply (rule exI [where x = ho], rule exI [where x = c])
    apply (insert fp ho okey c)
    apply (intro conjI; assumption)
    done
qed

text \<open>
  C2, as stated, fails in two places. In the column order of the customer table the
  balance is \<open>c_17\<close>, the payment counter is \<open>c_19\<close> and the delivery counter is \<open>c_20\<close>.
  In the database \<open>s2\<close> the only customer has both counters at 0 and the orders 7 and 9
  pending in district 1: the iteration for the district leaves the payment counter
  \<open>c_19\<close> at 0 and sets the delivery counter \<open>c_20\<close> to 1. In the database \<open>s4\<close> the
  orders \<open>-1\<close> and 3 are pending: the order 3 is delivered and the new_order row of the
  order \<open>-1\<close>, the smaller id, is kept, since the ordered index compares the ids as
  unsigned numbers.
\<close>

theorem Delivery_district_counts_deliveries:
  "customerTbl s2 = [Some c1] \<and> c_19 c1 = 0 \<and> c_20 c1 = 0 \<and>
   map no_1 (newOrderTbl s2) = [9, 7] \<and>
   map_option (map (map_option c_19) \<circ> customerTbl \<circ> fst)
     (Delivery_district (s2, replicate 123 0) 55 1 8 1) = Some [Some 0] \<and>
   map_option (map (map_option c_20) \<circ> customerTbl \<circ> fst)
     (Delivery_district (s2, replicate 123 0) 55 1 8 1) = Some [Some 1] \<and>
   map no_1 (newOrderTbl s4) = [- 1, 3] \<and> (- 1 :: int32) <s 3 \<and>
   map_option (map no_1 \<circ> newOrderTbl \<circ> fst)
     (Delivery_district (s4, replicate 123 0) 55 1 8 1) = Some [- 1] \<and>
   map_option (map o_6 \<circ> orderTbl \<circ> fst)
     (Delivery_district (s4, replicate 123 0) 55 1 8 1) = Some [- 1, 8]"
  by code_simp

text \<open>
  C2, amended. When the district \<open>x18\<close> of 1 to 10 has a pending new_order row for the
  warehouse \<open>x12\<close>, the iteration of the Delivery loop for that district removes the
  new_order row of the district whose order id is the least as an unsigned number, which
  is the smallest order id when no pending id of the district is negative; it sets
  \<open>o_carrier_id\<close> (\<open>o_6\<close>) of the order row with that key to the carrier \<open>x13\<close>, sets
  \<open>ol_delivery_d\<close> (\<open>ol_7\<close>) of every order_line row with that key to the timestamp \<open>x11\<close>,
  adds the sum of the \<open>ol_amount\<close> (\<open>ol_9\<close>) of those lines to the balance \<open>c_17\<close> of the
  order's customer and adds 1 to the customer's delivery counter \<open>c_20\<close>, leaving the
  payment counter \<open>c_19\<close> and every other field as they were; the order id is recorded in
  \<open>orderIDs\<close> and nothing else changes. The hypotheses are those of a valid database:
  each pending new_order row of the district has its order row, and each order of the
  district has its customer row.
\<close>

theorem Delivery_district_pending:
  fixes s :: "('d::{zero,plus}) store"
  assumes rng: "1 \<le> sint x18" "sint x18 \<le> 10" "10 \<le> length orderIDs"
    and pend: "\<exists>r\<in>set (newOrderTbl s). no_2 r = x18 \<and> no_3 r = x12"
    and ord: "\<forall>r\<in>set (newOrderTbl s). no_2 r = x18 \<and> no_3 r = x12 \<longrightarrow>
      (\<exists>q\<in>set (orderTbl s). o_1 q = no_1 r \<and> o_2 q = x18 \<and> o_3 q = x12)"
    and cust: "\<forall>q\<in>set (orderTbl s). o_2 q = x18 \<and> o_3 q = x12 \<longrightarrow>
      ArrayIndex_get (customerTbl s)
        (SEntry21_IIISSSSSSSSSTSDDDDIIS_Idx1f1t3001_2f1t11_3f1t2_hash (o_4 q) x18 x12) \<noteq> None"
  shows "\<exists>h ho c s'.
    h < length (newOrderTbl s) \<and> no_2 (newOrderTbl s ! h) = x18 \<and> no_3 (newOrderTbl s ! h) = x12 \<and>
    (\<forall>r\<in>set (newOrderTbl s). no_2 r = x18 \<and> no_3 r = x12 \<longrightarrow> no_1 (newOrderTbl s ! h) \<le> no_1 r) \<and>
    ((\<forall>r\<in>set (newOrderTbl s). no_2 r = x18 \<and> no_3 r = x12 \<longrightarrow> 0 \<le>s no_1 r) \<longrightarrow>
     (\<forall>r\<in>set (newOrderTbl s). no_2 r = x18 \<and> no_3 r = x12 \<longrightarrow> no_1 (newOrderTbl s ! h) \<le>s no_1 r)) \<and>
    ho < length (orderTbl s) \<and> o_1 (orderTbl s ! ho) = no_1 (newOrderTbl s ! h) \<and>
    o_2 (orderTbl s ! ho) = x18 \<and> o_3 (orderTbl s ! ho) = x12 \<and>
    ArrayIndex_get (customerTbl s)
      (SEntry21_IIISSSSSSSSSTSDDDDIIS_Idx1f1t3001_2f1t11_3f1t2_hash (o_4 (orderTbl s ! ho)) x18 x12) = Some c \<and>
    Delivery_district (s, orderIDs) x11 x12 x13 x18 =
      Some (s', orderIDs[nat (sint x18 - 1) := no_1 (newOrderTbl s ! h)]) \<and>
    Delivery_loop x11 x12 x13 x18 (s, orderIDs) =
      Delivery_loop x11 x12 x13 (x18 + 1) (s', orderIDs[nat (sint x18 - 1) := no_1 (newOrderTbl s ! h)]) \<and>
    newOrderTbl s' = del h (newOrderTbl s) \<and>
    orderTbl s' = (orderTbl s)[ho := (orderTbl s ! ho)\<lparr>o_6 := x13\<rparr>] \<and>
    orderLineTbl s' =
      map (\<lambda>l. if ol_1 l = no_1 (newOrderTbl s ! h) \<and> ol_2 l = x18 \<and> ol_3 l = x12
                then l\<lparr>ol_7 := x11\<rparr> else l) (orderLineTbl s) \<and>
    customerTbl s' = (customerTbl s)
      [SEntry21_IIISSSSSSSSSTSDDDDIIS_Idx1f1t3001_2f1t11_3f1t2_hash (o_4 (orderTbl s ! ho)) x18 x12 :=
         Some (c\<lparr>c_17 := c_17 c + foldl (\<lambda>a l. a + ol_9 l) 0
                     (filter (\<lambda>l. ol_1 l = no_1 (newOrderTbl s ! h) \<and> ol_2 l = x18 \<and> ol_3 l = x12)
                        (orderLineTbl s)),
                 c_20 := c_20 c + 1\<rparr>)] \<and>
    warehouseTbl s' = warehouseTbl s \<and> districtTbl s' = districtTbl s \<and> itemTbl s' = itemTbl s \<and>
    stockTbl s' = stockTbl s \<and> historyTbl s' = historyTbl s"
proof -
  from TreeIndex_get_pending [OF pend]
  obtain h where get: "TreeIndex_get (\<lambda>r. SEntry3_III_Idx23_cmp x18 x12 r = 0)
        SEntry3_III_Idx23_Ordering_cmp (newOrderTbl s) = Some h"
    and h: "h < length (newOrderTbl s)"
    and key: "no_2 (newOrderTbl s ! h) = x18" "no_3 (newOrderTbl s ! h) = x12"
    and least: "\<forall>r\<in>set (newOrderTbl s). no_2 r = x18 \<and> no_3 r = x12 \<longrightarrow>
      no_1 (newOrderTbl s ! h) \<le> no_1 r"
    by blast
  let ?r = "newOrderTbl s ! h"
  have rin: "?r \<in> set (newOrderTbl s)" using h by simp
  have sleast: "(\<forall>r\<in>set (newOrderTbl s). no_2 r = x18 \<and> no_3 r = x12 \<longrightarrow> 0 \<le>s no_1 r) \<longrightarrow>
     (\<forall>r\<in>set (newOrderTbl s). no_2 r = x18 \<and> no_3 r = x12 \<longrightarrow> no_1 ?r \<le>s no_1 r)"
    using h key least by (rule pending_signed_least)
  from pending_order_customer [OF rin key ord cust]
  obtain ho c where fp: "first_pos (\<lambda>q. SEntry8_IIIITIIB_Idx123_cmp (no_1 ?r) x18 x12 q = 0)
        (orderTbl s) = Some ho"
    and ho: "ho < length (orderTbl s)"
    and okey: "o_1 (orderTbl s ! ho) = no_1 ?r" "o_2 (orderTbl s ! ho) = x18" "o_3 (orderTbl s ! ho) = x12"
    and c: "ArrayIndex_get (customerTbl s)
      (SEntry21_IIISSSSSSSSSTSDDDDIIS_Idx1f1t3001_2f1t11_3f1t2_hash (o_4 (orderTbl s ! ho)) x18 x12) = Some c"
    by blast
  let ?L = "\<lambda>l. ol_1 l = no_1 ?r \<and> ol_2 l = x18 \<and> ol_3 l = x12"
  let ?s' = "s\<lparr>customerTbl := (customerTbl s)
      [SEntry21_IIISSSSSSSSSTSDDDDIIS_Idx1f1t3001_2f1t11_3f1t2_hash (o_4 (orderTbl s ! ho)) x18 x12 :=
         Some (c\<lparr>c_17 := c_17 c + foldl (\<lambda>a l. a + ol_9 l) 0 (filter ?L (orderLineTbl s)),
                 c_20 := c_20 c + 1\<rparr>)],
      orderTbl := (orderTbl s)[ho := (orderTbl s ! ho)\<lparr>o_6 := x13\<rparr>],
      newOrderTbl := del h (newOrderTbl s),
      orderLineTbl := map (\<lambda>l. if ?L l then l\<lparr>ol_7 := x11\<rparr> else l) (orderLineTbl s)\<rparr>"
  have body: "Delivery_district (s, orderIDs) x11 x12 x13 x18 =
      Some (?s', orderIDs[nat (sint x18 - 1) := no_1 ?r])"
    using rng get fp c by (rule Delivery_district_run)
  have "x18 \<le>s 10" using rng(2) by (simp add: word_sle_eq)
  then have loop: "Delivery_loop x11 x12 x13 x18 (s, orderIDs) =
      Delivery_loop x11 x12 x13 (x18 + 1) (?s', orderIDs[nat (sint x18 - 1) := no_1 ?r])"
    using body by (rule Delivery_loop_step)
  have proj: "newOrderTbl ?s' = del h (newOrderTbl s)"
    "orderTbl ?s' = (orderTbl s)[ho := (orderTbl s ! ho)\<lparr>o_6 := x13\<rparr>]"
    "orderLineTbl ?s' = map (\<lambda>l. if ?L l then l\<lparr>ol_7 := x11\<rparr> else l) (orderLineTbl s)"
    "customerTbl ?s' = (customerTbl s)
      [SEntry21_IIISSSSSSSSSTSDDDDIIS_Idx1f1t3001_2f1t11_3f1t2_hash (o_4 (orderTbl s ! ho)) x18 x12 :=
         Some (c\<lparr>c_17 := c_17 c + foldl (\<lambda>a l. a + ol_9 l) 0 (filter ?L (orderLineTbl s)),
                 c_20 := c_20 c + 1\<rparr>)]"
    "warehouseTbl ?s' = warehouseTbl s" "districtTbl ?s' = districtTbl s" "itemTbl ?s' = itemTbl s"
    "stockTbl ?s' = stockTbl s" "historyTbl ?s' = historyTbl s"
    by simp_all
  show ?thesis
    apply (rule exI [where x = h], rule exI [where x = ho], rule exI [where x = c],
           rule exI [where x = ?s'])
    apply (insert h key least sleast ho okey c body loop proj)
    apply (intro conjI; assumption)
    done
qed



theorem Delivery_district_pending_witness:
  "\<exists>h ho c s'.
    h < length (newOrderTbl s2) \<and> no_2 (newOrderTbl s2 ! h) = 1 \<and> no_3 (newOrderTbl s2 ! h) = 1 \<and>
    (\<forall>r\<in>set (newOrderTbl s2). no_2 r = 1 \<and> no_3 r = 1 \<longrightarrow> no_1 (newOrderTbl s2 ! h) \<le> no_1 r) \<and>
    ((\<forall>r\<in>set (newOrderTbl s2). no_2 r = 1 \<and> no_3 r = 1 \<longrightarrow> 0 \<le>s no_1 r) \<longrightarrow>
     (\<forall>r\<in>set (newOrderTbl s2). no_2 r = 1 \<and> no_3 r = 1 \<longrightarrow> no_1 (newOrderTbl s2 ! h) \<le>s no_1 r)) \<and>
    ho < length (orderTbl s2) \<and> o_1 (orderTbl s2 ! ho) = no_1 (newOrderTbl s2 ! h) \<and>
    o_2 (orderTbl s2 ! ho) = 1 \<and> o_3 (orderTbl s2 ! ho) = 1 \<and>
    ArrayIndex_get (customerTbl s2)
      (SEntry21_IIISSSSSSSSSTSDDDDIIS_Idx1f1t3001_2f1t11_3f1t2_hash (o_4 (orderTbl s2 ! ho)) 1 1) = Some c \<and>
    Delivery_district (s2, (replicate 123 0)) 55 1 8 1 =
      Some (s', (replicate 123 0)[nat (sint (1::int32) - 1) := no_1 (newOrderTbl s2 ! h)]) \<and>
    Delivery_loop 55 1 8 1 (s2, (replicate 123 0)) =
      Delivery_loop 55 1 8 (1 + 1) (s', (replicate 123 0)[nat (sint (1::int32) - 1) := no_1 (newOrderTbl s2 ! h)]) \<and>
    newOrderTbl s' = del h (newOrderTbl s2) \<and>
    orderTbl s' = (orderTbl s2)[ho := (orderTbl s2 ! ho)\<lparr>o_6 := 8\<rparr>] \<and>
    orderLineTbl s' =
      map (\<lambda>l. if ol_1 l = no_1 (newOrderTbl s2 ! h) \<and> ol_2 l = 1 \<and> ol_3 l = 1
                then l\<lparr>ol_7 := 55\<rparr> else l) (orderLineTbl s2) \<and>
    customerTbl s' = (customerTbl s2)
      [SEntry21_IIISSSSSSSSSTSDDDDIIS_Idx1f1t3001_2f1t11_3f1t2_hash (o_4 (orderTbl s2 ! ho)) 1 1 :=
         Some (c\<lparr>c_17 := c_17 c + foldl (\<lambda>a l. a + ol_9 l) 0
                     (filter (\<lambda>l. ol_1 l = no_1 (newOrderTbl s2 ! h) \<and> ol_2 l = 1 \<and> ol_3 l = 1)
                        (orderLineTbl s2)),
                 c_20 := c_20 c + 1\<rparr>)] \<and>
    warehouseTbl s' = warehouseTbl s2 \<and> districtTbl s' = districtTbl s2 \<and> itemTbl s' = itemTbl s2 \<and>
    stockTbl s' = stockTbl s2 \<and> historyTbl s' = historyTbl s2"
proof -
  have h1: "1 \<le> sint (1::int32)" and h2: "sint (1::int32) \<le> 10"
    and h3: "10 \<le> length (replicate 123 (0::int32))" by simp_all
  have h4: "\<exists>r\<in>set (newOrderTbl s2). no_2 r = 1 \<and> no_3 r = 1" by (simp add: s2_def)
  have h5: "\<forall>r\<in>set (newOrderTbl s2). no_2 r = 1 \<and> no_3 r = 1 \<longrightarrow>
      (\<exists>q\<in>set (orderTbl s2). o_1 q = no_1 r \<and> o_2 q = 1 \<and> o_3 q = 1)" by (simp add: s2_def)
  have h6: "\<forall>q\<in>set (orderTbl s2). o_2 q = 1 \<and> o_3 q = 1 \<longrightarrow>
      ArrayIndex_get (customerTbl s2)
        (SEntry21_IIISSSSSSSSSTSDDDDIIS_Idx1f1t3001_2f1t11_3f1t2_hash (o_4 q) 1 1) \<noteq> None"
    by (simp add: s2_def s0_def ArrayIndex_get_def
          SEntry21_IIISSSSSSSSSTSDDDDIIS_Idx1f1t3001_2f1t11_3f1t2_hash_def)
  show ?thesis by (rule Delivery_district_pending [OF h1 h2 h3 h4 h5 h6])
qed

lemma Delivery_s2:
  "map_option (\<lambda>(s, ids). (newOrderTbl s, map o_6 (orderTbl s), map ol_7 (orderLineTbl s),
       map_option c_17 (customerTbl s ! 0), map_option c_20 (customerTbl s ! 0), take 2 ids))
     (Delivery_district (s2, replicate 123 0) 55 1 8 1) =
   Some ([\<lparr>no_1 = 9, no_2 = 1, no_3 = 1\<rparr>], [- 1, 8], [55, 0, 55], Some 11, Some 1, [7, 0])"
  by code_simp

section \<open>Properties of PaymentTx\<close>

lemma sint_word_of_int32: "- (2 ^ 31) \<le> k \<Longrightarrow> k < 2 ^ 31 \<Longrightarrow> sint (word_of_int k :: int32) = k"
  by (simp add: sint_sbintrunc' signed_take_bit_int_eq_self)

lemma sint_word_of_nat32: "n < 2 ^ 31 \<Longrightarrow> sint (word_of_nat n :: int32) = int n"
proof -
  assume "n < 2 ^ 31"
  then have "int n < 2 ^ 31" by (metis of_nat_less_iff of_nat_numeral of_nat_power)
  then have "sint (word_of_int (int n) :: int32) = int n" by (intro sint_word_of_int32) simp_all
  then show ?thesis by simp
qed

lemma sdiv32_2: "n < 2 ^ 31 \<Longrightarrow> sdiv32 (word_of_nat n) 2 = word_of_int (int (n div 2))"
proof -
  assume n: "n < 2 ^ 31"
  have "int n sdiv 2 = int n div 2"
    by (cases "n = 0") (simp_all add: signed_divide_int_eq_divide_int)
  then show ?thesis using n by (simp add: sdiv32_def sint_word_of_nat32 zdiv_int)
qed

lemma smod32_2: "n < 2 ^ 31 \<Longrightarrow> smod32 (word_of_nat n) 2 = 0 \<longleftrightarrow> even n"
proof -
  assume n: "n < 2 ^ 31"
  have m: "int n smod 2 = int n mod 2" by (rule smod_mod_positive) simp_all
  show ?thesis
  proof (cases "even n")
    case True
    then have "int n mod 2 = 0" by presburger
    then show ?thesis using True n by (simp add: smod32_def sint_word_of_nat32 m)
  next
    case False
    then have "int n mod 2 = 1" by presburger
    then show ?thesis using False n by (simp add: smod32_def sint_word_of_nat32 m)
  qed
qed

lemma SEntry21_IIISSSSSSSSSTSDDDDIIS_Idx236_cmp_eq_0:
  "SEntry21_IIISSSSSSSSSTSDDDDIIS_Idx236_cmp x4515 x4518 x4522 x4514 = 0 \<longleftrightarrow>
    c_2 x4514 = x4515 \<and> c_3 x4514 = x4518 \<and> c_6 x4514 = x4522"
  by (auto simp add: SEntry21_IIISSSSSSSSSTSDDDDIIS_Idx236_cmp_def Let_def)

lemma Payment_matches_set:
  "set (Payment_matches x4531 x194 x195 x197) =
    {h. h < length x4531 \<and> (\<exists>c. x4531 ! h = Some c \<and> c_2 c = x195 \<and> c_3 c = x194 \<and> c_6 c = x197)}"
proof -
  have "(case x4531 ! h of None \<Rightarrow> False
         | Some c \<Rightarrow> SEntry21_IIISSSSSSSSSTSDDDDIIS_Idx236_cmp x195 x194 x197 c = 0) =
    (\<exists>c. x4531 ! h = Some c \<and> c_2 c = x195 \<and> c_3 c = x194 \<and> c_6 c = x197)" for h
  proof (cases "x4531 ! h")
    case None
    then show ?thesis by simp
  next
    case (Some a)
    then show ?thesis by (simp add: SEntry21_IIISSSSSSSSSTSDDDDIIS_Idx236_cmp_eq_0)
  qed
  then show ?thesis unfolding Payment_matches_def by simp
qed

lemma Payment_matches_length: "length (Payment_matches x4531 x194 x195 x197) \<le> length x4531"
  unfolding Payment_matches_def using length_filter_le [of _ "[0..<length x4531]"] by simp

lemma median_index:
  assumes n: "n < 2 ^ 31" and len: "length w = n"
  shows "arr_get w (if smod32 (word_of_nat n) 2 = 0 then sdiv32 (word_of_nat n) 2 - 1
                    else sdiv32 (word_of_nat n) 2) =
    (if n = 0 then None else Some (w ! (if even n then n div 2 - 1 else n div 2)))"
proof -
  have n': "int (n div 2) < 2 ^ 31"
    using n by (metis div_le_dividend le_less_trans of_nat_less_iff of_nat_numeral of_nat_power)
  have d: "sint (word_of_int (int (n div 2)) :: int32) = int (n div 2)"
    using n' by (intro sint_word_of_int32) simp_all
  show ?thesis
  proof (cases "even n")
    case False
    then have lt: "n div 2 < n" and nz: "n \<noteq> 0" by presburger+
    have "arr_get w (word_of_int (int (n div 2))) = Some (w ! (n div 2))"
      using d lt len by (simp add: arr_get_def word_sle_eq)
    then show ?thesis using False nz n by (simp add: sdiv32_2 smod32_2)
  next
    case True
    show ?thesis
    proof (cases "n = 0")
      case True
      have "arr_get w (- 1 :: int32) = None" by (simp add: arr_get_def word_sle_eq)
      then show ?thesis using True by (simp add: sdiv32_def smod32_def)
    next
      case False
      with True have ge: "1 \<le> n div 2" by presburger
      have "- (2 ^ 31) \<le> int (n div 2) - 1" and "int (n div 2) - 1 < 2 ^ 31"
        using ge n' by linarith+
      then have "sint (word_of_int (int (n div 2) - 1) :: int32) = int (n div 2) - 1"
        by (rule sint_word_of_int32)
      then have s: "sint (word_of_int (int (n div 2)) - 1 :: int32) = int (n div 2) - 1"
        by simp
      have lt: "n div 2 - 1 < n" using ge by linarith
      have nn: "nat (int (n div 2) - 1) = n div 2 - 1" by simp
      have z: "0 \<le> int (n div 2) - 1" using ge by simp
      have "arr_get w (word_of_int (int (n div 2)) - 1) = Some (w ! (n div 2 - 1))"
        unfolding arr_get_def word_sle_eq s nn using z lt len by simp
      then show ?thesis using True False n by (simp add: sdiv32_2 smod32_2)
    qed
  qed
qed

lemma Payment_customer_index:
  assumes by_name: "0 <s x193" and size: "length x4531 < 2 ^ 31"
    and len: "length (srt (Payment_less x4531) (Payment_matches x4531 x194 x195 x197)) =
      length (Payment_matches x4531 x194 x195 x197)"
  shows "Payment_customer srt x4531 x193 x194 x195 x196 x197 =
    (if length (Payment_matches x4531 x194 x195 x197) = 0 then None
     else Some (srt (Payment_less x4531) (Payment_matches x4531 x194 x195 x197) !
       (if even (length (Payment_matches x4531 x194 x195 x197))
        then length (Payment_matches x4531 x194 x195 x197) div 2 - 1
        else length (Payment_matches x4531 x194 x195 x197) div 2)))"
proof -
  have n: "length (Payment_matches x4531 x194 x195 x197) < 2 ^ 31"
    using Payment_matches_length [of x4531 x194 x195 x197] size by linarith
  have "Payment_customer srt x4531 x193 x194 x195 x196 x197 =
    arr_get (srt (Payment_less x4531) (Payment_matches x4531 x194 x195 x197))
      (if smod32 (word_of_nat (length (Payment_matches x4531 x194 x195 x197))) 2 = 0
       then sdiv32 (word_of_nat (length (Payment_matches x4531 x194 x195 x197))) 2 - 1
       else sdiv32 (word_of_nat (length (Payment_matches x4531 x194 x195 x197))) 2)"
    using by_name by (simp add: Payment_customer_def Let_def)
  then show ?thesis unfolding median_index [OF n len] .
qed

lemma strcmpi_swap: "strcmpi b a = - strcmpi a b"
  by (induction a b rule: strcmpi.induct) auto

lemma Payment_less_rows:
  "x4531 ! a = Some r1 \<Longrightarrow> x4531 ! b = Some r2 \<Longrightarrow>
   Payment_less x4531 a b \<longleftrightarrow> strcmpi (c_4 r1) (c_4 r2) < 0"
  by (simp add: Payment_less_def Let_def)

text \<open>
  C3. With the by-name flag \<open>x193\<close> set, the customers whose district, warehouse and last
  name are \<open>x195\<close>, \<open>x194\<close> and \<open>x197\<close> are collected; \<open>std::sort\<close> leaves a permutation \<open>w\<close>
  of them that is ordered by the first name under \<open>strcmpi\<close>; of the \<open>n\<close> matches the one
  at the index \<open>n div 2\<close> is taken when \<open>n\<close> is odd and the one at \<open>n div 2 - 1\<close> when \<open>n\<close> is
  even: with 1, 2 and 3 matches the indexes 0, 0 and 1. With no match the vector is
  read at the index \<open>-1\<close>.
\<close>

theorem Payment_customer_by_name:
  assumes by_name: "0 <s x193" and size: "length x4531 < 2 ^ 31"
    and v: "v = Payment_matches x4531 x194 x195 x197"
    and w: "w = srt (Payment_less x4531) v"
    and perm: "mset w = mset v"
    and ord: "sorted_wrt (\<lambda>a b. \<not> Payment_less x4531 b a) w"
    and n: "n = length v"
  shows "set v = {h. h < length x4531 \<and>
                    (\<exists>c. x4531 ! h = Some c \<and> c_2 c = x195 \<and> c_3 c = x194 \<and> c_6 c = x197)} \<and>
    distinct v \<and>
    (\<forall>i j r1 r2. i < j \<and> j < n \<and> x4531 ! (w ! i) = Some r1 \<and> x4531 ! (w ! j) = Some r2 \<longrightarrow>
       strcmpi (c_4 r1) (c_4 r2) \<le> 0) \<and>
    Payment_customer srt x4531 x193 x194 x195 x196 x197 =
      (if n = 0 then None else Some (w ! (if even n then n div 2 - 1 else n div 2))) \<and>
    (n = 1 \<longrightarrow> Payment_customer srt x4531 x193 x194 x195 x196 x197 = Some (w ! 0)) \<and>
    (n = 2 \<longrightarrow> Payment_customer srt x4531 x193 x194 x195 x196 x197 = Some (w ! 0)) \<and>
    (n = 3 \<longrightarrow> Payment_customer srt x4531 x193 x194 x195 x196 x197 = Some (w ! 1))"
proof -
  have c1: "set v = {h. h < length x4531 \<and>
                    (\<exists>c. x4531 ! h = Some c \<and> c_2 c = x195 \<and> c_3 c = x194 \<and> c_6 c = x197)}"
    unfolding v by (rule Payment_matches_set)
  have c2: "distinct v" unfolding v Payment_matches_def by simp
  have len: "length w = n" unfolding n using perm by (rule mset_eq_length)
  have c3: "\<forall>i j r1 r2. i < j \<and> j < n \<and> x4531 ! (w ! i) = Some r1 \<and> x4531 ! (w ! j) = Some r2 \<longrightarrow>
       strcmpi (c_4 r1) (c_4 r2) \<le> 0"
  proof (intro allI impI)
    fix i j r1 r2
    assume a: "i < j \<and> j < n \<and> x4531 ! (w ! i) = Some r1 \<and> x4531 ! (w ! j) = Some r2"
    then have "i < j" and "j < length w" using len by simp_all
    then have "\<not> Payment_less x4531 (w ! j) (w ! i)"
      using ord by (simp add: sorted_wrt_iff_nth_less)
    moreover have "Payment_less x4531 (w ! j) (w ! i) \<longleftrightarrow> strcmpi (c_4 r2) (c_4 r1) < 0"
      using a by (intro Payment_less_rows) simp_all
    ultimately have "\<not> strcmpi (c_4 r2) (c_4 r1) < 0" by simp
    then show "strcmpi (c_4 r1) (c_4 r2) \<le> 0" using strcmpi_swap [of "c_4 r1" "c_4 r2"] by linarith
  qed
  have len': "length (srt (Payment_less x4531) (Payment_matches x4531 x194 x195 x197)) =
      length (Payment_matches x4531 x194 x195 x197)"
    using len unfolding n w v .
  have c4: "Payment_customer srt x4531 x193 x194 x195 x196 x197 =
      (if n = 0 then None else Some (w ! (if even n then n div 2 - 1 else n div 2)))"
    unfolding n w v by (rule Payment_customer_index [where srt = srt, OF by_name size len'])
  have c5: "n = 1 \<longrightarrow> Payment_customer srt x4531 x193 x194 x195 x196 x197 = Some (w ! 0)"
    unfolding c4 by simp
  have c6: "n = 2 \<longrightarrow> Payment_customer srt x4531 x193 x194 x195 x196 x197 = Some (w ! 0)"
    unfolding c4 by simp
  have c7: "n = 3 \<longrightarrow> Payment_customer srt x4531 x193 x194 x195 x196 x197 = Some (w ! 1)"
    unfolding c4 by simp
  from c1 c2 c3 c4 c5 c6 c7 show ?thesis by (intro conjI)
qed

theorem Payment_customer_by_name_witness:
  "0 <s (1::int32) \<and> length (customerTbl s3) < 2 ^ 31 \<and>
   Payment_matches (customerTbl s3) 1 1 ''BARBARBAR'' = [0, 10, 30] \<and>
   isort (Payment_less (customerTbl s3)) [0, 10, 30] = [30, 10, 0] \<and>
   map (map_option c_4 \<circ> (!) (customerTbl s3)) [30, 10, 0] = [Some ''alice'', Some ''Bob'', Some ''dan''] \<and>
   Payment_customer isort (customerTbl s3) 1 1 1 0 ''BARBARBAR'' = Some 10"
proof -
  have h1: "0 <s (1::int32)" by (simp add: word_sless_alt)
  have h2: "length (customerTbl s3) < 2 ^ 31" by (simp add: s3_def)
  have h3: "[0, 10, 30] = Payment_matches (customerTbl s3) 1 1 ''BARBARBAR''" by code_simp
  have h4: "[30, 10, 0] = isort (Payment_less (customerTbl s3)) [0, 10, 30]" by code_simp
  have h5: "mset [30, 10, 0::nat] = mset [0, 10, 30]" by simp
  have h6: "sorted_wrt (\<lambda>a b. \<not> Payment_less (customerTbl s3) b a) [30, 10, 0]" by code_simp
  have h7: "(3::nat) = length [0, 10, 30::nat]" by simp
  have names: "map (map_option c_4 \<circ> (!) (customerTbl s3)) [30, 10, 0] =
      [Some ''alice'', Some ''Bob'', Some ''dan'']" by code_simp
  from Payment_customer_by_name [where srt = isort, OF h1 h2 h3 h4 h5 h6 h7, of 0]
  have "Payment_customer isort (customerTbl s3) 1 1 1 0 ''BARBARBAR'' = Some 10" by simp
  then show ?thesis using h1 h2 h3 h4 names by simp
qed

lemma strstr_sublist: "strstr hay n \<noteq> None \<longleftrightarrow> (\<exists>pre post. hay = pre @ n @ post)"
proof -
  have "strstr hay n \<noteq> None \<longleftrightarrow> sublist n hay"
    by (induction hay) (auto simp add: sublist_Cons_right)
  then show ?thesis by (simp add: sublist_def)
qed

text \<open>
  C5. \<open>PaymentTx\<close> on a warehouse and a district that have a row and a customer that the
  lookup finds: the customer's row is written back with the balance \<open>c_17\<close> increased by
  the amount \<open>x198\<close>, and with the data \<open>c_21\<close> replaced exactly when \<open>BC\<close> occurs in the
  credit \<open>c_14\<close>; the new data is the output of the format
  \<open>%d %d %d %d %d $%f %s | %s\<close> on the customer's id, \<open>x195\<close>, \<open>x194\<close>, \<open>x192\<close>, \<open>x191\<close>, the
  amount, the date string and the old data, cut after 500 bytes. No other column of the
  row changes.
\<close>

theorem PaymentTx_customer_data:
  fixes x198 :: "'d::plus"
  assumes w: "ArrayIndex_get (warehouseTbl s) (SEntry9_ISSSSSSDD_Idx1f1t2_hash x191) = Some x10956"
    and d: "ArrayIndex_get (districtTbl s) (SEntry11_IISSSSSSDDI_Idx1f1t11_2f1t2_hash x192 x191) =
      Some x10962"
    and c: "Payment_customer srt (customerTbl s) x193 x194 x195 x196 x197 = Some ite15946"
    and r: "ArrayIndex_get (customerTbl s) ite15946 = Some x7872"
  shows "\<exists>s' x7872'.
    PaymentTx srt fmt_f IntToStrdate deq dmin s x188 x189 x190 x191 x192 x193 x194 x195 x196 x197 x198 =
      Some s' \<and>
    customerTbl s' = (customerTbl s)[ite15946 := Some x7872'] \<and>
    ArrayIndex_get (customerTbl s') ite15946 = Some x7872' \<and>
    x7872' = x7872\<lparr>c_17 := c_17 x7872 + x198, c_21 := c_21 x7872'\<rparr> \<and>
    c_21 x7872' =
      (if \<exists>pre post. c_14 x7872 = pre @ ''BC'' @ post
       then take 500 (fmt_d (c_1 x7872) @ '' '' @ fmt_d x195 @ '' '' @ fmt_d x194 @ '' '' @
                      fmt_d x192 @ '' '' @ fmt_d x191 @ '' $'' @ fmt_f x198 @ '' '' @
                      IntToStrdate x189 @ '' | '' @ c_21 x7872)
       else c_21 x7872)"
proof -
  let ?new = "take 500 (fmt_d (c_1 x7872) @ '' '' @ fmt_d x195 @ '' '' @ fmt_d x194 @ '' '' @
                      fmt_d x192 @ '' '' @ fmt_d x191 @ '' $'' @ fmt_f x198 @ '' '' @
                      IntToStrdate x189 @ '' | '' @ c_21 x7872)"
  let ?c' = "x7872\<lparr>c_17 := c_17 x7872 + x198,
                    c_21 := if strstr (c_14 x7872) ''BC'' \<noteq> None then ?new else c_21 x7872\<rparr>"
  have lt: "ite15946 < length (customerTbl s)" using r by (simp add: ArrayIndex_get_def split: if_splits)
  have run: "\<exists>s'. PaymentTx srt fmt_f IntToStrdate deq dmin s x188 x189 x190 x191 x192 x193 x194
        x195 x196 x197 x198 = Some s' \<and>
      customerTbl s' = (customerTbl s)[ite15946 := Some ?c']"
    unfolding PaymentTx_def by (simp add: w d c r Let_def)
  then obtain s' where s': "PaymentTx srt fmt_f IntToStrdate deq dmin s x188 x189 x190 x191 x192 x193
        x194 x195 x196 x197 x198 = Some s'"
    and tbl: "customerTbl s' = (customerTbl s)[ite15946 := Some ?c']" by (elim exE conjE)
  have get: "ArrayIndex_get (customerTbl s') ite15946 = Some ?c'"
    unfolding tbl using lt by (simp add: ArrayIndex_get_def)
  have row: "?c' = x7872\<lparr>c_17 := c_17 x7872 + x198, c_21 := c_21 ?c'\<rparr>" by simp
  have data: "c_21 ?c' = (if \<exists>pre post. c_14 x7872 = pre @ ''BC'' @ post then ?new else c_21 x7872)"
    using strstr_sublist [of "c_14 x7872" "''BC''"] by simp
  show ?thesis
    apply (rule exI [where x = s'])
    apply (rule exI [where x = ?c'])
    apply (insert s' tbl get row data)
    apply (intro conjI; assumption)
    done
qed

theorem PaymentTx_customer_data_witness:
  "(\<exists>s' x7872'.
    PaymentTx isort (\<lambda>a. ''10.000000'') (\<lambda>t. ''date'') (=) (- 1) s3 0 0 1 1 1 1 1 1 0 ''BARBARBAR'' 10 =
      Some s' \<and>
    customerTbl s' = (customerTbl s3)[10 := Some x7872'] \<and>
    ArrayIndex_get (customerTbl s') 10 = Some x7872' \<and>
    x7872' = (c1\<lparr>c_1 := 2, c_4 := ''Bob'', c_14 := ''BC''\<rparr>)
      \<lparr>c_17 := c_17 (c1\<lparr>c_1 := 2, c_4 := ''Bob'', c_14 := ''BC''\<rparr>) + 10, c_21 := c_21 x7872'\<rparr> \<and>
    c_21 x7872' =
      (if \<exists>pre post. c_14 (c1\<lparr>c_1 := 2, c_4 := ''Bob'', c_14 := ''BC''\<rparr>) = pre @ ''BC'' @ post
       then take 500 (fmt_d (c_1 (c1\<lparr>c_1 := 2, c_4 := ''Bob'', c_14 := ''BC''\<rparr>)) @ '' '' @
                      fmt_d 1 @ '' '' @ fmt_d 1 @ '' '' @ fmt_d 1 @ '' '' @ fmt_d 1 @ '' $'' @
                      ''10.000000'' @ '' '' @ ''date'' @ '' | '' @
                      c_21 (c1\<lparr>c_1 := 2, c_4 := ''Bob'', c_14 := ''BC''\<rparr>))
       else c_21 (c1\<lparr>c_1 := 2, c_4 := ''Bob'', c_14 := ''BC''\<rparr>))) \<and>
   map_option (\<lambda>s'. map_option (\<lambda>r. (c_17 r, c_21 r)) (customerTbl s' ! 10))
     (PaymentTx isort (\<lambda>a. ''10.000000'') (\<lambda>t. ''date'') (=) (- 1) s3 0 0 1 1 1 1 1 1 0 ''BARBARBAR'' 10) =
     Some (Some (10, ''2 1 1 1 1 $10.000000 date | data'')) \<and>
   map_option (\<lambda>s'. map_option (\<lambda>r. (c_17 r, c_21 r)) (customerTbl s' ! 0))
     (PaymentTx isort (\<lambda>a. ''10.000000'') (\<lambda>t. ''date'') (=) (- 1) s3 0 0 1 1 1 0 1 1 1 [] 10) =
     Some (Some (10, ''data''))"
proof -
  have h1: "ArrayIndex_get (warehouseTbl s3) (SEntry9_ISSSSSSDD_Idx1f1t2_hash 1) = Some w1"
    by (simp add: s3_def s0_def ArrayIndex_get_def SEntry9_ISSSSSSDD_Idx1f1t2_hash_def)
  have h2: "ArrayIndex_get (districtTbl s3) (SEntry11_IISSSSSSDDI_Idx1f1t11_2f1t2_hash 1 1) = Some d1"
    by (simp add: s3_def s0_def ArrayIndex_get_def SEntry11_IISSSSSSDDI_Idx1f1t11_2f1t2_hash_def)
  have h3: "Payment_customer isort (customerTbl s3) 1 1 1 0 ''BARBARBAR'' = Some 10" by code_simp
  have h4: "ArrayIndex_get (customerTbl s3) 10 = Some (c1\<lparr>c_1 := 2, c_4 := ''Bob'', c_14 := ''BC''\<rparr>)"
    by (simp add: s3_def ArrayIndex_get_def)
  have bc: "map_option (\<lambda>s'. map_option (\<lambda>r. (c_17 r, c_21 r)) (customerTbl s' ! 10))
     (PaymentTx isort (\<lambda>a. ''10.000000'') (\<lambda>t. ''date'') (=) (- 1) s3 0 0 1 1 1 1 1 1 0 ''BARBARBAR'' 10) =
     Some (Some (10, ''2 1 1 1 1 $10.000000 date | data''))" by code_simp
  have gc: "map_option (\<lambda>s'. map_option (\<lambda>r. (c_17 r, c_21 r)) (customerTbl s' ! 0))
     (PaymentTx isort (\<lambda>a. ''10.000000'') (\<lambda>t. ''date'') (=) (- 1) s3 0 0 1 1 1 0 1 1 1 [] 10) =
     Some (Some (10, ''data''))" by code_simp
  from PaymentTx_customer_data [where fmt_f = "\<lambda>a. ''10.000000''" and IntToStrdate = "\<lambda>t. ''date''",
          OF h1 h2 h3 h4, of "(=)" "- 1" 0 0 1 10] bc gc
  show ?thesis by (intro conjI)
qed

end
